theory Spec2Isabelle
  imports Main
begin

section \<open>The syscall declaration table of \<^verbatim>\<open>zircon/syscalls/definitions.h\<close>\<close>

text \<open>
  The header is a generated list of \<^verbatim>\<open>extern\<close> prototypes. It is embedded twice:
  as its text, line by line (\<open>header_lines\<close>), and as a table of declarations
  (\<open>syscalls\<close>), one record per prototype. \<open>render_header\<close> prints a table in the
  layout of the header, and \<open>header_is_rendering\<close> shows that printing \<open>syscalls\<close>
  gives back the text.
\<close>

subsection \<open>Declarations\<close>

text \<open>
  A C type as it occurs in the header: a plain type name (\<^verbatim>\<open>zx_handle_t\<close>), a
  pointer to one (\<^verbatim>\<open>zx_handle_t*\<close>), or a pointer to a const one
  (\<^verbatim>\<open>const void*\<close>).
\<close>

datatype ctype = Val string | Ptr string | ConstPtr string

text \<open>
  The function attributes \<^verbatim>\<open>__LEAF_FN\<close>, \<^verbatim>\<open>__CONST\<close> and \<^verbatim>\<open>__NO_RETURN\<close>.
  \<^verbatim>\<open>__NONNULL((i, ...))\<close> takes arguments and is the field \<open>nonnull\<close> of a declaration.
  The constructors carry a prefix because \<open>CONST\<close> is a reserved word of the term
  language.
\<close>

datatype fn_attr = ATTR_LEAF_FN | ATTR_CONST | ATTR_NO_RETURN

text \<open>
  A parameter \<^verbatim>\<open>ZX_SYSCALL_PARAM_ATTR(tag) type name\<close>; \<open>tag\<close> is \<open>None\<close> when the
  parameter has no \<^verbatim>\<open>ZX_SYSCALL_PARAM_ATTR\<close>.
\<close>

record param =
  tag :: "string option"
  ptype :: ctype
  pname :: string

text \<open>
  A prototype \<^verbatim>\<open>extern ret name(params) __NONNULL((nonnull)) attrs;\<close>. The parameter
  list \<^verbatim>\<open>(void)\<close> is \<open>params = []\<close>; a prototype without \<^verbatim>\<open>__NONNULL\<close> has
  \<open>nonnull = []\<close>.
\<close>

record decl =
  ret :: ctype
  name :: string
  params :: "param list"
  nonnull :: "nat list"
  attrs :: "fn_attr list"

subsection \<open>The header\<close>

text \<open>
  The prototypes are given in sixteen parts of at most 22 declarations each, in the
  order of the file: \<open>header_lines_k\<close> is the text of part \<open>k\<close> and \<open>syscalls_k\<close>
  its table. Every prototype is followed by one empty line.
\<close>

text \<open>Lines 5 to 78 of the header: \<^verbatim>\<open>zx_clock_get\<close> to \<^verbatim>\<open>_zx_system_get_version\<close>.\<close>

definition header_lines_1 :: "string list" where
  "header_lines_1 = [
    ''extern zx_time_t zx_clock_get('',
    ''    zx_clock_t clock_id) __LEAF_FN;'',
    '''',
    ''extern zx_time_t _zx_clock_get('',
    ''    zx_clock_t clock_id) __LEAF_FN;'',
    '''',
    ''extern zx_status_t zx_clock_get_new('',
    ''    zx_clock_t clock_id,'',
    ''    zx_time_t* out) __NONNULL((2)) __LEAF_FN;'',
    '''',
    ''extern zx_status_t _zx_clock_get_new('',
    ''    zx_clock_t clock_id,'',
    ''    zx_time_t* out) __NONNULL((2)) __LEAF_FN;'',
    '''',
    ''extern zx_time_t zx_clock_get_monotonic('',
    ''    void) __LEAF_FN;'',
    '''',
    ''extern zx_time_t _zx_clock_get_monotonic('',
    ''    void) __LEAF_FN;'',
    '''',
    ''extern zx_status_t zx_nanosleep('',
    ''    zx_time_t deadline) __LEAF_FN;'',
    '''',
    ''extern zx_status_t _zx_nanosleep('',
    ''    zx_time_t deadline) __LEAF_FN;'',
    '''',
    ''extern zx_ticks_t zx_ticks_get('',
    ''    void) __LEAF_FN;'',
    '''',
    ''extern zx_ticks_t _zx_ticks_get('',
    ''    void) __LEAF_FN;'',
    '''',
    ''extern zx_ticks_t zx_ticks_per_second('',
    ''    void) __LEAF_FN __CONST;'',
    '''',
    ''extern zx_ticks_t _zx_ticks_per_second('',
    ''    void) __LEAF_FN __CONST;'',
    '''',
    ''extern zx_time_t zx_deadline_after('',
    ''    zx_duration_t nanoseconds) __LEAF_FN;'',
    '''',
    ''extern zx_time_t _zx_deadline_after('',
    ''    zx_duration_t nanoseconds) __LEAF_FN;'',
    '''',
    ''extern zx_status_t zx_clock_adjust('',
    ''    ZX_SYSCALL_PARAM_ATTR(handle_use) zx_handle_t handle,'',
    ''    zx_clock_t clock_id,'',
    ''    int64_t offset) __LEAF_FN;'',
    '''',
    ''extern zx_status_t _zx_clock_adjust('',
    ''    ZX_SYSCALL_PARAM_ATTR(handle_use) zx_handle_t handle,'',
    ''    zx_clock_t clock_id,'',
    ''    int64_t offset) __LEAF_FN;'',
    '''',
    ''extern uint32_t zx_system_get_dcache_line_size('',
    ''    void) __LEAF_FN __CONST;'',
    '''',
    ''extern uint32_t _zx_system_get_dcache_line_size('',
    ''    void) __LEAF_FN __CONST;'',
    '''',
    ''extern uint32_t zx_system_get_num_cpus('',
    ''    void) __LEAF_FN __CONST;'',
    '''',
    ''extern uint32_t _zx_system_get_num_cpus('',
    ''    void) __LEAF_FN __CONST;'',
    '''',
    ''extern zx_status_t zx_system_get_version('',
    ''    char* version,'',
    ''    size_t version_size) __LEAF_FN;'',
    '''',
    ''extern zx_status_t _zx_system_get_version('',
    ''    char* version,'',
    ''    size_t version_size) __LEAF_FN;'',
    '''']"

definition syscalls_1 :: "decl list" where
  "syscalls_1 = [
    \<lparr>ret = Val ''zx_time_t'', name = ''zx_clock_get'',
     params = [\<lparr>tag = None, ptype = Val ''zx_clock_t'', pname = ''clock_id''\<rparr>],
     nonnull = [], attrs = [ATTR_LEAF_FN]\<rparr>,
    \<lparr>ret = Val ''zx_time_t'', name = ''_zx_clock_get'',
     params = [\<lparr>tag = None, ptype = Val ''zx_clock_t'', pname = ''clock_id''\<rparr>],
     nonnull = [], attrs = [ATTR_LEAF_FN]\<rparr>,
    \<lparr>ret = Val ''zx_status_t'', name = ''zx_clock_get_new'',
     params = [\<lparr>tag = None, ptype = Val ''zx_clock_t'', pname = ''clock_id''\<rparr>,
       \<lparr>tag = None, ptype = Ptr ''zx_time_t'', pname = ''out''\<rparr>],
     nonnull = [2], attrs = [ATTR_LEAF_FN]\<rparr>,
    \<lparr>ret = Val ''zx_status_t'', name = ''_zx_clock_get_new'',
     params = [\<lparr>tag = None, ptype = Val ''zx_clock_t'', pname = ''clock_id''\<rparr>,
       \<lparr>tag = None, ptype = Ptr ''zx_time_t'', pname = ''out''\<rparr>],
     nonnull = [2], attrs = [ATTR_LEAF_FN]\<rparr>,
    \<lparr>ret = Val ''zx_time_t'', name = ''zx_clock_get_monotonic'',
     params = [],
     nonnull = [], attrs = [ATTR_LEAF_FN]\<rparr>,
    \<lparr>ret = Val ''zx_time_t'', name = ''_zx_clock_get_monotonic'',
     params = [],
     nonnull = [], attrs = [ATTR_LEAF_FN]\<rparr>,
    \<lparr>ret = Val ''zx_status_t'', name = ''zx_nanosleep'',
     params = [\<lparr>tag = None, ptype = Val ''zx_time_t'', pname = ''deadline''\<rparr>],
     nonnull = [], attrs = [ATTR_LEAF_FN]\<rparr>,
    \<lparr>ret = Val ''zx_status_t'', name = ''_zx_nanosleep'',
     params = [\<lparr>tag = None, ptype = Val ''zx_time_t'', pname = ''deadline''\<rparr>],
     nonnull = [], attrs = [ATTR_LEAF_FN]\<rparr>,
    \<lparr>ret = Val ''zx_ticks_t'', name = ''zx_ticks_get'',
     params = [],
     nonnull = [], attrs = [ATTR_LEAF_FN]\<rparr>,
    \<lparr>ret = Val ''zx_ticks_t'', name = ''_zx_ticks_get'',
     params = [],
     nonnull = [], attrs = [ATTR_LEAF_FN]\<rparr>,
    \<lparr>ret = Val ''zx_ticks_t'', name = ''zx_ticks_per_second'',
     params = [],
     nonnull = [], attrs = [ATTR_LEAF_FN, ATTR_CONST]\<rparr>,
    \<lparr>ret = Val ''zx_ticks_t'', name = ''_zx_ticks_per_second'',
     params = [],
     nonnull = [], attrs = [ATTR_LEAF_FN, ATTR_CONST]\<rparr>,
    \<lparr>ret = Val ''zx_time_t'', name = ''zx_deadline_after'',
     params = [\<lparr>tag = None, ptype = Val ''zx_duration_t'', pname = ''nanoseconds''\<rparr>],
     nonnull = [], attrs = [ATTR_LEAF_FN]\<rparr>,
    \<lparr>ret = Val ''zx_time_t'', name = ''_zx_deadline_after'',
     params = [\<lparr>tag = None, ptype = Val ''zx_duration_t'', pname = ''nanoseconds''\<rparr>],
     nonnull = [], attrs = [ATTR_LEAF_FN]\<rparr>,
    \<lparr>ret = Val ''zx_status_t'', name = ''zx_clock_adjust'',
     params = [\<lparr>tag = Some ''handle_use'', ptype = Val ''zx_handle_t'', pname = ''handle''\<rparr>,
       \<lparr>tag = None, ptype = Val ''zx_clock_t'', pname = ''clock_id''\<rparr>,
       \<lparr>tag = None, ptype = Val ''int64_t'', pname = ''offset''\<rparr>],
     nonnull = [], attrs = [ATTR_LEAF_FN]\<rparr>,
    \<lparr>ret = Val ''zx_status_t'', name = ''_zx_clock_adjust'',
     params = [\<lparr>tag = Some ''handle_use'', ptype = Val ''zx_handle_t'', pname = ''handle''\<rparr>,
       \<lparr>tag = None, ptype = Val ''zx_clock_t'', pname = ''clock_id''\<rparr>,
       \<lparr>tag = None, ptype = Val ''int64_t'', pname = ''offset''\<rparr>],
     nonnull = [], attrs = [ATTR_LEAF_FN]\<rparr>,
    \<lparr>ret = Val ''uint32_t'', name = ''zx_system_get_dcache_line_size'',
     params = [],
     nonnull = [], attrs = [ATTR_LEAF_FN, ATTR_CONST]\<rparr>,
    \<lparr>ret = Val ''uint32_t'', name = ''_zx_system_get_dcache_line_size'',
     params = [],
     nonnull = [], attrs = [ATTR_LEAF_FN, ATTR_CONST]\<rparr>,
    \<lparr>ret = Val ''uint32_t'', name = ''zx_system_get_num_cpus'',
     params = [],
     nonnull = [], attrs = [ATTR_LEAF_FN, ATTR_CONST]\<rparr>,
    \<lparr>ret = Val ''uint32_t'', name = ''_zx_system_get_num_cpus'',
     params = [],
     nonnull = [], attrs = [ATTR_LEAF_FN, ATTR_CONST]\<rparr>,
    \<lparr>ret = Val ''zx_status_t'', name = ''zx_system_get_version'',
     params = [\<lparr>tag = None, ptype = Ptr ''char'', pname = ''version''\<rparr>,
       \<lparr>tag = None, ptype = Val ''size_t'', pname = ''version_size''\<rparr>],
     nonnull = [], attrs = [ATTR_LEAF_FN]\<rparr>,
    \<lparr>ret = Val ''zx_status_t'', name = ''_zx_system_get_version'',
     params = [\<lparr>tag = None, ptype = Ptr ''char'', pname = ''version''\<rparr>,
       \<lparr>tag = None, ptype = Val ''size_t'', pname = ''version_size''\<rparr>],
     nonnull = [], attrs = [ATTR_LEAF_FN]\<rparr>]"

text \<open>Lines 79 to 182 of the header: \<^verbatim>\<open>zx_system_get_physmem\<close> to \<^verbatim>\<open>_zx_object_signal\<close>.\<close>

definition header_lines_2 :: "string list" where
  "header_lines_2 = [
    ''extern uint64_t zx_system_get_physmem('',
    ''    void) __LEAF_FN;'',
    '''',
    ''extern uint64_t _zx_system_get_physmem('',
    ''    void) __LEAF_FN;'',
    '''',
    ''extern zx_status_t zx_system_get_features('',
    ''    uint32_t kind,'',
    ''    ZX_SYSCALL_PARAM_ATTR(features) uint32_t* features) __NONNULL((2)) __LEAF_FN;'',
    '''',
    ''extern zx_status_t _zx_system_get_features('',
    ''    uint32_t kind,'',
    ''    ZX_SYSCALL_PARAM_ATTR(features) uint32_t* features) __NONNULL((2)) __LEAF_FN;'',
    '''',
    ''extern zx_status_t zx_cache_flush('',
    ''    const void* addr,'',
    ''    size_t size,'',
    ''    uint32_t options) __LEAF_FN;'',
    '''',
    ''extern zx_status_t _zx_cache_flush('',
    ''    const void* addr,'',
    ''    size_t size,'',
    ''    uint32_t options) __LEAF_FN;'',
    '''',
    ''extern zx_status_t zx_handle_close('',
    ''    ZX_SYSCALL_PARAM_ATTR(handle_release_always) zx_handle_t handle) __LEAF_FN;'',
    '''',
    ''extern zx_status_t _zx_handle_close('',
    ''    ZX_SYSCALL_PARAM_ATTR(handle_release_always) zx_handle_t handle) __LEAF_FN;'',
    '''',
    ''extern zx_status_t zx_handle_close_many('',
    ''    const zx_handle_t* handles,'',
    ''    size_t num_handles) __LEAF_FN;'',
    '''',
    ''extern zx_status_t _zx_handle_close_many('',
    ''    const zx_handle_t* handles,'',
    ''    size_t num_handles) __LEAF_FN;'',
    '''',
    ''extern zx_status_t zx_handle_duplicate('',
    ''    ZX_SYSCALL_PARAM_ATTR(handle_use) zx_handle_t handle,'',
    ''    zx_rights_t rights,'',
    ''    ZX_SYSCALL_PARAM_ATTR(handle_acquire) zx_handle_t* out) __NONNULL((3)) __LEAF_FN;'',
    '''',
    ''extern zx_status_t _zx_handle_duplicate('',
    ''    ZX_SYSCALL_PARAM_ATTR(handle_use) zx_handle_t handle,'',
    ''    zx_rights_t rights,'',
    ''    ZX_SYSCALL_PARAM_ATTR(handle_acquire) zx_handle_t* out) __NONNULL((3)) __LEAF_FN;'',
    '''',
    ''extern zx_status_t zx_handle_replace('',
    ''    ZX_SYSCALL_PARAM_ATTR(handle_release_always) zx_handle_t handle,'',
    ''    zx_rights_t rights,'',
    ''    ZX_SYSCALL_PARAM_ATTR(handle_acquire) zx_handle_t* out) __NONNULL((3)) __LEAF_FN;'',
    '''',
    ''extern zx_status_t _zx_handle_replace('',
    ''    ZX_SYSCALL_PARAM_ATTR(handle_release_always) zx_handle_t handle,'',
    ''    zx_rights_t rights,'',
    ''    ZX_SYSCALL_PARAM_ATTR(handle_acquire) zx_handle_t* out) __NONNULL((3)) __LEAF_FN;'',
    '''',
    ''extern zx_status_t zx_object_wait_one('',
    ''    ZX_SYSCALL_PARAM_ATTR(handle_use) zx_handle_t handle,'',
    ''    zx_signals_t signals,'',
    ''    zx_time_t deadline,'',
    ''    zx_signals_t* observed) __LEAF_FN;'',
    '''',
    ''extern zx_status_t _zx_object_wait_one('',
    ''    ZX_SYSCALL_PARAM_ATTR(handle_use) zx_handle_t handle,'',
    ''    zx_signals_t signals,'',
    ''    zx_time_t deadline,'',
    ''    zx_signals_t* observed) __LEAF_FN;'',
    '''',
    ''extern zx_status_t zx_object_wait_many('',
    ''    zx_wait_item_t* items,'',
    ''    size_t count,'',
    ''    zx_time_t deadline) __LEAF_FN;'',
    '''',
    ''extern zx_status_t _zx_object_wait_many('',
    ''    zx_wait_item_t* items,'',
    ''    size_t count,'',
    ''    zx_time_t deadline) __LEAF_FN;'',
    '''',
    ''extern zx_status_t zx_object_wait_async('',
    ''    ZX_SYSCALL_PARAM_ATTR(handle_use) zx_handle_t handle,'',
    ''    ZX_SYSCALL_PARAM_ATTR(handle_use) zx_handle_t port,'',
    ''    uint64_t key,'',
    ''    zx_signals_t signals,'',
    ''    uint32_t options) __LEAF_FN;'',
    '''',
    ''extern zx_status_t _zx_object_wait_async('',
    ''    ZX_SYSCALL_PARAM_ATTR(handle_use) zx_handle_t handle,'',
    ''    ZX_SYSCALL_PARAM_ATTR(handle_use) zx_handle_t port,'',
    ''    uint64_t key,'',
    ''    zx_signals_t signals,'',
    ''    uint32_t options) __LEAF_FN;'',
    '''',
    ''extern zx_status_t zx_object_signal('',
    ''    ZX_SYSCALL_PARAM_ATTR(handle_use) zx_handle_t handle,'',
    ''    uint32_t clear_mask,'',
    ''    uint32_t set_mask) __LEAF_FN;'',
    '''',
    ''extern zx_status_t _zx_object_signal('',
    ''    ZX_SYSCALL_PARAM_ATTR(handle_use) zx_handle_t handle,'',
    ''    uint32_t clear_mask,'',
    ''    uint32_t set_mask) __LEAF_FN;'',
    '''']"

definition syscalls_2 :: "decl list" where
  "syscalls_2 = [
    \<lparr>ret = Val ''uint64_t'', name = ''zx_system_get_physmem'',
     params = [],
     nonnull = [], attrs = [ATTR_LEAF_FN]\<rparr>,
    \<lparr>ret = Val ''uint64_t'', name = ''_zx_system_get_physmem'',
     params = [],
     nonnull = [], attrs = [ATTR_LEAF_FN]\<rparr>,
    \<lparr>ret = Val ''zx_status_t'', name = ''zx_system_get_features'',
     params = [\<lparr>tag = None, ptype = Val ''uint32_t'', pname = ''kind''\<rparr>,
       \<lparr>tag = Some ''features'', ptype = Ptr ''uint32_t'', pname = ''features''\<rparr>],
     nonnull = [2], attrs = [ATTR_LEAF_FN]\<rparr>,
    \<lparr>ret = Val ''zx_status_t'', name = ''_zx_system_get_features'',
     params = [\<lparr>tag = None, ptype = Val ''uint32_t'', pname = ''kind''\<rparr>,
       \<lparr>tag = Some ''features'', ptype = Ptr ''uint32_t'', pname = ''features''\<rparr>],
     nonnull = [2], attrs = [ATTR_LEAF_FN]\<rparr>,
    \<lparr>ret = Val ''zx_status_t'', name = ''zx_cache_flush'',
     params = [\<lparr>tag = None, ptype = ConstPtr ''void'', pname = ''addr''\<rparr>,
       \<lparr>tag = None, ptype = Val ''size_t'', pname = ''size''\<rparr>,
       \<lparr>tag = None, ptype = Val ''uint32_t'', pname = ''options''\<rparr>],
     nonnull = [], attrs = [ATTR_LEAF_FN]\<rparr>,
    \<lparr>ret = Val ''zx_status_t'', name = ''_zx_cache_flush'',
     params = [\<lparr>tag = None, ptype = ConstPtr ''void'', pname = ''addr''\<rparr>,
       \<lparr>tag = None, ptype = Val ''size_t'', pname = ''size''\<rparr>,
       \<lparr>tag = None, ptype = Val ''uint32_t'', pname = ''options''\<rparr>],
     nonnull = [], attrs = [ATTR_LEAF_FN]\<rparr>,
    \<lparr>ret = Val ''zx_status_t'', name = ''zx_handle_close'',
     params = [\<lparr>tag = Some ''handle_release_always'', ptype = Val ''zx_handle_t'', pname = ''handle''\<rparr>],
     nonnull = [], attrs = [ATTR_LEAF_FN]\<rparr>,
    \<lparr>ret = Val ''zx_status_t'', name = ''_zx_handle_close'',
     params = [\<lparr>tag = Some ''handle_release_always'', ptype = Val ''zx_handle_t'', pname = ''handle''\<rparr>],
     nonnull = [], attrs = [ATTR_LEAF_FN]\<rparr>,
    \<lparr>ret = Val ''zx_status_t'', name = ''zx_handle_close_many'',
     params = [\<lparr>tag = None, ptype = ConstPtr ''zx_handle_t'', pname = ''handles''\<rparr>,
       \<lparr>tag = None, ptype = Val ''size_t'', pname = ''num_handles''\<rparr>],
     nonnull = [], attrs = [ATTR_LEAF_FN]\<rparr>,
    \<lparr>ret = Val ''zx_status_t'', name = ''_zx_handle_close_many'',
     params = [\<lparr>tag = None, ptype = ConstPtr ''zx_handle_t'', pname = ''handles''\<rparr>,
       \<lparr>tag = None, ptype = Val ''size_t'', pname = ''num_handles''\<rparr>],
     nonnull = [], attrs = [ATTR_LEAF_FN]\<rparr>,
    \<lparr>ret = Val ''zx_status_t'', name = ''zx_handle_duplicate'',
     params = [\<lparr>tag = Some ''handle_use'', ptype = Val ''zx_handle_t'', pname = ''handle''\<rparr>,
       \<lparr>tag = None, ptype = Val ''zx_rights_t'', pname = ''rights''\<rparr>,
       \<lparr>tag = Some ''handle_acquire'', ptype = Ptr ''zx_handle_t'', pname = ''out''\<rparr>],
     nonnull = [3], attrs = [ATTR_LEAF_FN]\<rparr>,
    \<lparr>ret = Val ''zx_status_t'', name = ''_zx_handle_duplicate'',
     params = [\<lparr>tag = Some ''handle_use'', ptype = Val ''zx_handle_t'', pname = ''handle''\<rparr>,
       \<lparr>tag = None, ptype = Val ''zx_rights_t'', pname = ''rights''\<rparr>,
       \<lparr>tag = Some ''handle_acquire'', ptype = Ptr ''zx_handle_t'', pname = ''out''\<rparr>],
     nonnull = [3], attrs = [ATTR_LEAF_FN]\<rparr>,
    \<lparr>ret = Val ''zx_status_t'', name = ''zx_handle_replace'',
     params = [\<lparr>tag = Some ''handle_release_always'', ptype = Val ''zx_handle_t'', pname = ''handle''\<rparr>,
       \<lparr>tag = None, ptype = Val ''zx_rights_t'', pname = ''rights''\<rparr>,
       \<lparr>tag = Some ''handle_acquire'', ptype = Ptr ''zx_handle_t'', pname = ''out''\<rparr>],
     nonnull = [3], attrs = [ATTR_LEAF_FN]\<rparr>,
    \<lparr>ret = Val ''zx_status_t'', name = ''_zx_handle_replace'',
     params = [\<lparr>tag = Some ''handle_release_always'', ptype = Val ''zx_handle_t'', pname = ''handle''\<rparr>,
       \<lparr>tag = None, ptype = Val ''zx_rights_t'', pname = ''rights''\<rparr>,
       \<lparr>tag = Some ''handle_acquire'', ptype = Ptr ''zx_handle_t'', pname = ''out''\<rparr>],
     nonnull = [3], attrs = [ATTR_LEAF_FN]\<rparr>,
    \<lparr>ret = Val ''zx_status_t'', name = ''zx_object_wait_one'',
     params = [\<lparr>tag = Some ''handle_use'', ptype = Val ''zx_handle_t'', pname = ''handle''\<rparr>,
       \<lparr>tag = None, ptype = Val ''zx_signals_t'', pname = ''signals''\<rparr>,
       \<lparr>tag = None, ptype = Val ''zx_time_t'', pname = ''deadline''\<rparr>,
       \<lparr>tag = None, ptype = Ptr ''zx_signals_t'', pname = ''observed''\<rparr>],
     nonnull = [], attrs = [ATTR_LEAF_FN]\<rparr>,
    \<lparr>ret = Val ''zx_status_t'', name = ''_zx_object_wait_one'',
     params = [\<lparr>tag = Some ''handle_use'', ptype = Val ''zx_handle_t'', pname = ''handle''\<rparr>,
       \<lparr>tag = None, ptype = Val ''zx_signals_t'', pname = ''signals''\<rparr>,
       \<lparr>tag = None, ptype = Val ''zx_time_t'', pname = ''deadline''\<rparr>,
       \<lparr>tag = None, ptype = Ptr ''zx_signals_t'', pname = ''observed''\<rparr>],
     nonnull = [], attrs = [ATTR_LEAF_FN]\<rparr>,
    \<lparr>ret = Val ''zx_status_t'', name = ''zx_object_wait_many'',
     params = [\<lparr>tag = None, ptype = Ptr ''zx_wait_item_t'', pname = ''items''\<rparr>,
       \<lparr>tag = None, ptype = Val ''size_t'', pname = ''count''\<rparr>,
       \<lparr>tag = None, ptype = Val ''zx_time_t'', pname = ''deadline''\<rparr>],
     nonnull = [], attrs = [ATTR_LEAF_FN]\<rparr>,
    \<lparr>ret = Val ''zx_status_t'', name = ''_zx_object_wait_many'',
     params = [\<lparr>tag = None, ptype = Ptr ''zx_wait_item_t'', pname = ''items''\<rparr>,
       \<lparr>tag = None, ptype = Val ''size_t'', pname = ''count''\<rparr>,
       \<lparr>tag = None, ptype = Val ''zx_time_t'', pname = ''deadline''\<rparr>],
     nonnull = [], attrs = [ATTR_LEAF_FN]\<rparr>,
    \<lparr>ret = Val ''zx_status_t'', name = ''zx_object_wait_async'',
     params = [\<lparr>tag = Some ''handle_use'', ptype = Val ''zx_handle_t'', pname = ''handle''\<rparr>,
       \<lparr>tag = Some ''handle_use'', ptype = Val ''zx_handle_t'', pname = ''port''\<rparr>,
       \<lparr>tag = None, ptype = Val ''uint64_t'', pname = ''key''\<rparr>,
       \<lparr>tag = None, ptype = Val ''zx_signals_t'', pname = ''signals''\<rparr>,
       \<lparr>tag = None, ptype = Val ''uint32_t'', pname = ''options''\<rparr>],
     nonnull = [], attrs = [ATTR_LEAF_FN]\<rparr>,
    \<lparr>ret = Val ''zx_status_t'', name = ''_zx_object_wait_async'',
     params = [\<lparr>tag = Some ''handle_use'', ptype = Val ''zx_handle_t'', pname = ''handle''\<rparr>,
       \<lparr>tag = Some ''handle_use'', ptype = Val ''zx_handle_t'', pname = ''port''\<rparr>,
       \<lparr>tag = None, ptype = Val ''uint64_t'', pname = ''key''\<rparr>,
       \<lparr>tag = None, ptype = Val ''zx_signals_t'', pname = ''signals''\<rparr>,
       \<lparr>tag = None, ptype = Val ''uint32_t'', pname = ''options''\<rparr>],
     nonnull = [], attrs = [ATTR_LEAF_FN]\<rparr>,
    \<lparr>ret = Val ''zx_status_t'', name = ''zx_object_signal'',
     params = [\<lparr>tag = Some ''handle_use'', ptype = Val ''zx_handle_t'', pname = ''handle''\<rparr>,
       \<lparr>tag = None, ptype = Val ''uint32_t'', pname = ''clear_mask''\<rparr>,
       \<lparr>tag = None, ptype = Val ''uint32_t'', pname = ''set_mask''\<rparr>],
     nonnull = [], attrs = [ATTR_LEAF_FN]\<rparr>,
    \<lparr>ret = Val ''zx_status_t'', name = ''_zx_object_signal'',
     params = [\<lparr>tag = Some ''handle_use'', ptype = Val ''zx_handle_t'', pname = ''handle''\<rparr>,
       \<lparr>tag = None, ptype = Val ''uint32_t'', pname = ''clear_mask''\<rparr>,
       \<lparr>tag = None, ptype = Val ''uint32_t'', pname = ''set_mask''\<rparr>],
     nonnull = [], attrs = [ATTR_LEAF_FN]\<rparr>]"

text \<open>Lines 183 to 324 of the header: \<^verbatim>\<open>zx_object_signal_peer\<close> to \<^verbatim>\<open>_zx_channel_read_etc\<close>.\<close>

definition header_lines_3 :: "string list" where
  "header_lines_3 = [
    ''extern zx_status_t zx_object_signal_peer('',
    ''    ZX_SYSCALL_PARAM_ATTR(handle_use) zx_handle_t handle,'',
    ''    uint32_t clear_mask,'',
    ''    uint32_t set_mask) __LEAF_FN;'',
    '''',
    ''extern zx_status_t _zx_object_signal_peer('',
    ''    ZX_SYSCALL_PARAM_ATTR(handle_use) zx_handle_t handle,'',
    ''    uint32_t clear_mask,'',
    ''    uint32_t set_mask) __LEAF_FN;'',
    '''',
    ''extern zx_status_t zx_object_get_property('',
    ''    ZX_SYSCALL_PARAM_ATTR(handle_use) zx_handle_t handle,'',
    ''    uint32_t property,'',
    ''    void* value,'',
    ''    size_t value_size) __LEAF_FN;'',
    '''',
    ''extern zx_status_t _zx_object_get_property('',
    ''    ZX_SYSCALL_PARAM_ATTR(handle_use) zx_handle_t handle,'',
    ''    uint32_t property,'',
    ''    void* value,'',
    ''    size_t value_size) __LEAF_FN;'',
    '''',
    ''extern zx_status_t zx_object_set_property('',
    ''    ZX_SYSCALL_PARAM_ATTR(handle_use) zx_handle_t handle,'',
    ''    uint32_t property,'',
    ''    const void* value,'',
    ''    size_t value_size) __LEAF_FN;'',
    '''',
    ''extern zx_status_t _zx_object_set_property('',
    ''    ZX_SYSCALL_PARAM_ATTR(handle_use) zx_handle_t handle,'',
    ''    uint32_t property,'',
    ''    const void* value,'',
    ''    size_t value_size) __LEAF_FN;'',
    '''',
    ''extern zx_status_t zx_object_set_cookie('',
    ''    ZX_SYSCALL_PARAM_ATTR(handle_use) zx_handle_t handle,'',
    ''    ZX_SYSCALL_PARAM_ATTR(handle_use) zx_handle_t scope,'',
    ''    uint64_t cookie) __LEAF_FN;'',
    '''',
    ''extern zx_status_t _zx_object_set_cookie('',
    ''    ZX_SYSCALL_PARAM_ATTR(handle_use) zx_handle_t handle,'',
    ''    ZX_SYSCALL_PARAM_ATTR(handle_use) zx_handle_t scope,'',
    ''    uint64_t cookie) __LEAF_FN;'',
    '''',
    ''extern zx_status_t zx_object_get_cookie('',
    ''    ZX_SYSCALL_PARAM_ATTR(handle_use) zx_handle_t handle,'',
    ''    ZX_SYSCALL_PARAM_ATTR(handle_use) zx_handle_t scope,'',
    ''    uint64_t* cookie) __NONNULL((3)) __LEAF_FN;'',
    '''',
    ''extern zx_status_t _zx_object_get_cookie('',
    ''    ZX_SYSCALL_PARAM_ATTR(handle_use) zx_handle_t handle,'',
    ''    ZX_SYSCALL_PARAM_ATTR(handle_use) zx_handle_t scope,'',
    ''    uint64_t* cookie) __NONNULL((3)) __LEAF_FN;'',
    '''',
    ''extern zx_status_t zx_object_get_info('',
    ''    ZX_SYSCALL_PARAM_ATTR(handle_use) zx_handle_t handle,'',
    ''    uint32_t topic,'',
    ''    void* buffer,'',
    ''    size_t buffer_size,'',
    ''    size_t* actual_count,'',
    ''    size_t* avail_count) __LEAF_FN;'',
    '''',
    ''extern zx_status_t _zx_object_get_info('',
    ''    ZX_SYSCALL_PARAM_ATTR(handle_use) zx_handle_t handle,'',
    ''    uint32_t topic,'',
    ''    void* buffer,'',
    ''    size_t buffer_size,'',
    ''    size_t* actual_count,'',
    ''    size_t* avail_count) __LEAF_FN;'',
    '''',
    ''extern zx_status_t zx_object_get_child('',
    ''    ZX_SYSCALL_PARAM_ATTR(handle_use) zx_handle_t handle,'',
    ''    uint64_t koid,'',
    ''    zx_rights_t rights,'',
    ''    zx_handle_t* out) __NONNULL((4)) __LEAF_FN;'',
    '''',
    ''extern zx_status_t _zx_object_get_child('',
    ''    ZX_SYSCALL_PARAM_ATTR(handle_use) zx_handle_t handle,'',
    ''    uint64_t koid,'',
    ''    zx_rights_t rights,'',
    ''    zx_handle_t* out) __NONNULL((4)) __LEAF_FN;'',
    '''',
    ''extern zx_status_t zx_object_set_profile('',
    ''    ZX_SYSCALL_PARAM_ATTR(handle_use) zx_handle_t handle,'',
    ''    ZX_SYSCALL_PARAM_ATTR(handle_use) zx_handle_t profile,'',
    ''    uint32_t options) __LEAF_FN;'',
    '''',
    ''extern zx_status_t _zx_object_set_profile('',
    ''    ZX_SYSCALL_PARAM_ATTR(handle_use) zx_handle_t handle,'',
    ''    ZX_SYSCALL_PARAM_ATTR(handle_use) zx_handle_t profile,'',
    ''    uint32_t options) __LEAF_FN;'',
    '''',
    ''extern zx_status_t zx_channel_create('',
    ''    uint32_t options,'',
    ''    ZX_SYSCALL_PARAM_ATTR(handle_acquire) zx_handle_t* out0,'',
    ''    ZX_SYSCALL_PARAM_ATTR(handle_acquire) zx_handle_t* out1) __NONNULL((2, 3)) __LEAF_FN;'',
    '''',
    ''extern zx_status_t _zx_channel_create('',
    ''    uint32_t options,'',
    ''    ZX_SYSCALL_PARAM_ATTR(handle_acquire) zx_handle_t* out0,'',
    ''    ZX_SYSCALL_PARAM_ATTR(handle_acquire) zx_handle_t* out1) __NONNULL((2, 3)) __LEAF_FN;'',
    '''',
    ''extern zx_status_t zx_channel_read('',
    ''    ZX_SYSCALL_PARAM_ATTR(handle_use) zx_handle_t handle,'',
    ''    uint32_t options,'',
    ''    void* bytes,'',
    ''    zx_handle_t* handles,'',
    ''    uint32_t num_bytes,'',
    ''    uint32_t num_handles,'',
    ''    uint32_t* actual_bytes,'',
    ''    uint32_t* actual_handles) __LEAF_FN;'',
    '''',
    ''extern zx_status_t _zx_channel_read('',
    ''    ZX_SYSCALL_PARAM_ATTR(handle_use) zx_handle_t handle,'',
    ''    uint32_t options,'',
    ''    void* bytes,'',
    ''    zx_handle_t* handles,'',
    ''    uint32_t num_bytes,'',
    ''    uint32_t num_handles,'',
    ''    uint32_t* actual_bytes,'',
    ''    uint32_t* actual_handles) __LEAF_FN;'',
    '''',
    ''extern zx_status_t zx_channel_read_etc('',
    ''    ZX_SYSCALL_PARAM_ATTR(handle_use) zx_handle_t handle,'',
    ''    uint32_t options,'',
    ''    void* bytes,'',
    ''    zx_handle_info_t* handles,'',
    ''    uint32_t num_bytes,'',
    ''    uint32_t num_handles,'',
    ''    uint32_t* actual_bytes,'',
    ''    uint32_t* actual_handles) __LEAF_FN;'',
    '''',
    ''extern zx_status_t _zx_channel_read_etc('',
    ''    ZX_SYSCALL_PARAM_ATTR(handle_use) zx_handle_t handle,'',
    ''    uint32_t options,'',
    ''    void* bytes,'',
    ''    zx_handle_info_t* handles,'',
    ''    uint32_t num_bytes,'',
    ''    uint32_t num_handles,'',
    ''    uint32_t* actual_bytes,'',
    ''    uint32_t* actual_handles) __LEAF_FN;'',
    '''']"

definition syscalls_3 :: "decl list" where
  "syscalls_3 = [
    \<lparr>ret = Val ''zx_status_t'', name = ''zx_object_signal_peer'',
     params = [\<lparr>tag = Some ''handle_use'', ptype = Val ''zx_handle_t'', pname = ''handle''\<rparr>,
       \<lparr>tag = None, ptype = Val ''uint32_t'', pname = ''clear_mask''\<rparr>,
       \<lparr>tag = None, ptype = Val ''uint32_t'', pname = ''set_mask''\<rparr>],
     nonnull = [], attrs = [ATTR_LEAF_FN]\<rparr>,
    \<lparr>ret = Val ''zx_status_t'', name = ''_zx_object_signal_peer'',
     params = [\<lparr>tag = Some ''handle_use'', ptype = Val ''zx_handle_t'', pname = ''handle''\<rparr>,
       \<lparr>tag = None, ptype = Val ''uint32_t'', pname = ''clear_mask''\<rparr>,
       \<lparr>tag = None, ptype = Val ''uint32_t'', pname = ''set_mask''\<rparr>],
     nonnull = [], attrs = [ATTR_LEAF_FN]\<rparr>,
    \<lparr>ret = Val ''zx_status_t'', name = ''zx_object_get_property'',
     params = [\<lparr>tag = Some ''handle_use'', ptype = Val ''zx_handle_t'', pname = ''handle''\<rparr>,
       \<lparr>tag = None, ptype = Val ''uint32_t'', pname = ''property''\<rparr>,
       \<lparr>tag = None, ptype = Ptr ''void'', pname = ''value''\<rparr>,
       \<lparr>tag = None, ptype = Val ''size_t'', pname = ''value_size''\<rparr>],
     nonnull = [], attrs = [ATTR_LEAF_FN]\<rparr>,
    \<lparr>ret = Val ''zx_status_t'', name = ''_zx_object_get_property'',
     params = [\<lparr>tag = Some ''handle_use'', ptype = Val ''zx_handle_t'', pname = ''handle''\<rparr>,
       \<lparr>tag = None, ptype = Val ''uint32_t'', pname = ''property''\<rparr>,
       \<lparr>tag = None, ptype = Ptr ''void'', pname = ''value''\<rparr>,
       \<lparr>tag = None, ptype = Val ''size_t'', pname = ''value_size''\<rparr>],
     nonnull = [], attrs = [ATTR_LEAF_FN]\<rparr>,
    \<lparr>ret = Val ''zx_status_t'', name = ''zx_object_set_property'',
     params = [\<lparr>tag = Some ''handle_use'', ptype = Val ''zx_handle_t'', pname = ''handle''\<rparr>,
       \<lparr>tag = None, ptype = Val ''uint32_t'', pname = ''property''\<rparr>,
       \<lparr>tag = None, ptype = ConstPtr ''void'', pname = ''value''\<rparr>,
       \<lparr>tag = None, ptype = Val ''size_t'', pname = ''value_size''\<rparr>],
     nonnull = [], attrs = [ATTR_LEAF_FN]\<rparr>,
    \<lparr>ret = Val ''zx_status_t'', name = ''_zx_object_set_property'',
     params = [\<lparr>tag = Some ''handle_use'', ptype = Val ''zx_handle_t'', pname = ''handle''\<rparr>,
       \<lparr>tag = None, ptype = Val ''uint32_t'', pname = ''property''\<rparr>,
       \<lparr>tag = None, ptype = ConstPtr ''void'', pname = ''value''\<rparr>,
       \<lparr>tag = None, ptype = Val ''size_t'', pname = ''value_size''\<rparr>],
     nonnull = [], attrs = [ATTR_LEAF_FN]\<rparr>,
    \<lparr>ret = Val ''zx_status_t'', name = ''zx_object_set_cookie'',
     params = [\<lparr>tag = Some ''handle_use'', ptype = Val ''zx_handle_t'', pname = ''handle''\<rparr>,
       \<lparr>tag = Some ''handle_use'', ptype = Val ''zx_handle_t'', pname = ''scope''\<rparr>,
       \<lparr>tag = None, ptype = Val ''uint64_t'', pname = ''cookie''\<rparr>],
     nonnull = [], attrs = [ATTR_LEAF_FN]\<rparr>,
    \<lparr>ret = Val ''zx_status_t'', name = ''_zx_object_set_cookie'',
     params = [\<lparr>tag = Some ''handle_use'', ptype = Val ''zx_handle_t'', pname = ''handle''\<rparr>,
       \<lparr>tag = Some ''handle_use'', ptype = Val ''zx_handle_t'', pname = ''scope''\<rparr>,
       \<lparr>tag = None, ptype = Val ''uint64_t'', pname = ''cookie''\<rparr>],
     nonnull = [], attrs = [ATTR_LEAF_FN]\<rparr>,
    \<lparr>ret = Val ''zx_status_t'', name = ''zx_object_get_cookie'',
     params = [\<lparr>tag = Some ''handle_use'', ptype = Val ''zx_handle_t'', pname = ''handle''\<rparr>,
       \<lparr>tag = Some ''handle_use'', ptype = Val ''zx_handle_t'', pname = ''scope''\<rparr>,
       \<lparr>tag = None, ptype = Ptr ''uint64_t'', pname = ''cookie''\<rparr>],
     nonnull = [3], attrs = [ATTR_LEAF_FN]\<rparr>,
    \<lparr>ret = Val ''zx_status_t'', name = ''_zx_object_get_cookie'',
     params = [\<lparr>tag = Some ''handle_use'', ptype = Val ''zx_handle_t'', pname = ''handle''\<rparr>,
       \<lparr>tag = Some ''handle_use'', ptype = Val ''zx_handle_t'', pname = ''scope''\<rparr>,
       \<lparr>tag = None, ptype = Ptr ''uint64_t'', pname = ''cookie''\<rparr>],
     nonnull = [3], attrs = [ATTR_LEAF_FN]\<rparr>,
    \<lparr>ret = Val ''zx_status_t'', name = ''zx_object_get_info'',
     params = [\<lparr>tag = Some ''handle_use'', ptype = Val ''zx_handle_t'', pname = ''handle''\<rparr>,
       \<lparr>tag = None, ptype = Val ''uint32_t'', pname = ''topic''\<rparr>,
       \<lparr>tag = None, ptype = Ptr ''void'', pname = ''buffer''\<rparr>,
       \<lparr>tag = None, ptype = Val ''size_t'', pname = ''buffer_size''\<rparr>,
       \<lparr>tag = None, ptype = Ptr ''size_t'', pname = ''actual_count''\<rparr>,
       \<lparr>tag = None, ptype = Ptr ''size_t'', pname = ''avail_count''\<rparr>],
     nonnull = [], attrs = [ATTR_LEAF_FN]\<rparr>,
    \<lparr>ret = Val ''zx_status_t'', name = ''_zx_object_get_info'',
     params = [\<lparr>tag = Some ''handle_use'', ptype = Val ''zx_handle_t'', pname = ''handle''\<rparr>,
       \<lparr>tag = None, ptype = Val ''uint32_t'', pname = ''topic''\<rparr>,
       \<lparr>tag = None, ptype = Ptr ''void'', pname = ''buffer''\<rparr>,
       \<lparr>tag = None, ptype = Val ''size_t'', pname = ''buffer_size''\<rparr>,
       \<lparr>tag = None, ptype = Ptr ''size_t'', pname = ''actual_count''\<rparr>,
       \<lparr>tag = None, ptype = Ptr ''size_t'', pname = ''avail_count''\<rparr>],
     nonnull = [], attrs = [ATTR_LEAF_FN]\<rparr>,
    \<lparr>ret = Val ''zx_status_t'', name = ''zx_object_get_child'',
     params = [\<lparr>tag = Some ''handle_use'', ptype = Val ''zx_handle_t'', pname = ''handle''\<rparr>,
       \<lparr>tag = None, ptype = Val ''uint64_t'', pname = ''koid''\<rparr>,
       \<lparr>tag = None, ptype = Val ''zx_rights_t'', pname = ''rights''\<rparr>,
       \<lparr>tag = None, ptype = Ptr ''zx_handle_t'', pname = ''out''\<rparr>],
     nonnull = [4], attrs = [ATTR_LEAF_FN]\<rparr>,
    \<lparr>ret = Val ''zx_status_t'', name = ''_zx_object_get_child'',
     params = [\<lparr>tag = Some ''handle_use'', ptype = Val ''zx_handle_t'', pname = ''handle''\<rparr>,
       \<lparr>tag = None, ptype = Val ''uint64_t'', pname = ''koid''\<rparr>,
       \<lparr>tag = None, ptype = Val ''zx_rights_t'', pname = ''rights''\<rparr>,
       \<lparr>tag = None, ptype = Ptr ''zx_handle_t'', pname = ''out''\<rparr>],
     nonnull = [4], attrs = [ATTR_LEAF_FN]\<rparr>,
    \<lparr>ret = Val ''zx_status_t'', name = ''zx_object_set_profile'',
     params = [\<lparr>tag = Some ''handle_use'', ptype = Val ''zx_handle_t'', pname = ''handle''\<rparr>,
       \<lparr>tag = Some ''handle_use'', ptype = Val ''zx_handle_t'', pname = ''profile''\<rparr>,
       \<lparr>tag = None, ptype = Val ''uint32_t'', pname = ''options''\<rparr>],
     nonnull = [], attrs = [ATTR_LEAF_FN]\<rparr>,
    \<lparr>ret = Val ''zx_status_t'', name = ''_zx_object_set_profile'',
     params = [\<lparr>tag = Some ''handle_use'', ptype = Val ''zx_handle_t'', pname = ''handle''\<rparr>,
       \<lparr>tag = Some ''handle_use'', ptype = Val ''zx_handle_t'', pname = ''profile''\<rparr>,
       \<lparr>tag = None, ptype = Val ''uint32_t'', pname = ''options''\<rparr>],
     nonnull = [], attrs = [ATTR_LEAF_FN]\<rparr>,
    \<lparr>ret = Val ''zx_status_t'', name = ''zx_channel_create'',
     params = [\<lparr>tag = None, ptype = Val ''uint32_t'', pname = ''options''\<rparr>,
       \<lparr>tag = Some ''handle_acquire'', ptype = Ptr ''zx_handle_t'', pname = ''out0''\<rparr>,
       \<lparr>tag = Some ''handle_acquire'', ptype = Ptr ''zx_handle_t'', pname = ''out1''\<rparr>],
     nonnull = [2, 3], attrs = [ATTR_LEAF_FN]\<rparr>,
    \<lparr>ret = Val ''zx_status_t'', name = ''_zx_channel_create'',
     params = [\<lparr>tag = None, ptype = Val ''uint32_t'', pname = ''options''\<rparr>,
       \<lparr>tag = Some ''handle_acquire'', ptype = Ptr ''zx_handle_t'', pname = ''out0''\<rparr>,
       \<lparr>tag = Some ''handle_acquire'', ptype = Ptr ''zx_handle_t'', pname = ''out1''\<rparr>],
     nonnull = [2, 3], attrs = [ATTR_LEAF_FN]\<rparr>,
    \<lparr>ret = Val ''zx_status_t'', name = ''zx_channel_read'',
     params = [\<lparr>tag = Some ''handle_use'', ptype = Val ''zx_handle_t'', pname = ''handle''\<rparr>,
       \<lparr>tag = None, ptype = Val ''uint32_t'', pname = ''options''\<rparr>,
       \<lparr>tag = None, ptype = Ptr ''void'', pname = ''bytes''\<rparr>,
       \<lparr>tag = None, ptype = Ptr ''zx_handle_t'', pname = ''handles''\<rparr>,
       \<lparr>tag = None, ptype = Val ''uint32_t'', pname = ''num_bytes''\<rparr>,
       \<lparr>tag = None, ptype = Val ''uint32_t'', pname = ''num_handles''\<rparr>,
       \<lparr>tag = None, ptype = Ptr ''uint32_t'', pname = ''actual_bytes''\<rparr>,
       \<lparr>tag = None, ptype = Ptr ''uint32_t'', pname = ''actual_handles''\<rparr>],
     nonnull = [], attrs = [ATTR_LEAF_FN]\<rparr>,
    \<lparr>ret = Val ''zx_status_t'', name = ''_zx_channel_read'',
     params = [\<lparr>tag = Some ''handle_use'', ptype = Val ''zx_handle_t'', pname = ''handle''\<rparr>,
       \<lparr>tag = None, ptype = Val ''uint32_t'', pname = ''options''\<rparr>,
       \<lparr>tag = None, ptype = Ptr ''void'', pname = ''bytes''\<rparr>,
       \<lparr>tag = None, ptype = Ptr ''zx_handle_t'', pname = ''handles''\<rparr>,
       \<lparr>tag = None, ptype = Val ''uint32_t'', pname = ''num_bytes''\<rparr>,
       \<lparr>tag = None, ptype = Val ''uint32_t'', pname = ''num_handles''\<rparr>,
       \<lparr>tag = None, ptype = Ptr ''uint32_t'', pname = ''actual_bytes''\<rparr>,
       \<lparr>tag = None, ptype = Ptr ''uint32_t'', pname = ''actual_handles''\<rparr>],
     nonnull = [], attrs = [ATTR_LEAF_FN]\<rparr>,
    \<lparr>ret = Val ''zx_status_t'', name = ''zx_channel_read_etc'',
     params = [\<lparr>tag = Some ''handle_use'', ptype = Val ''zx_handle_t'', pname = ''handle''\<rparr>,
       \<lparr>tag = None, ptype = Val ''uint32_t'', pname = ''options''\<rparr>,
       \<lparr>tag = None, ptype = Ptr ''void'', pname = ''bytes''\<rparr>,
       \<lparr>tag = None, ptype = Ptr ''zx_handle_info_t'', pname = ''handles''\<rparr>,
       \<lparr>tag = None, ptype = Val ''uint32_t'', pname = ''num_bytes''\<rparr>,
       \<lparr>tag = None, ptype = Val ''uint32_t'', pname = ''num_handles''\<rparr>,
       \<lparr>tag = None, ptype = Ptr ''uint32_t'', pname = ''actual_bytes''\<rparr>,
       \<lparr>tag = None, ptype = Ptr ''uint32_t'', pname = ''actual_handles''\<rparr>],
     nonnull = [], attrs = [ATTR_LEAF_FN]\<rparr>,
    \<lparr>ret = Val ''zx_status_t'', name = ''_zx_channel_read_etc'',
     params = [\<lparr>tag = Some ''handle_use'', ptype = Val ''zx_handle_t'', pname = ''handle''\<rparr>,
       \<lparr>tag = None, ptype = Val ''uint32_t'', pname = ''options''\<rparr>,
       \<lparr>tag = None, ptype = Ptr ''void'', pname = ''bytes''\<rparr>,
       \<lparr>tag = None, ptype = Ptr ''zx_handle_info_t'', pname = ''handles''\<rparr>,
       \<lparr>tag = None, ptype = Val ''uint32_t'', pname = ''num_bytes''\<rparr>,
       \<lparr>tag = None, ptype = Val ''uint32_t'', pname = ''num_handles''\<rparr>,
       \<lparr>tag = None, ptype = Ptr ''uint32_t'', pname = ''actual_bytes''\<rparr>,
       \<lparr>tag = None, ptype = Ptr ''uint32_t'', pname = ''actual_handles''\<rparr>],
     nonnull = [], attrs = [ATTR_LEAF_FN]\<rparr>]"

text \<open>Lines 325 to 452 of the header: \<^verbatim>\<open>zx_channel_write\<close> to \<^verbatim>\<open>_zx_thread_start\<close>.\<close>

definition header_lines_4 :: "string list" where
  "header_lines_4 = [
    ''extern zx_status_t zx_channel_write('',
    ''    ZX_SYSCALL_PARAM_ATTR(handle_use) zx_handle_t handle,'',
    ''    uint32_t options,'',
    ''    const void* bytes,'',
    ''    uint32_t num_bytes,'',
    ''    const zx_handle_t* handles,'',
    ''    uint32_t num_handles) __LEAF_FN;'',
    '''',
    ''extern zx_status_t _zx_channel_write('',
    ''    ZX_SYSCALL_PARAM_ATTR(handle_use) zx_handle_t handle,'',
    ''    uint32_t options,'',
    ''    const void* bytes,'',
    ''    uint32_t num_bytes,'',
    ''    const zx_handle_t* handles,'',
    ''    uint32_t num_handles) __LEAF_FN;'',
    '''',
    ''extern zx_status_t zx_channel_call('',
    ''    ZX_SYSCALL_PARAM_ATTR(handle_use) zx_handle_t handle,'',
    ''    uint32_t options,'',
    ''    zx_time_t deadline,'',
    ''    const zx_channel_call_args_t* args,'',
    ''    uint32_t* actual_bytes,'',
    ''    uint32_t* actual_handles) __NONNULL((5, 6)) __LEAF_FN;'',
    '''',
    ''extern zx_status_t _zx_channel_call('',
    ''    ZX_SYSCALL_PARAM_ATTR(handle_use) zx_handle_t handle,'',
    ''    uint32_t options,'',
    ''    zx_time_t deadline,'',
    ''    const zx_channel_call_args_t* args,'',
    ''    uint32_t* actual_bytes,'',
    ''    uint32_t* actual_handles) __NONNULL((5, 6)) __LEAF_FN;'',
    '''',
    ''extern zx_status_t zx_socket_create('',
    ''    uint32_t options,'',
    ''    ZX_SYSCALL_PARAM_ATTR(handle_acquire) zx_handle_t* out0,'',
    ''    ZX_SYSCALL_PARAM_ATTR(handle_acquire) zx_handle_t* out1) __NONNULL((2, 3)) __LEAF_FN;'',
    '''',
    ''extern zx_status_t _zx_socket_create('',
    ''    uint32_t options,'',
    ''    ZX_SYSCALL_PARAM_ATTR(handle_acquire) zx_handle_t* out0,'',
    ''    ZX_SYSCALL_PARAM_ATTR(handle_acquire) zx_handle_t* out1) __NONNULL((2, 3)) __LEAF_FN;'',
    '''',
    ''extern zx_status_t zx_socket_write('',
    ''    ZX_SYSCALL_PARAM_ATTR(handle_use) zx_handle_t handle,'',
    ''    uint32_t options,'',
    ''    const void* buffer,'',
    ''    size_t buffer_size,'',
    ''    size_t* actual) __LEAF_FN;'',
    '''',
    ''extern zx_status_t _zx_socket_write('',
    ''    ZX_SYSCALL_PARAM_ATTR(handle_use) zx_handle_t handle,'',
    ''    uint32_t options,'',
    ''    const void* buffer,'',
    ''    size_t buffer_size,'',
    ''    size_t* actual) __LEAF_FN;'',
    '''',
    ''extern zx_status_t zx_socket_read('',
    ''    ZX_SYSCALL_PARAM_ATTR(handle_use) zx_handle_t handle,'',
    ''    uint32_t options,'',
    ''    void* buffer,'',
    ''    size_t buffer_size,'',
    ''    size_t* actual) __LEAF_FN;'',
    '''',
    ''extern zx_status_t _zx_socket_read('',
    ''    ZX_SYSCALL_PARAM_ATTR(handle_use) zx_handle_t handle,'',
    ''    uint32_t options,'',
    ''    void* buffer,'',
    ''    size_t buffer_size,'',
    ''    size_t* actual) __LEAF_FN;'',
    '''',
    ''extern zx_status_t zx_socket_share('',
    ''    ZX_SYSCALL_PARAM_ATTR(handle_use) zx_handle_t handle,'',
    ''    ZX_SYSCALL_PARAM_ATTR(handle_use) zx_handle_t socket_to_share) __LEAF_FN;'',
    '''',
    ''extern zx_status_t _zx_socket_share('',
    ''    ZX_SYSCALL_PARAM_ATTR(handle_use) zx_handle_t handle,'',
    ''    ZX_SYSCALL_PARAM_ATTR(handle_use) zx_handle_t socket_to_share) __LEAF_FN;'',
    '''',
    ''extern zx_status_t zx_socket_accept('',
    ''    ZX_SYSCALL_PARAM_ATTR(handle_use) zx_handle_t handle,'',
    ''    ZX_SYSCALL_PARAM_ATTR(handle_acquire) zx_handle_t* out_socket) __NONNULL((2)) __LEAF_FN;'',
    '''',
    ''extern zx_status_t _zx_socket_accept('',
    ''    ZX_SYSCALL_PARAM_ATTR(handle_use) zx_handle_t handle,'',
    ''    ZX_SYSCALL_PARAM_ATTR(handle_acquire) zx_handle_t* out_socket) __NONNULL((2)) __LEAF_FN;'',
    '''',
    ''extern zx_status_t zx_socket_shutdown('',
    ''    ZX_SYSCALL_PARAM_ATTR(handle_use) zx_handle_t handle,'',
    ''    uint32_t options) __LEAF_FN;'',
    '''',
    ''extern zx_status_t _zx_socket_shutdown('',
    ''    ZX_SYSCALL_PARAM_ATTR(handle_use) zx_handle_t handle,'',
    ''    uint32_t options) __LEAF_FN;'',
    '''',
    ''extern void zx_thread_exit('',
    ''    void) __LEAF_FN __NO_RETURN;'',
    '''',
    ''extern void _zx_thread_exit('',
    ''    void) __LEAF_FN __NO_RETURN;'',
    '''',
    ''extern zx_status_t zx_thread_create('',
    ''    ZX_SYSCALL_PARAM_ATTR(handle_use) zx_handle_t process,'',
    ''    const char* name,'',
    ''    size_t name_size,'',
    ''    uint32_t options,'',
    ''    ZX_SYSCALL_PARAM_ATTR(handle_acquire) zx_handle_t* out) __NONNULL((5)) __LEAF_FN;'',
    '''',
    ''extern zx_status_t _zx_thread_create('',
    ''    ZX_SYSCALL_PARAM_ATTR(handle_use) zx_handle_t process,'',
    ''    const char* name,'',
    ''    size_t name_size,'',
    ''    uint32_t options,'',
    ''    ZX_SYSCALL_PARAM_ATTR(handle_acquire) zx_handle_t* out) __NONNULL((5)) __LEAF_FN;'',
    '''',
    ''extern zx_status_t zx_thread_start('',
    ''    ZX_SYSCALL_PARAM_ATTR(handle_use) zx_handle_t handle,'',
    ''    zx_vaddr_t thread_entry,'',
    ''    zx_vaddr_t stack,'',
    ''    uintptr_t arg1,'',
    ''    uintptr_t arg2) __LEAF_FN;'',
    '''',
    ''extern zx_status_t _zx_thread_start('',
    ''    ZX_SYSCALL_PARAM_ATTR(handle_use) zx_handle_t handle,'',
    ''    zx_vaddr_t thread_entry,'',
    ''    zx_vaddr_t stack,'',
    ''    uintptr_t arg1,'',
    ''    uintptr_t arg2) __LEAF_FN;'',
    '''']"

definition syscalls_4 :: "decl list" where
  "syscalls_4 = [
    \<lparr>ret = Val ''zx_status_t'', name = ''zx_channel_write'',
     params = [\<lparr>tag = Some ''handle_use'', ptype = Val ''zx_handle_t'', pname = ''handle''\<rparr>,
       \<lparr>tag = None, ptype = Val ''uint32_t'', pname = ''options''\<rparr>,
       \<lparr>tag = None, ptype = ConstPtr ''void'', pname = ''bytes''\<rparr>,
       \<lparr>tag = None, ptype = Val ''uint32_t'', pname = ''num_bytes''\<rparr>,
       \<lparr>tag = None, ptype = ConstPtr ''zx_handle_t'', pname = ''handles''\<rparr>,
       \<lparr>tag = None, ptype = Val ''uint32_t'', pname = ''num_handles''\<rparr>],
     nonnull = [], attrs = [ATTR_LEAF_FN]\<rparr>,
    \<lparr>ret = Val ''zx_status_t'', name = ''_zx_channel_write'',
     params = [\<lparr>tag = Some ''handle_use'', ptype = Val ''zx_handle_t'', pname = ''handle''\<rparr>,
       \<lparr>tag = None, ptype = Val ''uint32_t'', pname = ''options''\<rparr>,
       \<lparr>tag = None, ptype = ConstPtr ''void'', pname = ''bytes''\<rparr>,
       \<lparr>tag = None, ptype = Val ''uint32_t'', pname = ''num_bytes''\<rparr>,
       \<lparr>tag = None, ptype = ConstPtr ''zx_handle_t'', pname = ''handles''\<rparr>,
       \<lparr>tag = None, ptype = Val ''uint32_t'', pname = ''num_handles''\<rparr>],
     nonnull = [], attrs = [ATTR_LEAF_FN]\<rparr>,
    \<lparr>ret = Val ''zx_status_t'', name = ''zx_channel_call'',
     params = [\<lparr>tag = Some ''handle_use'', ptype = Val ''zx_handle_t'', pname = ''handle''\<rparr>,
       \<lparr>tag = None, ptype = Val ''uint32_t'', pname = ''options''\<rparr>,
       \<lparr>tag = None, ptype = Val ''zx_time_t'', pname = ''deadline''\<rparr>,
       \<lparr>tag = None, ptype = ConstPtr ''zx_channel_call_args_t'', pname = ''args''\<rparr>,
       \<lparr>tag = None, ptype = Ptr ''uint32_t'', pname = ''actual_bytes''\<rparr>,
       \<lparr>tag = None, ptype = Ptr ''uint32_t'', pname = ''actual_handles''\<rparr>],
     nonnull = [5, 6], attrs = [ATTR_LEAF_FN]\<rparr>,
    \<lparr>ret = Val ''zx_status_t'', name = ''_zx_channel_call'',
     params = [\<lparr>tag = Some ''handle_use'', ptype = Val ''zx_handle_t'', pname = ''handle''\<rparr>,
       \<lparr>tag = None, ptype = Val ''uint32_t'', pname = ''options''\<rparr>,
       \<lparr>tag = None, ptype = Val ''zx_time_t'', pname = ''deadline''\<rparr>,
       \<lparr>tag = None, ptype = ConstPtr ''zx_channel_call_args_t'', pname = ''args''\<rparr>,
       \<lparr>tag = None, ptype = Ptr ''uint32_t'', pname = ''actual_bytes''\<rparr>,
       \<lparr>tag = None, ptype = Ptr ''uint32_t'', pname = ''actual_handles''\<rparr>],
     nonnull = [5, 6], attrs = [ATTR_LEAF_FN]\<rparr>,
    \<lparr>ret = Val ''zx_status_t'', name = ''zx_socket_create'',
     params = [\<lparr>tag = None, ptype = Val ''uint32_t'', pname = ''options''\<rparr>,
       \<lparr>tag = Some ''handle_acquire'', ptype = Ptr ''zx_handle_t'', pname = ''out0''\<rparr>,
       \<lparr>tag = Some ''handle_acquire'', ptype = Ptr ''zx_handle_t'', pname = ''out1''\<rparr>],
     nonnull = [2, 3], attrs = [ATTR_LEAF_FN]\<rparr>,
    \<lparr>ret = Val ''zx_status_t'', name = ''_zx_socket_create'',
     params = [\<lparr>tag = None, ptype = Val ''uint32_t'', pname = ''options''\<rparr>,
       \<lparr>tag = Some ''handle_acquire'', ptype = Ptr ''zx_handle_t'', pname = ''out0''\<rparr>,
       \<lparr>tag = Some ''handle_acquire'', ptype = Ptr ''zx_handle_t'', pname = ''out1''\<rparr>],
     nonnull = [2, 3], attrs = [ATTR_LEAF_FN]\<rparr>,
    \<lparr>ret = Val ''zx_status_t'', name = ''zx_socket_write'',
     params = [\<lparr>tag = Some ''handle_use'', ptype = Val ''zx_handle_t'', pname = ''handle''\<rparr>,
       \<lparr>tag = None, ptype = Val ''uint32_t'', pname = ''options''\<rparr>,
       \<lparr>tag = None, ptype = ConstPtr ''void'', pname = ''buffer''\<rparr>,
       \<lparr>tag = None, ptype = Val ''size_t'', pname = ''buffer_size''\<rparr>,
       \<lparr>tag = None, ptype = Ptr ''size_t'', pname = ''actual''\<rparr>],
     nonnull = [], attrs = [ATTR_LEAF_FN]\<rparr>,
    \<lparr>ret = Val ''zx_status_t'', name = ''_zx_socket_write'',
     params = [\<lparr>tag = Some ''handle_use'', ptype = Val ''zx_handle_t'', pname = ''handle''\<rparr>,
       \<lparr>tag = None, ptype = Val ''uint32_t'', pname = ''options''\<rparr>,
       \<lparr>tag = None, ptype = ConstPtr ''void'', pname = ''buffer''\<rparr>,
       \<lparr>tag = None, ptype = Val ''size_t'', pname = ''buffer_size''\<rparr>,
       \<lparr>tag = None, ptype = Ptr ''size_t'', pname = ''actual''\<rparr>],
     nonnull = [], attrs = [ATTR_LEAF_FN]\<rparr>,
    \<lparr>ret = Val ''zx_status_t'', name = ''zx_socket_read'',
     params = [\<lparr>tag = Some ''handle_use'', ptype = Val ''zx_handle_t'', pname = ''handle''\<rparr>,
       \<lparr>tag = None, ptype = Val ''uint32_t'', pname = ''options''\<rparr>,
       \<lparr>tag = None, ptype = Ptr ''void'', pname = ''buffer''\<rparr>,
       \<lparr>tag = None, ptype = Val ''size_t'', pname = ''buffer_size''\<rparr>,
       \<lparr>tag = None, ptype = Ptr ''size_t'', pname = ''actual''\<rparr>],
     nonnull = [], attrs = [ATTR_LEAF_FN]\<rparr>,
    \<lparr>ret = Val ''zx_status_t'', name = ''_zx_socket_read'',
     params = [\<lparr>tag = Some ''handle_use'', ptype = Val ''zx_handle_t'', pname = ''handle''\<rparr>,
       \<lparr>tag = None, ptype = Val ''uint32_t'', pname = ''options''\<rparr>,
       \<lparr>tag = None, ptype = Ptr ''void'', pname = ''buffer''\<rparr>,
       \<lparr>tag = None, ptype = Val ''size_t'', pname = ''buffer_size''\<rparr>,
       \<lparr>tag = None, ptype = Ptr ''size_t'', pname = ''actual''\<rparr>],
     nonnull = [], attrs = [ATTR_LEAF_FN]\<rparr>,
    \<lparr>ret = Val ''zx_status_t'', name = ''zx_socket_share'',
     params = [\<lparr>tag = Some ''handle_use'', ptype = Val ''zx_handle_t'', pname = ''handle''\<rparr>,
       \<lparr>tag = Some ''handle_use'', ptype = Val ''zx_handle_t'', pname = ''socket_to_share''\<rparr>],
     nonnull = [], attrs = [ATTR_LEAF_FN]\<rparr>,
    \<lparr>ret = Val ''zx_status_t'', name = ''_zx_socket_share'',
     params = [\<lparr>tag = Some ''handle_use'', ptype = Val ''zx_handle_t'', pname = ''handle''\<rparr>,
       \<lparr>tag = Some ''handle_use'', ptype = Val ''zx_handle_t'', pname = ''socket_to_share''\<rparr>],
     nonnull = [], attrs = [ATTR_LEAF_FN]\<rparr>,
    \<lparr>ret = Val ''zx_status_t'', name = ''zx_socket_accept'',
     params = [\<lparr>tag = Some ''handle_use'', ptype = Val ''zx_handle_t'', pname = ''handle''\<rparr>,
       \<lparr>tag = Some ''handle_acquire'', ptype = Ptr ''zx_handle_t'', pname = ''out_socket''\<rparr>],
     nonnull = [2], attrs = [ATTR_LEAF_FN]\<rparr>,
    \<lparr>ret = Val ''zx_status_t'', name = ''_zx_socket_accept'',
     params = [\<lparr>tag = Some ''handle_use'', ptype = Val ''zx_handle_t'', pname = ''handle''\<rparr>,
       \<lparr>tag = Some ''handle_acquire'', ptype = Ptr ''zx_handle_t'', pname = ''out_socket''\<rparr>],
     nonnull = [2], attrs = [ATTR_LEAF_FN]\<rparr>,
    \<lparr>ret = Val ''zx_status_t'', name = ''zx_socket_shutdown'',
     params = [\<lparr>tag = Some ''handle_use'', ptype = Val ''zx_handle_t'', pname = ''handle''\<rparr>,
       \<lparr>tag = None, ptype = Val ''uint32_t'', pname = ''options''\<rparr>],
     nonnull = [], attrs = [ATTR_LEAF_FN]\<rparr>,
    \<lparr>ret = Val ''zx_status_t'', name = ''_zx_socket_shutdown'',
     params = [\<lparr>tag = Some ''handle_use'', ptype = Val ''zx_handle_t'', pname = ''handle''\<rparr>,
       \<lparr>tag = None, ptype = Val ''uint32_t'', pname = ''options''\<rparr>],
     nonnull = [], attrs = [ATTR_LEAF_FN]\<rparr>,
    \<lparr>ret = Val ''void'', name = ''zx_thread_exit'',
     params = [],
     nonnull = [], attrs = [ATTR_LEAF_FN, ATTR_NO_RETURN]\<rparr>,
    \<lparr>ret = Val ''void'', name = ''_zx_thread_exit'',
     params = [],
     nonnull = [], attrs = [ATTR_LEAF_FN, ATTR_NO_RETURN]\<rparr>,
    \<lparr>ret = Val ''zx_status_t'', name = ''zx_thread_create'',
     params = [\<lparr>tag = Some ''handle_use'', ptype = Val ''zx_handle_t'', pname = ''process''\<rparr>,
       \<lparr>tag = None, ptype = ConstPtr ''char'', pname = ''name''\<rparr>,
       \<lparr>tag = None, ptype = Val ''size_t'', pname = ''name_size''\<rparr>,
       \<lparr>tag = None, ptype = Val ''uint32_t'', pname = ''options''\<rparr>,
       \<lparr>tag = Some ''handle_acquire'', ptype = Ptr ''zx_handle_t'', pname = ''out''\<rparr>],
     nonnull = [5], attrs = [ATTR_LEAF_FN]\<rparr>,
    \<lparr>ret = Val ''zx_status_t'', name = ''_zx_thread_create'',
     params = [\<lparr>tag = Some ''handle_use'', ptype = Val ''zx_handle_t'', pname = ''process''\<rparr>,
       \<lparr>tag = None, ptype = ConstPtr ''char'', pname = ''name''\<rparr>,
       \<lparr>tag = None, ptype = Val ''size_t'', pname = ''name_size''\<rparr>,
       \<lparr>tag = None, ptype = Val ''uint32_t'', pname = ''options''\<rparr>,
       \<lparr>tag = Some ''handle_acquire'', ptype = Ptr ''zx_handle_t'', pname = ''out''\<rparr>],
     nonnull = [5], attrs = [ATTR_LEAF_FN]\<rparr>,
    \<lparr>ret = Val ''zx_status_t'', name = ''zx_thread_start'',
     params = [\<lparr>tag = Some ''handle_use'', ptype = Val ''zx_handle_t'', pname = ''handle''\<rparr>,
       \<lparr>tag = None, ptype = Val ''zx_vaddr_t'', pname = ''thread_entry''\<rparr>,
       \<lparr>tag = None, ptype = Val ''zx_vaddr_t'', pname = ''stack''\<rparr>,
       \<lparr>tag = None, ptype = Val ''uintptr_t'', pname = ''arg1''\<rparr>,
       \<lparr>tag = None, ptype = Val ''uintptr_t'', pname = ''arg2''\<rparr>],
     nonnull = [], attrs = [ATTR_LEAF_FN]\<rparr>,
    \<lparr>ret = Val ''zx_status_t'', name = ''_zx_thread_start'',
     params = [\<lparr>tag = Some ''handle_use'', ptype = Val ''zx_handle_t'', pname = ''handle''\<rparr>,
       \<lparr>tag = None, ptype = Val ''zx_vaddr_t'', pname = ''thread_entry''\<rparr>,
       \<lparr>tag = None, ptype = Val ''zx_vaddr_t'', pname = ''stack''\<rparr>,
       \<lparr>tag = None, ptype = Val ''uintptr_t'', pname = ''arg1''\<rparr>,
       \<lparr>tag = None, ptype = Val ''uintptr_t'', pname = ''arg2''\<rparr>],
     nonnull = [], attrs = [ATTR_LEAF_FN]\<rparr>]"

text \<open>Lines 453 to 584 of the header: \<^verbatim>\<open>zx_thread_read_state\<close> to \<^verbatim>\<open>_zx_task_bind_exception_port\<close>.\<close>

definition header_lines_5 :: "string list" where
  "header_lines_5 = [
    ''extern zx_status_t zx_thread_read_state('',
    ''    ZX_SYSCALL_PARAM_ATTR(handle_use) zx_handle_t handle,'',
    ''    uint32_t kind,'',
    ''    void* buffer,'',
    ''    size_t buffer_size) __LEAF_FN;'',
    '''',
    ''extern zx_status_t _zx_thread_read_state('',
    ''    ZX_SYSCALL_PARAM_ATTR(handle_use) zx_handle_t handle,'',
    ''    uint32_t kind,'',
    ''    void* buffer,'',
    ''    size_t buffer_size) __LEAF_FN;'',
    '''',
    ''extern zx_status_t zx_thread_write_state('',
    ''    ZX_SYSCALL_PARAM_ATTR(handle_use) zx_handle_t handle,'',
    ''    uint32_t kind,'',
    ''    const void* buffer,'',
    ''    size_t buffer_size) __LEAF_FN;'',
    '''',
    ''extern zx_status_t _zx_thread_write_state('',
    ''    ZX_SYSCALL_PARAM_ATTR(handle_use) zx_handle_t handle,'',
    ''    uint32_t kind,'',
    ''    const void* buffer,'',
    ''    size_t buffer_size) __LEAF_FN;'',
    '''',
    ''extern zx_status_t zx_thread_set_priority('',
    ''    int32_t prio) __LEAF_FN;'',
    '''',
    ''extern zx_status_t _zx_thread_set_priority('',
    ''    int32_t prio) __LEAF_FN;'',
    '''',
    ''extern void zx_process_exit('',
    ''    int64_t retcode) __LEAF_FN __NO_RETURN;'',
    '''',
    ''extern void _zx_process_exit('',
    ''    int64_t retcode) __LEAF_FN __NO_RETURN;'',
    '''',
    ''extern zx_status_t zx_process_create('',
    ''    ZX_SYSCALL_PARAM_ATTR(handle_use) zx_handle_t job,'',
    ''    const char* name,'',
    ''    size_t name_size,'',
    ''    uint32_t options,'',
    ''    ZX_SYSCALL_PARAM_ATTR(handle_acquire) zx_handle_t* proc_handle,'',
    ''    ZX_SYSCALL_PARAM_ATTR(handle_acquire) zx_handle_t* vmar_handle) __NONNULL((5, 6)) __LEAF_FN;'',
    '''',
    ''extern zx_status_t _zx_process_create('',
    ''    ZX_SYSCALL_PARAM_ATTR(handle_use) zx_handle_t job,'',
    ''    const char* name,'',
    ''    size_t name_size,'',
    ''    uint32_t options,'',
    ''    ZX_SYSCALL_PARAM_ATTR(handle_acquire) zx_handle_t* proc_handle,'',
    ''    ZX_SYSCALL_PARAM_ATTR(handle_acquire) zx_handle_t* vmar_handle) __NONNULL((5, 6)) __LEAF_FN;'',
    '''',
    ''extern zx_status_t zx_process_start('',
    ''    ZX_SYSCALL_PARAM_ATTR(handle_use) zx_handle_t handle,'',
    ''    ZX_SYSCALL_PARAM_ATTR(handle_use) zx_handle_t thread,'',
    ''    zx_vaddr_t entry,'',
    ''    zx_vaddr_t stack,'',
    ''    ZX_SYSCALL_PARAM_ATTR(handle_release_always) zx_handle_t arg1,'',
    ''    uintptr_t arg2) __LEAF_FN;'',
    '''',
    ''extern zx_status_t _zx_process_start('',
    ''    ZX_SYSCALL_PARAM_ATTR(handle_use) zx_handle_t handle,'',
    ''    ZX_SYSCALL_PARAM_ATTR(handle_use) zx_handle_t thread,'',
    ''    zx_vaddr_t entry,'',
    ''    zx_vaddr_t stack,'',
    ''    ZX_SYSCALL_PARAM_ATTR(handle_release_always) zx_handle_t arg1,'',
    ''    uintptr_t arg2) __LEAF_FN;'',
    '''',
    ''extern zx_status_t zx_process_read_memory('',
    ''    ZX_SYSCALL_PARAM_ATTR(handle_use) zx_handle_t handle,'',
    ''    zx_vaddr_t vaddr,'',
    ''    void* buffer,'',
    ''    size_t buffer_size,'',
    ''    size_t* actual) __NONNULL((5)) __LEAF_FN;'',
    '''',
    ''extern zx_status_t _zx_process_read_memory('',
    ''    ZX_SYSCALL_PARAM_ATTR(handle_use) zx_handle_t handle,'',
    ''    zx_vaddr_t vaddr,'',
    ''    void* buffer,'',
    ''    size_t buffer_size,'',
    ''    size_t* actual) __NONNULL((5)) __LEAF_FN;'',
    '''',
    ''extern zx_status_t zx_process_write_memory('',
    ''    ZX_SYSCALL_PARAM_ATTR(handle_use) zx_handle_t handle,'',
    ''    zx_vaddr_t vaddr,'',
    ''    const void* buffer,'',
    ''    size_t buffer_size,'',
    ''    size_t* actual) __NONNULL((5)) __LEAF_FN;'',
    '''',
    ''extern zx_status_t _zx_process_write_memory('',
    ''    ZX_SYSCALL_PARAM_ATTR(handle_use) zx_handle_t handle,'',
    ''    zx_vaddr_t vaddr,'',
    ''    const void* buffer,'',
    ''    size_t buffer_size,'',
    ''    size_t* actual) __NONNULL((5)) __LEAF_FN;'',
    '''',
    ''extern zx_status_t zx_job_create('',
    ''    ZX_SYSCALL_PARAM_ATTR(handle_use) zx_handle_t parent_job,'',
    ''    uint32_t options,'',
    ''    ZX_SYSCALL_PARAM_ATTR(handle_acquire) zx_handle_t* out) __NONNULL((3)) __LEAF_FN;'',
    '''',
    ''extern zx_status_t _zx_job_create('',
    ''    ZX_SYSCALL_PARAM_ATTR(handle_use) zx_handle_t parent_job,'',
    ''    uint32_t options,'',
    ''    ZX_SYSCALL_PARAM_ATTR(handle_acquire) zx_handle_t* out) __NONNULL((3)) __LEAF_FN;'',
    '''',
    ''extern zx_status_t zx_job_set_policy('',
    ''    ZX_SYSCALL_PARAM_ATTR(handle_use) zx_handle_t handle,'',
    ''    uint32_t options,'',
    ''    uint32_t topic,'',
    ''    const void* policy,'',
    ''    uint32_t count) __LEAF_FN;'',
    '''',
    ''extern zx_status_t _zx_job_set_policy('',
    ''    ZX_SYSCALL_PARAM_ATTR(handle_use) zx_handle_t handle,'',
    ''    uint32_t options,'',
    ''    uint32_t topic,'',
    ''    const void* policy,'',
    ''    uint32_t count) __LEAF_FN;'',
    '''',
    ''extern zx_status_t zx_task_bind_exception_port('',
    ''    ZX_SYSCALL_PARAM_ATTR(handle_use) zx_handle_t handle,'',
    ''    ZX_SYSCALL_PARAM_ATTR(handle_use) zx_handle_t port,'',
    ''    uint64_t key,'',
    ''    uint32_t options) __LEAF_FN;'',
    '''',
    ''extern zx_status_t _zx_task_bind_exception_port('',
    ''    ZX_SYSCALL_PARAM_ATTR(handle_use) zx_handle_t handle,'',
    ''    ZX_SYSCALL_PARAM_ATTR(handle_use) zx_handle_t port,'',
    ''    uint64_t key,'',
    ''    uint32_t options) __LEAF_FN;'',
    '''']"

definition syscalls_5 :: "decl list" where
  "syscalls_5 = [
    \<lparr>ret = Val ''zx_status_t'', name = ''zx_thread_read_state'',
     params = [\<lparr>tag = Some ''handle_use'', ptype = Val ''zx_handle_t'', pname = ''handle''\<rparr>,
       \<lparr>tag = None, ptype = Val ''uint32_t'', pname = ''kind''\<rparr>,
       \<lparr>tag = None, ptype = Ptr ''void'', pname = ''buffer''\<rparr>,
       \<lparr>tag = None, ptype = Val ''size_t'', pname = ''buffer_size''\<rparr>],
     nonnull = [], attrs = [ATTR_LEAF_FN]\<rparr>,
    \<lparr>ret = Val ''zx_status_t'', name = ''_zx_thread_read_state'',
     params = [\<lparr>tag = Some ''handle_use'', ptype = Val ''zx_handle_t'', pname = ''handle''\<rparr>,
       \<lparr>tag = None, ptype = Val ''uint32_t'', pname = ''kind''\<rparr>,
       \<lparr>tag = None, ptype = Ptr ''void'', pname = ''buffer''\<rparr>,
       \<lparr>tag = None, ptype = Val ''size_t'', pname = ''buffer_size''\<rparr>],
     nonnull = [], attrs = [ATTR_LEAF_FN]\<rparr>,
    \<lparr>ret = Val ''zx_status_t'', name = ''zx_thread_write_state'',
     params = [\<lparr>tag = Some ''handle_use'', ptype = Val ''zx_handle_t'', pname = ''handle''\<rparr>,
       \<lparr>tag = None, ptype = Val ''uint32_t'', pname = ''kind''\<rparr>,
       \<lparr>tag = None, ptype = ConstPtr ''void'', pname = ''buffer''\<rparr>,
       \<lparr>tag = None, ptype = Val ''size_t'', pname = ''buffer_size''\<rparr>],
     nonnull = [], attrs = [ATTR_LEAF_FN]\<rparr>,
    \<lparr>ret = Val ''zx_status_t'', name = ''_zx_thread_write_state'',
     params = [\<lparr>tag = Some ''handle_use'', ptype = Val ''zx_handle_t'', pname = ''handle''\<rparr>,
       \<lparr>tag = None, ptype = Val ''uint32_t'', pname = ''kind''\<rparr>,
       \<lparr>tag = None, ptype = ConstPtr ''void'', pname = ''buffer''\<rparr>,
       \<lparr>tag = None, ptype = Val ''size_t'', pname = ''buffer_size''\<rparr>],
     nonnull = [], attrs = [ATTR_LEAF_FN]\<rparr>,
    \<lparr>ret = Val ''zx_status_t'', name = ''zx_thread_set_priority'',
     params = [\<lparr>tag = None, ptype = Val ''int32_t'', pname = ''prio''\<rparr>],
     nonnull = [], attrs = [ATTR_LEAF_FN]\<rparr>,
    \<lparr>ret = Val ''zx_status_t'', name = ''_zx_thread_set_priority'',
     params = [\<lparr>tag = None, ptype = Val ''int32_t'', pname = ''prio''\<rparr>],
     nonnull = [], attrs = [ATTR_LEAF_FN]\<rparr>,
    \<lparr>ret = Val ''void'', name = ''zx_process_exit'',
     params = [\<lparr>tag = None, ptype = Val ''int64_t'', pname = ''retcode''\<rparr>],
     nonnull = [], attrs = [ATTR_LEAF_FN, ATTR_NO_RETURN]\<rparr>,
    \<lparr>ret = Val ''void'', name = ''_zx_process_exit'',
     params = [\<lparr>tag = None, ptype = Val ''int64_t'', pname = ''retcode''\<rparr>],
     nonnull = [], attrs = [ATTR_LEAF_FN, ATTR_NO_RETURN]\<rparr>,
    \<lparr>ret = Val ''zx_status_t'', name = ''zx_process_create'',
     params = [\<lparr>tag = Some ''handle_use'', ptype = Val ''zx_handle_t'', pname = ''job''\<rparr>,
       \<lparr>tag = None, ptype = ConstPtr ''char'', pname = ''name''\<rparr>,
       \<lparr>tag = None, ptype = Val ''size_t'', pname = ''name_size''\<rparr>,
       \<lparr>tag = None, ptype = Val ''uint32_t'', pname = ''options''\<rparr>,
       \<lparr>tag = Some ''handle_acquire'', ptype = Ptr ''zx_handle_t'', pname = ''proc_handle''\<rparr>,
       \<lparr>tag = Some ''handle_acquire'', ptype = Ptr ''zx_handle_t'', pname = ''vmar_handle''\<rparr>],
     nonnull = [5, 6], attrs = [ATTR_LEAF_FN]\<rparr>,
    \<lparr>ret = Val ''zx_status_t'', name = ''_zx_process_create'',
     params = [\<lparr>tag = Some ''handle_use'', ptype = Val ''zx_handle_t'', pname = ''job''\<rparr>,
       \<lparr>tag = None, ptype = ConstPtr ''char'', pname = ''name''\<rparr>,
       \<lparr>tag = None, ptype = Val ''size_t'', pname = ''name_size''\<rparr>,
       \<lparr>tag = None, ptype = Val ''uint32_t'', pname = ''options''\<rparr>,
       \<lparr>tag = Some ''handle_acquire'', ptype = Ptr ''zx_handle_t'', pname = ''proc_handle''\<rparr>,
       \<lparr>tag = Some ''handle_acquire'', ptype = Ptr ''zx_handle_t'', pname = ''vmar_handle''\<rparr>],
     nonnull = [5, 6], attrs = [ATTR_LEAF_FN]\<rparr>,
    \<lparr>ret = Val ''zx_status_t'', name = ''zx_process_start'',
     params = [\<lparr>tag = Some ''handle_use'', ptype = Val ''zx_handle_t'', pname = ''handle''\<rparr>,
       \<lparr>tag = Some ''handle_use'', ptype = Val ''zx_handle_t'', pname = ''thread''\<rparr>,
       \<lparr>tag = None, ptype = Val ''zx_vaddr_t'', pname = ''entry''\<rparr>,
       \<lparr>tag = None, ptype = Val ''zx_vaddr_t'', pname = ''stack''\<rparr>,
       \<lparr>tag = Some ''handle_release_always'', ptype = Val ''zx_handle_t'', pname = ''arg1''\<rparr>,
       \<lparr>tag = None, ptype = Val ''uintptr_t'', pname = ''arg2''\<rparr>],
     nonnull = [], attrs = [ATTR_LEAF_FN]\<rparr>,
    \<lparr>ret = Val ''zx_status_t'', name = ''_zx_process_start'',
     params = [\<lparr>tag = Some ''handle_use'', ptype = Val ''zx_handle_t'', pname = ''handle''\<rparr>,
       \<lparr>tag = Some ''handle_use'', ptype = Val ''zx_handle_t'', pname = ''thread''\<rparr>,
       \<lparr>tag = None, ptype = Val ''zx_vaddr_t'', pname = ''entry''\<rparr>,
       \<lparr>tag = None, ptype = Val ''zx_vaddr_t'', pname = ''stack''\<rparr>,
       \<lparr>tag = Some ''handle_release_always'', ptype = Val ''zx_handle_t'', pname = ''arg1''\<rparr>,
       \<lparr>tag = None, ptype = Val ''uintptr_t'', pname = ''arg2''\<rparr>],
     nonnull = [], attrs = [ATTR_LEAF_FN]\<rparr>,
    \<lparr>ret = Val ''zx_status_t'', name = ''zx_process_read_memory'',
     params = [\<lparr>tag = Some ''handle_use'', ptype = Val ''zx_handle_t'', pname = ''handle''\<rparr>,
       \<lparr>tag = None, ptype = Val ''zx_vaddr_t'', pname = ''vaddr''\<rparr>,
       \<lparr>tag = None, ptype = Ptr ''void'', pname = ''buffer''\<rparr>,
       \<lparr>tag = None, ptype = Val ''size_t'', pname = ''buffer_size''\<rparr>,
       \<lparr>tag = None, ptype = Ptr ''size_t'', pname = ''actual''\<rparr>],
     nonnull = [5], attrs = [ATTR_LEAF_FN]\<rparr>,
    \<lparr>ret = Val ''zx_status_t'', name = ''_zx_process_read_memory'',
     params = [\<lparr>tag = Some ''handle_use'', ptype = Val ''zx_handle_t'', pname = ''handle''\<rparr>,
       \<lparr>tag = None, ptype = Val ''zx_vaddr_t'', pname = ''vaddr''\<rparr>,
       \<lparr>tag = None, ptype = Ptr ''void'', pname = ''buffer''\<rparr>,
       \<lparr>tag = None, ptype = Val ''size_t'', pname = ''buffer_size''\<rparr>,
       \<lparr>tag = None, ptype = Ptr ''size_t'', pname = ''actual''\<rparr>],
     nonnull = [5], attrs = [ATTR_LEAF_FN]\<rparr>,
    \<lparr>ret = Val ''zx_status_t'', name = ''zx_process_write_memory'',
     params = [\<lparr>tag = Some ''handle_use'', ptype = Val ''zx_handle_t'', pname = ''handle''\<rparr>,
       \<lparr>tag = None, ptype = Val ''zx_vaddr_t'', pname = ''vaddr''\<rparr>,
       \<lparr>tag = None, ptype = ConstPtr ''void'', pname = ''buffer''\<rparr>,
       \<lparr>tag = None, ptype = Val ''size_t'', pname = ''buffer_size''\<rparr>,
       \<lparr>tag = None, ptype = Ptr ''size_t'', pname = ''actual''\<rparr>],
     nonnull = [5], attrs = [ATTR_LEAF_FN]\<rparr>,
    \<lparr>ret = Val ''zx_status_t'', name = ''_zx_process_write_memory'',
     params = [\<lparr>tag = Some ''handle_use'', ptype = Val ''zx_handle_t'', pname = ''handle''\<rparr>,
       \<lparr>tag = None, ptype = Val ''zx_vaddr_t'', pname = ''vaddr''\<rparr>,
       \<lparr>tag = None, ptype = ConstPtr ''void'', pname = ''buffer''\<rparr>,
       \<lparr>tag = None, ptype = Val ''size_t'', pname = ''buffer_size''\<rparr>,
       \<lparr>tag = None, ptype = Ptr ''size_t'', pname = ''actual''\<rparr>],
     nonnull = [5], attrs = [ATTR_LEAF_FN]\<rparr>,
    \<lparr>ret = Val ''zx_status_t'', name = ''zx_job_create'',
     params = [\<lparr>tag = Some ''handle_use'', ptype = Val ''zx_handle_t'', pname = ''parent_job''\<rparr>,
       \<lparr>tag = None, ptype = Val ''uint32_t'', pname = ''options''\<rparr>,
       \<lparr>tag = Some ''handle_acquire'', ptype = Ptr ''zx_handle_t'', pname = ''out''\<rparr>],
     nonnull = [3], attrs = [ATTR_LEAF_FN]\<rparr>,
    \<lparr>ret = Val ''zx_status_t'', name = ''_zx_job_create'',
     params = [\<lparr>tag = Some ''handle_use'', ptype = Val ''zx_handle_t'', pname = ''parent_job''\<rparr>,
       \<lparr>tag = None, ptype = Val ''uint32_t'', pname = ''options''\<rparr>,
       \<lparr>tag = Some ''handle_acquire'', ptype = Ptr ''zx_handle_t'', pname = ''out''\<rparr>],
     nonnull = [3], attrs = [ATTR_LEAF_FN]\<rparr>,
    \<lparr>ret = Val ''zx_status_t'', name = ''zx_job_set_policy'',
     params = [\<lparr>tag = Some ''handle_use'', ptype = Val ''zx_handle_t'', pname = ''handle''\<rparr>,
       \<lparr>tag = None, ptype = Val ''uint32_t'', pname = ''options''\<rparr>,
       \<lparr>tag = None, ptype = Val ''uint32_t'', pname = ''topic''\<rparr>,
       \<lparr>tag = None, ptype = ConstPtr ''void'', pname = ''policy''\<rparr>,
       \<lparr>tag = None, ptype = Val ''uint32_t'', pname = ''count''\<rparr>],
     nonnull = [], attrs = [ATTR_LEAF_FN]\<rparr>,
    \<lparr>ret = Val ''zx_status_t'', name = ''_zx_job_set_policy'',
     params = [\<lparr>tag = Some ''handle_use'', ptype = Val ''zx_handle_t'', pname = ''handle''\<rparr>,
       \<lparr>tag = None, ptype = Val ''uint32_t'', pname = ''options''\<rparr>,
       \<lparr>tag = None, ptype = Val ''uint32_t'', pname = ''topic''\<rparr>,
       \<lparr>tag = None, ptype = ConstPtr ''void'', pname = ''policy''\<rparr>,
       \<lparr>tag = None, ptype = Val ''uint32_t'', pname = ''count''\<rparr>],
     nonnull = [], attrs = [ATTR_LEAF_FN]\<rparr>,
    \<lparr>ret = Val ''zx_status_t'', name = ''zx_task_bind_exception_port'',
     params = [\<lparr>tag = Some ''handle_use'', ptype = Val ''zx_handle_t'', pname = ''handle''\<rparr>,
       \<lparr>tag = Some ''handle_use'', ptype = Val ''zx_handle_t'', pname = ''port''\<rparr>,
       \<lparr>tag = None, ptype = Val ''uint64_t'', pname = ''key''\<rparr>,
       \<lparr>tag = None, ptype = Val ''uint32_t'', pname = ''options''\<rparr>],
     nonnull = [], attrs = [ATTR_LEAF_FN]\<rparr>,
    \<lparr>ret = Val ''zx_status_t'', name = ''_zx_task_bind_exception_port'',
     params = [\<lparr>tag = Some ''handle_use'', ptype = Val ''zx_handle_t'', pname = ''handle''\<rparr>,
       \<lparr>tag = Some ''handle_use'', ptype = Val ''zx_handle_t'', pname = ''port''\<rparr>,
       \<lparr>tag = None, ptype = Val ''uint64_t'', pname = ''key''\<rparr>,
       \<lparr>tag = None, ptype = Val ''uint32_t'', pname = ''options''\<rparr>],
     nonnull = [], attrs = [ATTR_LEAF_FN]\<rparr>]"

text \<open>Lines 585 to 690 of the header: \<^verbatim>\<open>zx_task_suspend\<close> to \<^verbatim>\<open>_zx_futex_requeue_single_owner\<close>.\<close>

definition header_lines_6 :: "string list" where
  "header_lines_6 = [
    ''extern zx_status_t zx_task_suspend('',
    ''    ZX_SYSCALL_PARAM_ATTR(handle_use) zx_handle_t handle,'',
    ''    ZX_SYSCALL_PARAM_ATTR(handle_acquire) zx_handle_t* token) __NONNULL((2)) __LEAF_FN;'',
    '''',
    ''extern zx_status_t _zx_task_suspend('',
    ''    ZX_SYSCALL_PARAM_ATTR(handle_use) zx_handle_t handle,'',
    ''    ZX_SYSCALL_PARAM_ATTR(handle_acquire) zx_handle_t* token) __NONNULL((2)) __LEAF_FN;'',
    '''',
    ''extern zx_status_t zx_task_suspend_token('',
    ''    ZX_SYSCALL_PARAM_ATTR(handle_use) zx_handle_t handle,'',
    ''    ZX_SYSCALL_PARAM_ATTR(handle_acquire) zx_handle_t* token) __NONNULL((2)) __LEAF_FN;'',
    '''',
    ''extern zx_status_t _zx_task_suspend_token('',
    ''    ZX_SYSCALL_PARAM_ATTR(handle_use) zx_handle_t handle,'',
    ''    ZX_SYSCALL_PARAM_ATTR(handle_acquire) zx_handle_t* token) __NONNULL((2)) __LEAF_FN;'',
    '''',
    ''extern zx_status_t zx_task_resume_from_exception('',
    ''    ZX_SYSCALL_PARAM_ATTR(handle_use) zx_handle_t handle,'',
    ''    ZX_SYSCALL_PARAM_ATTR(handle_use) zx_handle_t port,'',
    ''    uint32_t options) __LEAF_FN;'',
    '''',
    ''extern zx_status_t _zx_task_resume_from_exception('',
    ''    ZX_SYSCALL_PARAM_ATTR(handle_use) zx_handle_t handle,'',
    ''    ZX_SYSCALL_PARAM_ATTR(handle_use) zx_handle_t port,'',
    ''    uint32_t options) __LEAF_FN;'',
    '''',
    ''extern zx_status_t zx_task_kill('',
    ''    ZX_SYSCALL_PARAM_ATTR(handle_use) zx_handle_t handle) __LEAF_FN;'',
    '''',
    ''extern zx_status_t _zx_task_kill('',
    ''    ZX_SYSCALL_PARAM_ATTR(handle_use) zx_handle_t handle) __LEAF_FN;'',
    '''',
    ''extern zx_status_t zx_event_create('',
    ''    uint32_t options,'',
    ''    ZX_SYSCALL_PARAM_ATTR(handle_acquire) zx_handle_t* out) __NONNULL((2)) __LEAF_FN;'',
    '''',
    ''extern zx_status_t _zx_event_create('',
    ''    uint32_t options,'',
    ''    ZX_SYSCALL_PARAM_ATTR(handle_acquire) zx_handle_t* out) __NONNULL((2)) __LEAF_FN;'',
    '''',
    ''extern zx_status_t zx_eventpair_create('',
    ''    uint32_t options,'',
    ''    ZX_SYSCALL_PARAM_ATTR(handle_acquire) zx_handle_t* out0,'',
    ''    ZX_SYSCALL_PARAM_ATTR(handle_acquire) zx_handle_t* out1) __NONNULL((2, 3)) __LEAF_FN;'',
    '''',
    ''extern zx_status_t _zx_eventpair_create('',
    ''    uint32_t options,'',
    ''    ZX_SYSCALL_PARAM_ATTR(handle_acquire) zx_handle_t* out0,'',
    ''    ZX_SYSCALL_PARAM_ATTR(handle_acquire) zx_handle_t* out1) __NONNULL((2, 3)) __LEAF_FN;'',
    '''',
    ''extern zx_status_t zx_futex_wait('',
    ''    const zx_futex_t* value_ptr,'',
    ''    zx_futex_t current_value,'',
    ''    ZX_SYSCALL_PARAM_ATTR(handle_use) zx_handle_t new_futex_owner,'',
    ''    zx_time_t deadline) __LEAF_FN;'',
    '''',
    ''extern zx_status_t _zx_futex_wait('',
    ''    const zx_futex_t* value_ptr,'',
    ''    zx_futex_t current_value,'',
    ''    ZX_SYSCALL_PARAM_ATTR(handle_use) zx_handle_t new_futex_owner,'',
    ''    zx_time_t deadline) __LEAF_FN;'',
    '''',
    ''extern zx_status_t zx_futex_wake('',
    ''    const zx_futex_t* value_ptr,'',
    ''    uint32_t count) __LEAF_FN;'',
    '''',
    ''extern zx_status_t _zx_futex_wake('',
    ''    const zx_futex_t* value_ptr,'',
    ''    uint32_t count) __LEAF_FN;'',
    '''',
    ''extern zx_status_t zx_futex_requeue('',
    ''    const zx_futex_t* wake_ptr,'',
    ''    uint32_t wake_count,'',
    ''    zx_futex_t current_value,'',
    ''    const zx_futex_t* requeue_ptr,'',
    ''    uint32_t requeue_count,'',
    ''    ZX_SYSCALL_PARAM_ATTR(handle_use) zx_handle_t new_requeue_owner) __LEAF_FN;'',
    '''',
    ''extern zx_status_t _zx_futex_requeue('',
    ''    const zx_futex_t* wake_ptr,'',
    ''    uint32_t wake_count,'',
    ''    zx_futex_t current_value,'',
    ''    const zx_futex_t* requeue_ptr,'',
    ''    uint32_t requeue_count,'',
    ''    ZX_SYSCALL_PARAM_ATTR(handle_use) zx_handle_t new_requeue_owner) __LEAF_FN;'',
    '''',
    ''extern zx_status_t zx_futex_wake_single_owner('',
    ''    const zx_futex_t* value_ptr) __LEAF_FN;'',
    '''',
    ''extern zx_status_t _zx_futex_wake_single_owner('',
    ''    const zx_futex_t* value_ptr) __LEAF_FN;'',
    '''',
    ''extern zx_status_t zx_futex_requeue_single_owner('',
    ''    const zx_futex_t* wake_ptr,'',
    ''    zx_futex_t current_value,'',
    ''    const zx_futex_t* requeue_ptr,'',
    ''    uint32_t requeue_count,'',
    ''    ZX_SYSCALL_PARAM_ATTR(handle_use) zx_handle_t new_requeue_owner) __LEAF_FN;'',
    '''',
    ''extern zx_status_t _zx_futex_requeue_single_owner('',
    ''    const zx_futex_t* wake_ptr,'',
    ''    zx_futex_t current_value,'',
    ''    const zx_futex_t* requeue_ptr,'',
    ''    uint32_t requeue_count,'',
    ''    ZX_SYSCALL_PARAM_ATTR(handle_use) zx_handle_t new_requeue_owner) __LEAF_FN;'',
    '''']"

definition syscalls_6 :: "decl list" where
  "syscalls_6 = [
    \<lparr>ret = Val ''zx_status_t'', name = ''zx_task_suspend'',
     params = [\<lparr>tag = Some ''handle_use'', ptype = Val ''zx_handle_t'', pname = ''handle''\<rparr>,
       \<lparr>tag = Some ''handle_acquire'', ptype = Ptr ''zx_handle_t'', pname = ''token''\<rparr>],
     nonnull = [2], attrs = [ATTR_LEAF_FN]\<rparr>,
    \<lparr>ret = Val ''zx_status_t'', name = ''_zx_task_suspend'',
     params = [\<lparr>tag = Some ''handle_use'', ptype = Val ''zx_handle_t'', pname = ''handle''\<rparr>,
       \<lparr>tag = Some ''handle_acquire'', ptype = Ptr ''zx_handle_t'', pname = ''token''\<rparr>],
     nonnull = [2], attrs = [ATTR_LEAF_FN]\<rparr>,
    \<lparr>ret = Val ''zx_status_t'', name = ''zx_task_suspend_token'',
     params = [\<lparr>tag = Some ''handle_use'', ptype = Val ''zx_handle_t'', pname = ''handle''\<rparr>,
       \<lparr>tag = Some ''handle_acquire'', ptype = Ptr ''zx_handle_t'', pname = ''token''\<rparr>],
     nonnull = [2], attrs = [ATTR_LEAF_FN]\<rparr>,
    \<lparr>ret = Val ''zx_status_t'', name = ''_zx_task_suspend_token'',
     params = [\<lparr>tag = Some ''handle_use'', ptype = Val ''zx_handle_t'', pname = ''handle''\<rparr>,
       \<lparr>tag = Some ''handle_acquire'', ptype = Ptr ''zx_handle_t'', pname = ''token''\<rparr>],
     nonnull = [2], attrs = [ATTR_LEAF_FN]\<rparr>,
    \<lparr>ret = Val ''zx_status_t'', name = ''zx_task_resume_from_exception'',
     params = [\<lparr>tag = Some ''handle_use'', ptype = Val ''zx_handle_t'', pname = ''handle''\<rparr>,
       \<lparr>tag = Some ''handle_use'', ptype = Val ''zx_handle_t'', pname = ''port''\<rparr>,
       \<lparr>tag = None, ptype = Val ''uint32_t'', pname = ''options''\<rparr>],
     nonnull = [], attrs = [ATTR_LEAF_FN]\<rparr>,
    \<lparr>ret = Val ''zx_status_t'', name = ''_zx_task_resume_from_exception'',
     params = [\<lparr>tag = Some ''handle_use'', ptype = Val ''zx_handle_t'', pname = ''handle''\<rparr>,
       \<lparr>tag = Some ''handle_use'', ptype = Val ''zx_handle_t'', pname = ''port''\<rparr>,
       \<lparr>tag = None, ptype = Val ''uint32_t'', pname = ''options''\<rparr>],
     nonnull = [], attrs = [ATTR_LEAF_FN]\<rparr>,
    \<lparr>ret = Val ''zx_status_t'', name = ''zx_task_kill'',
     params = [\<lparr>tag = Some ''handle_use'', ptype = Val ''zx_handle_t'', pname = ''handle''\<rparr>],
     nonnull = [], attrs = [ATTR_LEAF_FN]\<rparr>,
    \<lparr>ret = Val ''zx_status_t'', name = ''_zx_task_kill'',
     params = [\<lparr>tag = Some ''handle_use'', ptype = Val ''zx_handle_t'', pname = ''handle''\<rparr>],
     nonnull = [], attrs = [ATTR_LEAF_FN]\<rparr>,
    \<lparr>ret = Val ''zx_status_t'', name = ''zx_event_create'',
     params = [\<lparr>tag = None, ptype = Val ''uint32_t'', pname = ''options''\<rparr>,
       \<lparr>tag = Some ''handle_acquire'', ptype = Ptr ''zx_handle_t'', pname = ''out''\<rparr>],
     nonnull = [2], attrs = [ATTR_LEAF_FN]\<rparr>,
    \<lparr>ret = Val ''zx_status_t'', name = ''_zx_event_create'',
     params = [\<lparr>tag = None, ptype = Val ''uint32_t'', pname = ''options''\<rparr>,
       \<lparr>tag = Some ''handle_acquire'', ptype = Ptr ''zx_handle_t'', pname = ''out''\<rparr>],
     nonnull = [2], attrs = [ATTR_LEAF_FN]\<rparr>,
    \<lparr>ret = Val ''zx_status_t'', name = ''zx_eventpair_create'',
     params = [\<lparr>tag = None, ptype = Val ''uint32_t'', pname = ''options''\<rparr>,
       \<lparr>tag = Some ''handle_acquire'', ptype = Ptr ''zx_handle_t'', pname = ''out0''\<rparr>,
       \<lparr>tag = Some ''handle_acquire'', ptype = Ptr ''zx_handle_t'', pname = ''out1''\<rparr>],
     nonnull = [2, 3], attrs = [ATTR_LEAF_FN]\<rparr>,
    \<lparr>ret = Val ''zx_status_t'', name = ''_zx_eventpair_create'',
     params = [\<lparr>tag = None, ptype = Val ''uint32_t'', pname = ''options''\<rparr>,
       \<lparr>tag = Some ''handle_acquire'', ptype = Ptr ''zx_handle_t'', pname = ''out0''\<rparr>,
       \<lparr>tag = Some ''handle_acquire'', ptype = Ptr ''zx_handle_t'', pname = ''out1''\<rparr>],
     nonnull = [2, 3], attrs = [ATTR_LEAF_FN]\<rparr>,
    \<lparr>ret = Val ''zx_status_t'', name = ''zx_futex_wait'',
     params = [\<lparr>tag = None, ptype = ConstPtr ''zx_futex_t'', pname = ''value_ptr''\<rparr>,
       \<lparr>tag = None, ptype = Val ''zx_futex_t'', pname = ''current_value''\<rparr>,
       \<lparr>tag = Some ''handle_use'', ptype = Val ''zx_handle_t'', pname = ''new_futex_owner''\<rparr>,
       \<lparr>tag = None, ptype = Val ''zx_time_t'', pname = ''deadline''\<rparr>],
     nonnull = [], attrs = [ATTR_LEAF_FN]\<rparr>,
    \<lparr>ret = Val ''zx_status_t'', name = ''_zx_futex_wait'',
     params = [\<lparr>tag = None, ptype = ConstPtr ''zx_futex_t'', pname = ''value_ptr''\<rparr>,
       \<lparr>tag = None, ptype = Val ''zx_futex_t'', pname = ''current_value''\<rparr>,
       \<lparr>tag = Some ''handle_use'', ptype = Val ''zx_handle_t'', pname = ''new_futex_owner''\<rparr>,
       \<lparr>tag = None, ptype = Val ''zx_time_t'', pname = ''deadline''\<rparr>],
     nonnull = [], attrs = [ATTR_LEAF_FN]\<rparr>,
    \<lparr>ret = Val ''zx_status_t'', name = ''zx_futex_wake'',
     params = [\<lparr>tag = None, ptype = ConstPtr ''zx_futex_t'', pname = ''value_ptr''\<rparr>,
       \<lparr>tag = None, ptype = Val ''uint32_t'', pname = ''count''\<rparr>],
     nonnull = [], attrs = [ATTR_LEAF_FN]\<rparr>,
    \<lparr>ret = Val ''zx_status_t'', name = ''_zx_futex_wake'',
     params = [\<lparr>tag = None, ptype = ConstPtr ''zx_futex_t'', pname = ''value_ptr''\<rparr>,
       \<lparr>tag = None, ptype = Val ''uint32_t'', pname = ''count''\<rparr>],
     nonnull = [], attrs = [ATTR_LEAF_FN]\<rparr>,
    \<lparr>ret = Val ''zx_status_t'', name = ''zx_futex_requeue'',
     params = [\<lparr>tag = None, ptype = ConstPtr ''zx_futex_t'', pname = ''wake_ptr''\<rparr>,
       \<lparr>tag = None, ptype = Val ''uint32_t'', pname = ''wake_count''\<rparr>,
       \<lparr>tag = None, ptype = Val ''zx_futex_t'', pname = ''current_value''\<rparr>,
       \<lparr>tag = None, ptype = ConstPtr ''zx_futex_t'', pname = ''requeue_ptr''\<rparr>,
       \<lparr>tag = None, ptype = Val ''uint32_t'', pname = ''requeue_count''\<rparr>,
       \<lparr>tag = Some ''handle_use'', ptype = Val ''zx_handle_t'', pname = ''new_requeue_owner''\<rparr>],
     nonnull = [], attrs = [ATTR_LEAF_FN]\<rparr>,
    \<lparr>ret = Val ''zx_status_t'', name = ''_zx_futex_requeue'',
     params = [\<lparr>tag = None, ptype = ConstPtr ''zx_futex_t'', pname = ''wake_ptr''\<rparr>,
       \<lparr>tag = None, ptype = Val ''uint32_t'', pname = ''wake_count''\<rparr>,
       \<lparr>tag = None, ptype = Val ''zx_futex_t'', pname = ''current_value''\<rparr>,
       \<lparr>tag = None, ptype = ConstPtr ''zx_futex_t'', pname = ''requeue_ptr''\<rparr>,
       \<lparr>tag = None, ptype = Val ''uint32_t'', pname = ''requeue_count''\<rparr>,
       \<lparr>tag = Some ''handle_use'', ptype = Val ''zx_handle_t'', pname = ''new_requeue_owner''\<rparr>],
     nonnull = [], attrs = [ATTR_LEAF_FN]\<rparr>,
    \<lparr>ret = Val ''zx_status_t'', name = ''zx_futex_wake_single_owner'',
     params = [\<lparr>tag = None, ptype = ConstPtr ''zx_futex_t'', pname = ''value_ptr''\<rparr>],
     nonnull = [], attrs = [ATTR_LEAF_FN]\<rparr>,
    \<lparr>ret = Val ''zx_status_t'', name = ''_zx_futex_wake_single_owner'',
     params = [\<lparr>tag = None, ptype = ConstPtr ''zx_futex_t'', pname = ''value_ptr''\<rparr>],
     nonnull = [], attrs = [ATTR_LEAF_FN]\<rparr>,
    \<lparr>ret = Val ''zx_status_t'', name = ''zx_futex_requeue_single_owner'',
     params = [\<lparr>tag = None, ptype = ConstPtr ''zx_futex_t'', pname = ''wake_ptr''\<rparr>,
       \<lparr>tag = None, ptype = Val ''zx_futex_t'', pname = ''current_value''\<rparr>,
       \<lparr>tag = None, ptype = ConstPtr ''zx_futex_t'', pname = ''requeue_ptr''\<rparr>,
       \<lparr>tag = None, ptype = Val ''uint32_t'', pname = ''requeue_count''\<rparr>,
       \<lparr>tag = Some ''handle_use'', ptype = Val ''zx_handle_t'', pname = ''new_requeue_owner''\<rparr>],
     nonnull = [], attrs = [ATTR_LEAF_FN]\<rparr>,
    \<lparr>ret = Val ''zx_status_t'', name = ''_zx_futex_requeue_single_owner'',
     params = [\<lparr>tag = None, ptype = ConstPtr ''zx_futex_t'', pname = ''wake_ptr''\<rparr>,
       \<lparr>tag = None, ptype = Val ''zx_futex_t'', pname = ''current_value''\<rparr>,
       \<lparr>tag = None, ptype = ConstPtr ''zx_futex_t'', pname = ''requeue_ptr''\<rparr>,
       \<lparr>tag = None, ptype = Val ''uint32_t'', pname = ''requeue_count''\<rparr>,
       \<lparr>tag = Some ''handle_use'', ptype = Val ''zx_handle_t'', pname = ''new_requeue_owner''\<rparr>],
     nonnull = [], attrs = [ATTR_LEAF_FN]\<rparr>]"

text \<open>Lines 691 to 794 of the header: \<^verbatim>\<open>zx_futex_get_owner\<close> to \<^verbatim>\<open>_zx_vmo_create\<close>.\<close>

definition header_lines_7 :: "string list" where
  "header_lines_7 = [
    ''extern zx_status_t zx_futex_get_owner('',
    ''    const zx_futex_t* value_ptr,'',
    ''    zx_koid_t* koid) __LEAF_FN;'',
    '''',
    ''extern zx_status_t _zx_futex_get_owner('',
    ''    const zx_futex_t* value_ptr,'',
    ''    zx_koid_t* koid) __LEAF_FN;'',
    '''',
    ''extern zx_status_t zx_futex_wait_deprecated('',
    ''    const zx_futex_t* value_ptr,'',
    ''    int32_t current_value,'',
    ''    zx_time_t deadline) __LEAF_FN;'',
    '''',
    ''extern zx_status_t _zx_futex_wait_deprecated('',
    ''    const zx_futex_t* value_ptr,'',
    ''    int32_t current_value,'',
    ''    zx_time_t deadline) __LEAF_FN;'',
    '''',
    ''extern zx_status_t zx_futex_requeue_deprecated('',
    ''    const zx_futex_t* wake_ptr,'',
    ''    uint32_t wake_count,'',
    ''    int32_t current_value,'',
    ''    const zx_futex_t* requeue_ptr,'',
    ''    uint32_t requeue_count) __LEAF_FN;'',
    '''',
    ''extern zx_status_t _zx_futex_requeue_deprecated('',
    ''    const zx_futex_t* wake_ptr,'',
    ''    uint32_t wake_count,'',
    ''    int32_t current_value,'',
    ''    const zx_futex_t* requeue_ptr,'',
    ''    uint32_t requeue_count) __LEAF_FN;'',
    '''',
    ''extern zx_status_t zx_port_create('',
    ''    uint32_t options,'',
    ''    ZX_SYSCALL_PARAM_ATTR(handle_acquire) zx_handle_t* out) __NONNULL((2)) __LEAF_FN;'',
    '''',
    ''extern zx_status_t _zx_port_create('',
    ''    uint32_t options,'',
    ''    ZX_SYSCALL_PARAM_ATTR(handle_acquire) zx_handle_t* out) __NONNULL((2)) __LEAF_FN;'',
    '''',
    ''extern zx_status_t zx_port_queue('',
    ''    ZX_SYSCALL_PARAM_ATTR(handle_use) zx_handle_t handle,'',
    ''    const zx_port_packet_t* packet) __LEAF_FN;'',
    '''',
    ''extern zx_status_t _zx_port_queue('',
    ''    ZX_SYSCALL_PARAM_ATTR(handle_use) zx_handle_t handle,'',
    ''    const zx_port_packet_t* packet) __LEAF_FN;'',
    '''',
    ''extern zx_status_t zx_port_wait('',
    ''    ZX_SYSCALL_PARAM_ATTR(handle_use) zx_handle_t handle,'',
    ''    zx_time_t deadline,'',
    ''    zx_port_packet_t* packet) __LEAF_FN;'',
    '''',
    ''extern zx_status_t _zx_port_wait('',
    ''    ZX_SYSCALL_PARAM_ATTR(handle_use) zx_handle_t handle,'',
    ''    zx_time_t deadline,'',
    ''    zx_port_packet_t* packet) __LEAF_FN;'',
    '''',
    ''extern zx_status_t zx_port_cancel('',
    ''    ZX_SYSCALL_PARAM_ATTR(handle_use) zx_handle_t handle,'',
    ''    ZX_SYSCALL_PARAM_ATTR(handle_use) zx_handle_t source,'',
    ''    uint64_t key) __LEAF_FN;'',
    '''',
    ''extern zx_status_t _zx_port_cancel('',
    ''    ZX_SYSCALL_PARAM_ATTR(handle_use) zx_handle_t handle,'',
    ''    ZX_SYSCALL_PARAM_ATTR(handle_use) zx_handle_t source,'',
    ''    uint64_t key) __LEAF_FN;'',
    '''',
    ''extern zx_status_t zx_timer_create('',
    ''    uint32_t options,'',
    ''    zx_clock_t clock_id,'',
    ''    ZX_SYSCALL_PARAM_ATTR(handle_acquire) zx_handle_t* out) __NONNULL((3)) __LEAF_FN;'',
    '''',
    ''extern zx_status_t _zx_timer_create('',
    ''    uint32_t options,'',
    ''    zx_clock_t clock_id,'',
    ''    ZX_SYSCALL_PARAM_ATTR(handle_acquire) zx_handle_t* out) __NONNULL((3)) __LEAF_FN;'',
    '''',
    ''extern zx_status_t zx_timer_set('',
    ''    ZX_SYSCALL_PARAM_ATTR(handle_use) zx_handle_t handle,'',
    ''    zx_time_t deadline,'',
    ''    zx_duration_t slack) __LEAF_FN;'',
    '''',
    ''extern zx_status_t _zx_timer_set('',
    ''    ZX_SYSCALL_PARAM_ATTR(handle_use) zx_handle_t handle,'',
    ''    zx_time_t deadline,'',
    ''    zx_duration_t slack) __LEAF_FN;'',
    '''',
    ''extern zx_status_t zx_timer_cancel('',
    ''    ZX_SYSCALL_PARAM_ATTR(handle_use) zx_handle_t handle) __LEAF_FN;'',
    '''',
    ''extern zx_status_t _zx_timer_cancel('',
    ''    ZX_SYSCALL_PARAM_ATTR(handle_use) zx_handle_t handle) __LEAF_FN;'',
    '''',
    ''extern zx_status_t zx_vmo_create('',
    ''    uint64_t size,'',
    ''    uint32_t options,'',
    ''    ZX_SYSCALL_PARAM_ATTR(handle_acquire) zx_handle_t* out) __NONNULL((3)) __LEAF_FN;'',
    '''',
    ''extern zx_status_t _zx_vmo_create('',
    ''    uint64_t size,'',
    ''    uint32_t options,'',
    ''    ZX_SYSCALL_PARAM_ATTR(handle_acquire) zx_handle_t* out) __NONNULL((3)) __LEAF_FN;'',
    '''']"

definition syscalls_7 :: "decl list" where
  "syscalls_7 = [
    \<lparr>ret = Val ''zx_status_t'', name = ''zx_futex_get_owner'',
     params = [\<lparr>tag = None, ptype = ConstPtr ''zx_futex_t'', pname = ''value_ptr''\<rparr>,
       \<lparr>tag = None, ptype = Ptr ''zx_koid_t'', pname = ''koid''\<rparr>],
     nonnull = [], attrs = [ATTR_LEAF_FN]\<rparr>,
    \<lparr>ret = Val ''zx_status_t'', name = ''_zx_futex_get_owner'',
     params = [\<lparr>tag = None, ptype = ConstPtr ''zx_futex_t'', pname = ''value_ptr''\<rparr>,
       \<lparr>tag = None, ptype = Ptr ''zx_koid_t'', pname = ''koid''\<rparr>],
     nonnull = [], attrs = [ATTR_LEAF_FN]\<rparr>,
    \<lparr>ret = Val ''zx_status_t'', name = ''zx_futex_wait_deprecated'',
     params = [\<lparr>tag = None, ptype = ConstPtr ''zx_futex_t'', pname = ''value_ptr''\<rparr>,
       \<lparr>tag = None, ptype = Val ''int32_t'', pname = ''current_value''\<rparr>,
       \<lparr>tag = None, ptype = Val ''zx_time_t'', pname = ''deadline''\<rparr>],
     nonnull = [], attrs = [ATTR_LEAF_FN]\<rparr>,
    \<lparr>ret = Val ''zx_status_t'', name = ''_zx_futex_wait_deprecated'',
     params = [\<lparr>tag = None, ptype = ConstPtr ''zx_futex_t'', pname = ''value_ptr''\<rparr>,
       \<lparr>tag = None, ptype = Val ''int32_t'', pname = ''current_value''\<rparr>,
       \<lparr>tag = None, ptype = Val ''zx_time_t'', pname = ''deadline''\<rparr>],
     nonnull = [], attrs = [ATTR_LEAF_FN]\<rparr>,
    \<lparr>ret = Val ''zx_status_t'', name = ''zx_futex_requeue_deprecated'',
     params = [\<lparr>tag = None, ptype = ConstPtr ''zx_futex_t'', pname = ''wake_ptr''\<rparr>,
       \<lparr>tag = None, ptype = Val ''uint32_t'', pname = ''wake_count''\<rparr>,
       \<lparr>tag = None, ptype = Val ''int32_t'', pname = ''current_value''\<rparr>,
       \<lparr>tag = None, ptype = ConstPtr ''zx_futex_t'', pname = ''requeue_ptr''\<rparr>,
       \<lparr>tag = None, ptype = Val ''uint32_t'', pname = ''requeue_count''\<rparr>],
     nonnull = [], attrs = [ATTR_LEAF_FN]\<rparr>,
    \<lparr>ret = Val ''zx_status_t'', name = ''_zx_futex_requeue_deprecated'',
     params = [\<lparr>tag = None, ptype = ConstPtr ''zx_futex_t'', pname = ''wake_ptr''\<rparr>,
       \<lparr>tag = None, ptype = Val ''uint32_t'', pname = ''wake_count''\<rparr>,
       \<lparr>tag = None, ptype = Val ''int32_t'', pname = ''current_value''\<rparr>,
       \<lparr>tag = None, ptype = ConstPtr ''zx_futex_t'', pname = ''requeue_ptr''\<rparr>,
       \<lparr>tag = None, ptype = Val ''uint32_t'', pname = ''requeue_count''\<rparr>],
     nonnull = [], attrs = [ATTR_LEAF_FN]\<rparr>,
    \<lparr>ret = Val ''zx_status_t'', name = ''zx_port_create'',
     params = [\<lparr>tag = None, ptype = Val ''uint32_t'', pname = ''options''\<rparr>,
       \<lparr>tag = Some ''handle_acquire'', ptype = Ptr ''zx_handle_t'', pname = ''out''\<rparr>],
     nonnull = [2], attrs = [ATTR_LEAF_FN]\<rparr>,
    \<lparr>ret = Val ''zx_status_t'', name = ''_zx_port_create'',
     params = [\<lparr>tag = None, ptype = Val ''uint32_t'', pname = ''options''\<rparr>,
       \<lparr>tag = Some ''handle_acquire'', ptype = Ptr ''zx_handle_t'', pname = ''out''\<rparr>],
     nonnull = [2], attrs = [ATTR_LEAF_FN]\<rparr>,
    \<lparr>ret = Val ''zx_status_t'', name = ''zx_port_queue'',
     params = [\<lparr>tag = Some ''handle_use'', ptype = Val ''zx_handle_t'', pname = ''handle''\<rparr>,
       \<lparr>tag = None, ptype = ConstPtr ''zx_port_packet_t'', pname = ''packet''\<rparr>],
     nonnull = [], attrs = [ATTR_LEAF_FN]\<rparr>,
    \<lparr>ret = Val ''zx_status_t'', name = ''_zx_port_queue'',
     params = [\<lparr>tag = Some ''handle_use'', ptype = Val ''zx_handle_t'', pname = ''handle''\<rparr>,
       \<lparr>tag = None, ptype = ConstPtr ''zx_port_packet_t'', pname = ''packet''\<rparr>],
     nonnull = [], attrs = [ATTR_LEAF_FN]\<rparr>,
    \<lparr>ret = Val ''zx_status_t'', name = ''zx_port_wait'',
     params = [\<lparr>tag = Some ''handle_use'', ptype = Val ''zx_handle_t'', pname = ''handle''\<rparr>,
       \<lparr>tag = None, ptype = Val ''zx_time_t'', pname = ''deadline''\<rparr>,
       \<lparr>tag = None, ptype = Ptr ''zx_port_packet_t'', pname = ''packet''\<rparr>],
     nonnull = [], attrs = [ATTR_LEAF_FN]\<rparr>,
    \<lparr>ret = Val ''zx_status_t'', name = ''_zx_port_wait'',
     params = [\<lparr>tag = Some ''handle_use'', ptype = Val ''zx_handle_t'', pname = ''handle''\<rparr>,
       \<lparr>tag = None, ptype = Val ''zx_time_t'', pname = ''deadline''\<rparr>,
       \<lparr>tag = None, ptype = Ptr ''zx_port_packet_t'', pname = ''packet''\<rparr>],
     nonnull = [], attrs = [ATTR_LEAF_FN]\<rparr>,
    \<lparr>ret = Val ''zx_status_t'', name = ''zx_port_cancel'',
     params = [\<lparr>tag = Some ''handle_use'', ptype = Val ''zx_handle_t'', pname = ''handle''\<rparr>,
       \<lparr>tag = Some ''handle_use'', ptype = Val ''zx_handle_t'', pname = ''source''\<rparr>,
       \<lparr>tag = None, ptype = Val ''uint64_t'', pname = ''key''\<rparr>],
     nonnull = [], attrs = [ATTR_LEAF_FN]\<rparr>,
    \<lparr>ret = Val ''zx_status_t'', name = ''_zx_port_cancel'',
     params = [\<lparr>tag = Some ''handle_use'', ptype = Val ''zx_handle_t'', pname = ''handle''\<rparr>,
       \<lparr>tag = Some ''handle_use'', ptype = Val ''zx_handle_t'', pname = ''source''\<rparr>,
       \<lparr>tag = None, ptype = Val ''uint64_t'', pname = ''key''\<rparr>],
     nonnull = [], attrs = [ATTR_LEAF_FN]\<rparr>,
    \<lparr>ret = Val ''zx_status_t'', name = ''zx_timer_create'',
     params = [\<lparr>tag = None, ptype = Val ''uint32_t'', pname = ''options''\<rparr>,
       \<lparr>tag = None, ptype = Val ''zx_clock_t'', pname = ''clock_id''\<rparr>,
       \<lparr>tag = Some ''handle_acquire'', ptype = Ptr ''zx_handle_t'', pname = ''out''\<rparr>],
     nonnull = [3], attrs = [ATTR_LEAF_FN]\<rparr>,
    \<lparr>ret = Val ''zx_status_t'', name = ''_zx_timer_create'',
     params = [\<lparr>tag = None, ptype = Val ''uint32_t'', pname = ''options''\<rparr>,
       \<lparr>tag = None, ptype = Val ''zx_clock_t'', pname = ''clock_id''\<rparr>,
       \<lparr>tag = Some ''handle_acquire'', ptype = Ptr ''zx_handle_t'', pname = ''out''\<rparr>],
     nonnull = [3], attrs = [ATTR_LEAF_FN]\<rparr>,
    \<lparr>ret = Val ''zx_status_t'', name = ''zx_timer_set'',
     params = [\<lparr>tag = Some ''handle_use'', ptype = Val ''zx_handle_t'', pname = ''handle''\<rparr>,
       \<lparr>tag = None, ptype = Val ''zx_time_t'', pname = ''deadline''\<rparr>,
       \<lparr>tag = None, ptype = Val ''zx_duration_t'', pname = ''slack''\<rparr>],
     nonnull = [], attrs = [ATTR_LEAF_FN]\<rparr>,
    \<lparr>ret = Val ''zx_status_t'', name = ''_zx_timer_set'',
     params = [\<lparr>tag = Some ''handle_use'', ptype = Val ''zx_handle_t'', pname = ''handle''\<rparr>,
       \<lparr>tag = None, ptype = Val ''zx_time_t'', pname = ''deadline''\<rparr>,
       \<lparr>tag = None, ptype = Val ''zx_duration_t'', pname = ''slack''\<rparr>],
     nonnull = [], attrs = [ATTR_LEAF_FN]\<rparr>,
    \<lparr>ret = Val ''zx_status_t'', name = ''zx_timer_cancel'',
     params = [\<lparr>tag = Some ''handle_use'', ptype = Val ''zx_handle_t'', pname = ''handle''\<rparr>],
     nonnull = [], attrs = [ATTR_LEAF_FN]\<rparr>,
    \<lparr>ret = Val ''zx_status_t'', name = ''_zx_timer_cancel'',
     params = [\<lparr>tag = Some ''handle_use'', ptype = Val ''zx_handle_t'', pname = ''handle''\<rparr>],
     nonnull = [], attrs = [ATTR_LEAF_FN]\<rparr>,
    \<lparr>ret = Val ''zx_status_t'', name = ''zx_vmo_create'',
     params = [\<lparr>tag = None, ptype = Val ''uint64_t'', pname = ''size''\<rparr>,
       \<lparr>tag = None, ptype = Val ''uint32_t'', pname = ''options''\<rparr>,
       \<lparr>tag = Some ''handle_acquire'', ptype = Ptr ''zx_handle_t'', pname = ''out''\<rparr>],
     nonnull = [3], attrs = [ATTR_LEAF_FN]\<rparr>,
    \<lparr>ret = Val ''zx_status_t'', name = ''_zx_vmo_create'',
     params = [\<lparr>tag = None, ptype = Val ''uint64_t'', pname = ''size''\<rparr>,
       \<lparr>tag = None, ptype = Val ''uint32_t'', pname = ''options''\<rparr>,
       \<lparr>tag = Some ''handle_acquire'', ptype = Ptr ''zx_handle_t'', pname = ''out''\<rparr>],
     nonnull = [3], attrs = [ATTR_LEAF_FN]\<rparr>]"

text \<open>Lines 795 to 928 of the header: \<^verbatim>\<open>zx_vmo_read\<close> to \<^verbatim>\<open>_zx_vmar_protect_old\<close>.\<close>

definition header_lines_8 :: "string list" where
  "header_lines_8 = [
    ''extern zx_status_t zx_vmo_read('',
    ''    ZX_SYSCALL_PARAM_ATTR(handle_use) zx_handle_t handle,'',
    ''    void* buffer,'',
    ''    uint64_t offset,'',
    ''    size_t buffer_size) __LEAF_FN;'',
    '''',
    ''extern zx_status_t _zx_vmo_read('',
    ''    ZX_SYSCALL_PARAM_ATTR(handle_use) zx_handle_t handle,'',
    ''    void* buffer,'',
    ''    uint64_t offset,'',
    ''    size_t buffer_size) __LEAF_FN;'',
    '''',
    ''extern zx_status_t zx_vmo_write('',
    ''    ZX_SYSCALL_PARAM_ATTR(handle_use) zx_handle_t handle,'',
    ''    const void* buffer,'',
    ''    uint64_t offset,'',
    ''    size_t buffer_size) __LEAF_FN;'',
    '''',
    ''extern zx_status_t _zx_vmo_write('',
    ''    ZX_SYSCALL_PARAM_ATTR(handle_use) zx_handle_t handle,'',
    ''    const void* buffer,'',
    ''    uint64_t offset,'',
    ''    size_t buffer_size) __LEAF_FN;'',
    '''',
    ''extern zx_status_t zx_vmo_get_size('',
    ''    ZX_SYSCALL_PARAM_ATTR(handle_use) zx_handle_t handle,'',
    ''    uint64_t* size) __NONNULL((2)) __LEAF_FN;'',
    '''',
    ''extern zx_status_t _zx_vmo_get_size('',
    ''    ZX_SYSCALL_PARAM_ATTR(handle_use) zx_handle_t handle,'',
    ''    uint64_t* size) __NONNULL((2)) __LEAF_FN;'',
    '''',
    ''extern zx_status_t zx_vmo_set_size('',
    ''    ZX_SYSCALL_PARAM_ATTR(handle_use) zx_handle_t handle,'',
    ''    uint64_t size) __LEAF_FN;'',
    '''',
    ''extern zx_status_t _zx_vmo_set_size('',
    ''    ZX_SYSCALL_PARAM_ATTR(handle_use) zx_handle_t handle,'',
    ''    uint64_t size) __LEAF_FN;'',
    '''',
    ''extern zx_status_t zx_vmo_op_range('',
    ''    ZX_SYSCALL_PARAM_ATTR(handle_use) zx_handle_t handle,'',
    ''    uint32_t op,'',
    ''    uint64_t offset,'',
    ''    uint64_t size,'',
    ''    void* buffer,'',
    ''    size_t buffer_size) __LEAF_FN;'',
    '''',
    ''extern zx_status_t _zx_vmo_op_range('',
    ''    ZX_SYSCALL_PARAM_ATTR(handle_use) zx_handle_t handle,'',
    ''    uint32_t op,'',
    ''    uint64_t offset,'',
    ''    uint64_t size,'',
    ''    void* buffer,'',
    ''    size_t buffer_size) __LEAF_FN;'',
    '''',
    ''extern zx_status_t zx_vmo_clone('',
    ''    ZX_SYSCALL_PARAM_ATTR(handle_use) zx_handle_t handle,'',
    ''    uint32_t options,'',
    ''    uint64_t offset,'',
    ''    uint64_t size,'',
    ''    ZX_SYSCALL_PARAM_ATTR(handle_acquire) zx_handle_t* out) __NONNULL((5)) __LEAF_FN;'',
    '''',
    ''extern zx_status_t _zx_vmo_clone('',
    ''    ZX_SYSCALL_PARAM_ATTR(handle_use) zx_handle_t handle,'',
    ''    uint32_t options,'',
    ''    uint64_t offset,'',
    ''    uint64_t size,'',
    ''    ZX_SYSCALL_PARAM_ATTR(handle_acquire) zx_handle_t* out) __NONNULL((5)) __LEAF_FN;'',
    '''',
    ''extern zx_status_t zx_vmo_set_cache_policy('',
    ''    ZX_SYSCALL_PARAM_ATTR(handle_use) zx_handle_t handle,'',
    ''    uint32_t cache_policy) __LEAF_FN;'',
    '''',
    ''extern zx_status_t _zx_vmo_set_cache_policy('',
    ''    ZX_SYSCALL_PARAM_ATTR(handle_use) zx_handle_t handle,'',
    ''    uint32_t cache_policy) __LEAF_FN;'',
    '''',
    ''extern zx_status_t zx_vmo_replace_as_executable('',
    ''    ZX_SYSCALL_PARAM_ATTR(handle_release_always) zx_handle_t handle,'',
    ''    ZX_SYSCALL_PARAM_ATTR(handle_use) zx_handle_t vmex,'',
    ''    ZX_SYSCALL_PARAM_ATTR(handle_acquire) zx_handle_t* out) __NONNULL((3)) __LEAF_FN;'',
    '''',
    ''extern zx_status_t _zx_vmo_replace_as_executable('',
    ''    ZX_SYSCALL_PARAM_ATTR(handle_release_always) zx_handle_t handle,'',
    ''    ZX_SYSCALL_PARAM_ATTR(handle_use) zx_handle_t vmex,'',
    ''    ZX_SYSCALL_PARAM_ATTR(handle_acquire) zx_handle_t* out) __NONNULL((3)) __LEAF_FN;'',
    '''',
    ''extern zx_status_t zx_vmar_allocate_old('',
    ''    ZX_SYSCALL_PARAM_ATTR(handle_use) zx_handle_t parent_vmar,'',
    ''    uint64_t offset,'',
    ''    uint64_t size,'',
    ''    uint32_t map_flags,'',
    ''    ZX_SYSCALL_PARAM_ATTR(handle_acquire) zx_handle_t* child_vmar,'',
    ''    zx_vaddr_t* child_addr) __NONNULL((5, 6)) __LEAF_FN;'',
    '''',
    ''extern zx_status_t _zx_vmar_allocate_old('',
    ''    ZX_SYSCALL_PARAM_ATTR(handle_use) zx_handle_t parent_vmar,'',
    ''    uint64_t offset,'',
    ''    uint64_t size,'',
    ''    uint32_t map_flags,'',
    ''    ZX_SYSCALL_PARAM_ATTR(handle_acquire) zx_handle_t* child_vmar,'',
    ''    zx_vaddr_t* child_addr) __NONNULL((5, 6)) __LEAF_FN;'',
    '''',
    ''extern zx_status_t zx_vmar_map_old('',
    ''    ZX_SYSCALL_PARAM_ATTR(handle_use) zx_handle_t handle,'',
    ''    uint64_t vmar_offset,'',
    ''    ZX_SYSCALL_PARAM_ATTR(handle_use) zx_handle_t vmo,'',
    ''    uint64_t vmo_offset,'',
    ''    uint64_t len,'',
    ''    uint32_t map_flags,'',
    ''    zx_vaddr_t* mapped_addr) __NONNULL((7)) __LEAF_FN;'',
    '''',
    ''extern zx_status_t _zx_vmar_map_old('',
    ''    ZX_SYSCALL_PARAM_ATTR(handle_use) zx_handle_t handle,'',
    ''    uint64_t vmar_offset,'',
    ''    ZX_SYSCALL_PARAM_ATTR(handle_use) zx_handle_t vmo,'',
    ''    uint64_t vmo_offset,'',
    ''    uint64_t len,'',
    ''    uint32_t map_flags,'',
    ''    zx_vaddr_t* mapped_addr) __NONNULL((7)) __LEAF_FN;'',
    '''',
    ''extern zx_status_t zx_vmar_protect_old('',
    ''    ZX_SYSCALL_PARAM_ATTR(handle_use) zx_handle_t handle,'',
    ''    zx_vaddr_t addr,'',
    ''    uint64_t len,'',
    ''    uint32_t prot_flags) __LEAF_FN;'',
    '''',
    ''extern zx_status_t _zx_vmar_protect_old('',
    ''    ZX_SYSCALL_PARAM_ATTR(handle_use) zx_handle_t handle,'',
    ''    zx_vaddr_t addr,'',
    ''    uint64_t len,'',
    ''    uint32_t prot_flags) __LEAF_FN;'',
    '''']"

definition syscalls_8 :: "decl list" where
  "syscalls_8 = [
    \<lparr>ret = Val ''zx_status_t'', name = ''zx_vmo_read'',
     params = [\<lparr>tag = Some ''handle_use'', ptype = Val ''zx_handle_t'', pname = ''handle''\<rparr>,
       \<lparr>tag = None, ptype = Ptr ''void'', pname = ''buffer''\<rparr>,
       \<lparr>tag = None, ptype = Val ''uint64_t'', pname = ''offset''\<rparr>,
       \<lparr>tag = None, ptype = Val ''size_t'', pname = ''buffer_size''\<rparr>],
     nonnull = [], attrs = [ATTR_LEAF_FN]\<rparr>,
    \<lparr>ret = Val ''zx_status_t'', name = ''_zx_vmo_read'',
     params = [\<lparr>tag = Some ''handle_use'', ptype = Val ''zx_handle_t'', pname = ''handle''\<rparr>,
       \<lparr>tag = None, ptype = Ptr ''void'', pname = ''buffer''\<rparr>,
       \<lparr>tag = None, ptype = Val ''uint64_t'', pname = ''offset''\<rparr>,
       \<lparr>tag = None, ptype = Val ''size_t'', pname = ''buffer_size''\<rparr>],
     nonnull = [], attrs = [ATTR_LEAF_FN]\<rparr>,
    \<lparr>ret = Val ''zx_status_t'', name = ''zx_vmo_write'',
     params = [\<lparr>tag = Some ''handle_use'', ptype = Val ''zx_handle_t'', pname = ''handle''\<rparr>,
       \<lparr>tag = None, ptype = ConstPtr ''void'', pname = ''buffer''\<rparr>,
       \<lparr>tag = None, ptype = Val ''uint64_t'', pname = ''offset''\<rparr>,
       \<lparr>tag = None, ptype = Val ''size_t'', pname = ''buffer_size''\<rparr>],
     nonnull = [], attrs = [ATTR_LEAF_FN]\<rparr>,
    \<lparr>ret = Val ''zx_status_t'', name = ''_zx_vmo_write'',
     params = [\<lparr>tag = Some ''handle_use'', ptype = Val ''zx_handle_t'', pname = ''handle''\<rparr>,
       \<lparr>tag = None, ptype = ConstPtr ''void'', pname = ''buffer''\<rparr>,
       \<lparr>tag = None, ptype = Val ''uint64_t'', pname = ''offset''\<rparr>,
       \<lparr>tag = None, ptype = Val ''size_t'', pname = ''buffer_size''\<rparr>],
     nonnull = [], attrs = [ATTR_LEAF_FN]\<rparr>,
    \<lparr>ret = Val ''zx_status_t'', name = ''zx_vmo_get_size'',
     params = [\<lparr>tag = Some ''handle_use'', ptype = Val ''zx_handle_t'', pname = ''handle''\<rparr>,
       \<lparr>tag = None, ptype = Ptr ''uint64_t'', pname = ''size''\<rparr>],
     nonnull = [2], attrs = [ATTR_LEAF_FN]\<rparr>,
    \<lparr>ret = Val ''zx_status_t'', name = ''_zx_vmo_get_size'',
     params = [\<lparr>tag = Some ''handle_use'', ptype = Val ''zx_handle_t'', pname = ''handle''\<rparr>,
       \<lparr>tag = None, ptype = Ptr ''uint64_t'', pname = ''size''\<rparr>],
     nonnull = [2], attrs = [ATTR_LEAF_FN]\<rparr>,
    \<lparr>ret = Val ''zx_status_t'', name = ''zx_vmo_set_size'',
     params = [\<lparr>tag = Some ''handle_use'', ptype = Val ''zx_handle_t'', pname = ''handle''\<rparr>,
       \<lparr>tag = None, ptype = Val ''uint64_t'', pname = ''size''\<rparr>],
     nonnull = [], attrs = [ATTR_LEAF_FN]\<rparr>,
    \<lparr>ret = Val ''zx_status_t'', name = ''_zx_vmo_set_size'',
     params = [\<lparr>tag = Some ''handle_use'', ptype = Val ''zx_handle_t'', pname = ''handle''\<rparr>,
       \<lparr>tag = None, ptype = Val ''uint64_t'', pname = ''size''\<rparr>],
     nonnull = [], attrs = [ATTR_LEAF_FN]\<rparr>,
    \<lparr>ret = Val ''zx_status_t'', name = ''zx_vmo_op_range'',
     params = [\<lparr>tag = Some ''handle_use'', ptype = Val ''zx_handle_t'', pname = ''handle''\<rparr>,
       \<lparr>tag = None, ptype = Val ''uint32_t'', pname = ''op''\<rparr>,
       \<lparr>tag = None, ptype = Val ''uint64_t'', pname = ''offset''\<rparr>,
       \<lparr>tag = None, ptype = Val ''uint64_t'', pname = ''size''\<rparr>,
       \<lparr>tag = None, ptype = Ptr ''void'', pname = ''buffer''\<rparr>,
       \<lparr>tag = None, ptype = Val ''size_t'', pname = ''buffer_size''\<rparr>],
     nonnull = [], attrs = [ATTR_LEAF_FN]\<rparr>,
    \<lparr>ret = Val ''zx_status_t'', name = ''_zx_vmo_op_range'',
     params = [\<lparr>tag = Some ''handle_use'', ptype = Val ''zx_handle_t'', pname = ''handle''\<rparr>,
       \<lparr>tag = None, ptype = Val ''uint32_t'', pname = ''op''\<rparr>,
       \<lparr>tag = None, ptype = Val ''uint64_t'', pname = ''offset''\<rparr>,
       \<lparr>tag = None, ptype = Val ''uint64_t'', pname = ''size''\<rparr>,
       \<lparr>tag = None, ptype = Ptr ''void'', pname = ''buffer''\<rparr>,
       \<lparr>tag = None, ptype = Val ''size_t'', pname = ''buffer_size''\<rparr>],
     nonnull = [], attrs = [ATTR_LEAF_FN]\<rparr>,
    \<lparr>ret = Val ''zx_status_t'', name = ''zx_vmo_clone'',
     params = [\<lparr>tag = Some ''handle_use'', ptype = Val ''zx_handle_t'', pname = ''handle''\<rparr>,
       \<lparr>tag = None, ptype = Val ''uint32_t'', pname = ''options''\<rparr>,
       \<lparr>tag = None, ptype = Val ''uint64_t'', pname = ''offset''\<rparr>,
       \<lparr>tag = None, ptype = Val ''uint64_t'', pname = ''size''\<rparr>,
       \<lparr>tag = Some ''handle_acquire'', ptype = Ptr ''zx_handle_t'', pname = ''out''\<rparr>],
     nonnull = [5], attrs = [ATTR_LEAF_FN]\<rparr>,
    \<lparr>ret = Val ''zx_status_t'', name = ''_zx_vmo_clone'',
     params = [\<lparr>tag = Some ''handle_use'', ptype = Val ''zx_handle_t'', pname = ''handle''\<rparr>,
       \<lparr>tag = None, ptype = Val ''uint32_t'', pname = ''options''\<rparr>,
       \<lparr>tag = None, ptype = Val ''uint64_t'', pname = ''offset''\<rparr>,
       \<lparr>tag = None, ptype = Val ''uint64_t'', pname = ''size''\<rparr>,
       \<lparr>tag = Some ''handle_acquire'', ptype = Ptr ''zx_handle_t'', pname = ''out''\<rparr>],
     nonnull = [5], attrs = [ATTR_LEAF_FN]\<rparr>,
    \<lparr>ret = Val ''zx_status_t'', name = ''zx_vmo_set_cache_policy'',
     params = [\<lparr>tag = Some ''handle_use'', ptype = Val ''zx_handle_t'', pname = ''handle''\<rparr>,
       \<lparr>tag = None, ptype = Val ''uint32_t'', pname = ''cache_policy''\<rparr>],
     nonnull = [], attrs = [ATTR_LEAF_FN]\<rparr>,
    \<lparr>ret = Val ''zx_status_t'', name = ''_zx_vmo_set_cache_policy'',
     params = [\<lparr>tag = Some ''handle_use'', ptype = Val ''zx_handle_t'', pname = ''handle''\<rparr>,
       \<lparr>tag = None, ptype = Val ''uint32_t'', pname = ''cache_policy''\<rparr>],
     nonnull = [], attrs = [ATTR_LEAF_FN]\<rparr>,
    \<lparr>ret = Val ''zx_status_t'', name = ''zx_vmo_replace_as_executable'',
     params = [\<lparr>tag = Some ''handle_release_always'', ptype = Val ''zx_handle_t'', pname = ''handle''\<rparr>,
       \<lparr>tag = Some ''handle_use'', ptype = Val ''zx_handle_t'', pname = ''vmex''\<rparr>,
       \<lparr>tag = Some ''handle_acquire'', ptype = Ptr ''zx_handle_t'', pname = ''out''\<rparr>],
     nonnull = [3], attrs = [ATTR_LEAF_FN]\<rparr>,
    \<lparr>ret = Val ''zx_status_t'', name = ''_zx_vmo_replace_as_executable'',
     params = [\<lparr>tag = Some ''handle_release_always'', ptype = Val ''zx_handle_t'', pname = ''handle''\<rparr>,
       \<lparr>tag = Some ''handle_use'', ptype = Val ''zx_handle_t'', pname = ''vmex''\<rparr>,
       \<lparr>tag = Some ''handle_acquire'', ptype = Ptr ''zx_handle_t'', pname = ''out''\<rparr>],
     nonnull = [3], attrs = [ATTR_LEAF_FN]\<rparr>,
    \<lparr>ret = Val ''zx_status_t'', name = ''zx_vmar_allocate_old'',
     params = [\<lparr>tag = Some ''handle_use'', ptype = Val ''zx_handle_t'', pname = ''parent_vmar''\<rparr>,
       \<lparr>tag = None, ptype = Val ''uint64_t'', pname = ''offset''\<rparr>,
       \<lparr>tag = None, ptype = Val ''uint64_t'', pname = ''size''\<rparr>,
       \<lparr>tag = None, ptype = Val ''uint32_t'', pname = ''map_flags''\<rparr>,
       \<lparr>tag = Some ''handle_acquire'', ptype = Ptr ''zx_handle_t'', pname = ''child_vmar''\<rparr>,
       \<lparr>tag = None, ptype = Ptr ''zx_vaddr_t'', pname = ''child_addr''\<rparr>],
     nonnull = [5, 6], attrs = [ATTR_LEAF_FN]\<rparr>,
    \<lparr>ret = Val ''zx_status_t'', name = ''_zx_vmar_allocate_old'',
     params = [\<lparr>tag = Some ''handle_use'', ptype = Val ''zx_handle_t'', pname = ''parent_vmar''\<rparr>,
       \<lparr>tag = None, ptype = Val ''uint64_t'', pname = ''offset''\<rparr>,
       \<lparr>tag = None, ptype = Val ''uint64_t'', pname = ''size''\<rparr>,
       \<lparr>tag = None, ptype = Val ''uint32_t'', pname = ''map_flags''\<rparr>,
       \<lparr>tag = Some ''handle_acquire'', ptype = Ptr ''zx_handle_t'', pname = ''child_vmar''\<rparr>,
       \<lparr>tag = None, ptype = Ptr ''zx_vaddr_t'', pname = ''child_addr''\<rparr>],
     nonnull = [5, 6], attrs = [ATTR_LEAF_FN]\<rparr>,
    \<lparr>ret = Val ''zx_status_t'', name = ''zx_vmar_map_old'',
     params = [\<lparr>tag = Some ''handle_use'', ptype = Val ''zx_handle_t'', pname = ''handle''\<rparr>,
       \<lparr>tag = None, ptype = Val ''uint64_t'', pname = ''vmar_offset''\<rparr>,
       \<lparr>tag = Some ''handle_use'', ptype = Val ''zx_handle_t'', pname = ''vmo''\<rparr>,
       \<lparr>tag = None, ptype = Val ''uint64_t'', pname = ''vmo_offset''\<rparr>,
       \<lparr>tag = None, ptype = Val ''uint64_t'', pname = ''len''\<rparr>,
       \<lparr>tag = None, ptype = Val ''uint32_t'', pname = ''map_flags''\<rparr>,
       \<lparr>tag = None, ptype = Ptr ''zx_vaddr_t'', pname = ''mapped_addr''\<rparr>],
     nonnull = [7], attrs = [ATTR_LEAF_FN]\<rparr>,
    \<lparr>ret = Val ''zx_status_t'', name = ''_zx_vmar_map_old'',
     params = [\<lparr>tag = Some ''handle_use'', ptype = Val ''zx_handle_t'', pname = ''handle''\<rparr>,
       \<lparr>tag = None, ptype = Val ''uint64_t'', pname = ''vmar_offset''\<rparr>,
       \<lparr>tag = Some ''handle_use'', ptype = Val ''zx_handle_t'', pname = ''vmo''\<rparr>,
       \<lparr>tag = None, ptype = Val ''uint64_t'', pname = ''vmo_offset''\<rparr>,
       \<lparr>tag = None, ptype = Val ''uint64_t'', pname = ''len''\<rparr>,
       \<lparr>tag = None, ptype = Val ''uint32_t'', pname = ''map_flags''\<rparr>,
       \<lparr>tag = None, ptype = Ptr ''zx_vaddr_t'', pname = ''mapped_addr''\<rparr>],
     nonnull = [7], attrs = [ATTR_LEAF_FN]\<rparr>,
    \<lparr>ret = Val ''zx_status_t'', name = ''zx_vmar_protect_old'',
     params = [\<lparr>tag = Some ''handle_use'', ptype = Val ''zx_handle_t'', pname = ''handle''\<rparr>,
       \<lparr>tag = None, ptype = Val ''zx_vaddr_t'', pname = ''addr''\<rparr>,
       \<lparr>tag = None, ptype = Val ''uint64_t'', pname = ''len''\<rparr>,
       \<lparr>tag = None, ptype = Val ''uint32_t'', pname = ''prot_flags''\<rparr>],
     nonnull = [], attrs = [ATTR_LEAF_FN]\<rparr>,
    \<lparr>ret = Val ''zx_status_t'', name = ''_zx_vmar_protect_old'',
     params = [\<lparr>tag = Some ''handle_use'', ptype = Val ''zx_handle_t'', pname = ''handle''\<rparr>,
       \<lparr>tag = None, ptype = Val ''zx_vaddr_t'', pname = ''addr''\<rparr>,
       \<lparr>tag = None, ptype = Val ''uint64_t'', pname = ''len''\<rparr>,
       \<lparr>tag = None, ptype = Val ''uint32_t'', pname = ''prot_flags''\<rparr>],
     nonnull = [], attrs = [ATTR_LEAF_FN]\<rparr>]"

text \<open>Lines 929 to 1058 of the header: \<^verbatim>\<open>zx_vmar_allocate\<close> to \<^verbatim>\<open>_zx_profile_create\<close>.\<close>

definition header_lines_9 :: "string list" where
  "header_lines_9 = [
    ''extern zx_status_t zx_vmar_allocate('',
    ''    ZX_SYSCALL_PARAM_ATTR(handle_use) zx_handle_t parent_vmar,'',
    ''    zx_vm_option_t options,'',
    ''    uint64_t offset,'',
    ''    uint64_t size,'',
    ''    ZX_SYSCALL_PARAM_ATTR(handle_acquire) zx_handle_t* child_vmar,'',
    ''    zx_vaddr_t* child_addr) __NONNULL((5, 6)) __LEAF_FN;'',
    '''',
    ''extern zx_status_t _zx_vmar_allocate('',
    ''    ZX_SYSCALL_PARAM_ATTR(handle_use) zx_handle_t parent_vmar,'',
    ''    zx_vm_option_t options,'',
    ''    uint64_t offset,'',
    ''    uint64_t size,'',
    ''    ZX_SYSCALL_PARAM_ATTR(handle_acquire) zx_handle_t* child_vmar,'',
    ''    zx_vaddr_t* child_addr) __NONNULL((5, 6)) __LEAF_FN;'',
    '''',
    ''extern zx_status_t zx_vmar_destroy('',
    ''    ZX_SYSCALL_PARAM_ATTR(handle_use) zx_handle_t handle) __LEAF_FN;'',
    '''',
    ''extern zx_status_t _zx_vmar_destroy('',
    ''    ZX_SYSCALL_PARAM_ATTR(handle_use) zx_handle_t handle) __LEAF_FN;'',
    '''',
    ''extern zx_status_t zx_vmar_map('',
    ''    ZX_SYSCALL_PARAM_ATTR(handle_use) zx_handle_t handle,'',
    ''    zx_vm_option_t options,'',
    ''    uint64_t vmar_offset,'',
    ''    ZX_SYSCALL_PARAM_ATTR(handle_use) zx_handle_t vmo,'',
    ''    uint64_t vmo_offset,'',
    ''    uint64_t len,'',
    ''    zx_vaddr_t* mapped_addr) __NONNULL((7)) __LEAF_FN;'',
    '''',
    ''extern zx_status_t _zx_vmar_map('',
    ''    ZX_SYSCALL_PARAM_ATTR(handle_use) zx_handle_t handle,'',
    ''    zx_vm_option_t options,'',
    ''    uint64_t vmar_offset,'',
    ''    ZX_SYSCALL_PARAM_ATTR(handle_use) zx_handle_t vmo,'',
    ''    uint64_t vmo_offset,'',
    ''    uint64_t len,'',
    ''    zx_vaddr_t* mapped_addr) __NONNULL((7)) __LEAF_FN;'',
    '''',
    ''extern zx_status_t zx_vmar_unmap('',
    ''    ZX_SYSCALL_PARAM_ATTR(handle_use) zx_handle_t handle,'',
    ''    zx_vaddr_t addr,'',
    ''    uint64_t len) __LEAF_FN;'',
    '''',
    ''extern zx_status_t _zx_vmar_unmap('',
    ''    ZX_SYSCALL_PARAM_ATTR(handle_use) zx_handle_t handle,'',
    ''    zx_vaddr_t addr,'',
    ''    uint64_t len) __LEAF_FN;'',
    '''',
    ''extern zx_status_t zx_vmar_protect('',
    ''    ZX_SYSCALL_PARAM_ATTR(handle_use) zx_handle_t handle,'',
    ''    zx_vm_option_t options,'',
    ''    zx_vaddr_t addr,'',
    ''    uint64_t len) __LEAF_FN;'',
    '''',
    ''extern zx_status_t _zx_vmar_protect('',
    ''    ZX_SYSCALL_PARAM_ATTR(handle_use) zx_handle_t handle,'',
    ''    zx_vm_option_t options,'',
    ''    zx_vaddr_t addr,'',
    ''    uint64_t len) __LEAF_FN;'',
    '''',
    ''extern void zx_cprng_draw('',
    ''    void* buffer,'',
    ''    size_t buffer_size) __LEAF_FN;'',
    '''',
    ''extern void _zx_cprng_draw('',
    ''    void* buffer,'',
    ''    size_t buffer_size) __LEAF_FN;'',
    '''',
    ''extern zx_status_t zx_cprng_add_entropy('',
    ''    const void* buffer,'',
    ''    size_t buffer_size) __LEAF_FN;'',
    '''',
    ''extern zx_status_t _zx_cprng_add_entropy('',
    ''    const void* buffer,'',
    ''    size_t buffer_size) __LEAF_FN;'',
    '''',
    ''extern zx_status_t zx_fifo_create('',
    ''    size_t elem_count,'',
    ''    size_t elem_size,'',
    ''    uint32_t options,'',
    ''    ZX_SYSCALL_PARAM_ATTR(handle_acquire) zx_handle_t* out0,'',
    ''    ZX_SYSCALL_PARAM_ATTR(handle_acquire) zx_handle_t* out1) __NONNULL((4, 5)) __LEAF_FN;'',
    '''',
    ''extern zx_status_t _zx_fifo_create('',
    ''    size_t elem_count,'',
    ''    size_t elem_size,'',
    ''    uint32_t options,'',
    ''    ZX_SYSCALL_PARAM_ATTR(handle_acquire) zx_handle_t* out0,'',
    ''    ZX_SYSCALL_PARAM_ATTR(handle_acquire) zx_handle_t* out1) __NONNULL((4, 5)) __LEAF_FN;'',
    '''',
    ''extern zx_status_t zx_fifo_read('',
    ''    ZX_SYSCALL_PARAM_ATTR(handle_use) zx_handle_t handle,'',
    ''    size_t elem_size,'',
    ''    void* data,'',
    ''    size_t count,'',
    ''    size_t* actual_count) __LEAF_FN;'',
    '''',
    ''extern zx_status_t _zx_fifo_read('',
    ''    ZX_SYSCALL_PARAM_ATTR(handle_use) zx_handle_t handle,'',
    ''    size_t elem_size,'',
    ''    void* data,'',
    ''    size_t count,'',
    ''    size_t* actual_count) __LEAF_FN;'',
    '''',
    ''extern zx_status_t zx_fifo_write('',
    ''    ZX_SYSCALL_PARAM_ATTR(handle_use) zx_handle_t handle,'',
    ''    size_t elem_size,'',
    ''    const void* data,'',
    ''    size_t count,'',
    ''    size_t* actual_count) __LEAF_FN;'',
    '''',
    ''extern zx_status_t _zx_fifo_write('',
    ''    ZX_SYSCALL_PARAM_ATTR(handle_use) zx_handle_t handle,'',
    ''    size_t elem_size,'',
    ''    const void* data,'',
    ''    size_t count,'',
    ''    size_t* actual_count) __LEAF_FN;'',
    '''',
    ''extern zx_status_t zx_profile_create('',
    ''    ZX_SYSCALL_PARAM_ATTR(handle_use) zx_handle_t root_job,'',
    ''    const zx_profile_info_t* profile,'',
    ''    ZX_SYSCALL_PARAM_ATTR(handle_acquire) zx_handle_t* out) __NONNULL((3)) __LEAF_FN;'',
    '''',
    ''extern zx_status_t _zx_profile_create('',
    ''    ZX_SYSCALL_PARAM_ATTR(handle_use) zx_handle_t root_job,'',
    ''    const zx_profile_info_t* profile,'',
    ''    ZX_SYSCALL_PARAM_ATTR(handle_acquire) zx_handle_t* out) __NONNULL((3)) __LEAF_FN;'',
    '''']"

definition syscalls_9 :: "decl list" where
  "syscalls_9 = [
    \<lparr>ret = Val ''zx_status_t'', name = ''zx_vmar_allocate'',
     params = [\<lparr>tag = Some ''handle_use'', ptype = Val ''zx_handle_t'', pname = ''parent_vmar''\<rparr>,
       \<lparr>tag = None, ptype = Val ''zx_vm_option_t'', pname = ''options''\<rparr>,
       \<lparr>tag = None, ptype = Val ''uint64_t'', pname = ''offset''\<rparr>,
       \<lparr>tag = None, ptype = Val ''uint64_t'', pname = ''size''\<rparr>,
       \<lparr>tag = Some ''handle_acquire'', ptype = Ptr ''zx_handle_t'', pname = ''child_vmar''\<rparr>,
       \<lparr>tag = None, ptype = Ptr ''zx_vaddr_t'', pname = ''child_addr''\<rparr>],
     nonnull = [5, 6], attrs = [ATTR_LEAF_FN]\<rparr>,
    \<lparr>ret = Val ''zx_status_t'', name = ''_zx_vmar_allocate'',
     params = [\<lparr>tag = Some ''handle_use'', ptype = Val ''zx_handle_t'', pname = ''parent_vmar''\<rparr>,
       \<lparr>tag = None, ptype = Val ''zx_vm_option_t'', pname = ''options''\<rparr>,
       \<lparr>tag = None, ptype = Val ''uint64_t'', pname = ''offset''\<rparr>,
       \<lparr>tag = None, ptype = Val ''uint64_t'', pname = ''size''\<rparr>,
       \<lparr>tag = Some ''handle_acquire'', ptype = Ptr ''zx_handle_t'', pname = ''child_vmar''\<rparr>,
       \<lparr>tag = None, ptype = Ptr ''zx_vaddr_t'', pname = ''child_addr''\<rparr>],
     nonnull = [5, 6], attrs = [ATTR_LEAF_FN]\<rparr>,
    \<lparr>ret = Val ''zx_status_t'', name = ''zx_vmar_destroy'',
     params = [\<lparr>tag = Some ''handle_use'', ptype = Val ''zx_handle_t'', pname = ''handle''\<rparr>],
     nonnull = [], attrs = [ATTR_LEAF_FN]\<rparr>,
    \<lparr>ret = Val ''zx_status_t'', name = ''_zx_vmar_destroy'',
     params = [\<lparr>tag = Some ''handle_use'', ptype = Val ''zx_handle_t'', pname = ''handle''\<rparr>],
     nonnull = [], attrs = [ATTR_LEAF_FN]\<rparr>,
    \<lparr>ret = Val ''zx_status_t'', name = ''zx_vmar_map'',
     params = [\<lparr>tag = Some ''handle_use'', ptype = Val ''zx_handle_t'', pname = ''handle''\<rparr>,
       \<lparr>tag = None, ptype = Val ''zx_vm_option_t'', pname = ''options''\<rparr>,
       \<lparr>tag = None, ptype = Val ''uint64_t'', pname = ''vmar_offset''\<rparr>,
       \<lparr>tag = Some ''handle_use'', ptype = Val ''zx_handle_t'', pname = ''vmo''\<rparr>,
       \<lparr>tag = None, ptype = Val ''uint64_t'', pname = ''vmo_offset''\<rparr>,
       \<lparr>tag = None, ptype = Val ''uint64_t'', pname = ''len''\<rparr>,
       \<lparr>tag = None, ptype = Ptr ''zx_vaddr_t'', pname = ''mapped_addr''\<rparr>],
     nonnull = [7], attrs = [ATTR_LEAF_FN]\<rparr>,
    \<lparr>ret = Val ''zx_status_t'', name = ''_zx_vmar_map'',
     params = [\<lparr>tag = Some ''handle_use'', ptype = Val ''zx_handle_t'', pname = ''handle''\<rparr>,
       \<lparr>tag = None, ptype = Val ''zx_vm_option_t'', pname = ''options''\<rparr>,
       \<lparr>tag = None, ptype = Val ''uint64_t'', pname = ''vmar_offset''\<rparr>,
       \<lparr>tag = Some ''handle_use'', ptype = Val ''zx_handle_t'', pname = ''vmo''\<rparr>,
       \<lparr>tag = None, ptype = Val ''uint64_t'', pname = ''vmo_offset''\<rparr>,
       \<lparr>tag = None, ptype = Val ''uint64_t'', pname = ''len''\<rparr>,
       \<lparr>tag = None, ptype = Ptr ''zx_vaddr_t'', pname = ''mapped_addr''\<rparr>],
     nonnull = [7], attrs = [ATTR_LEAF_FN]\<rparr>,
    \<lparr>ret = Val ''zx_status_t'', name = ''zx_vmar_unmap'',
     params = [\<lparr>tag = Some ''handle_use'', ptype = Val ''zx_handle_t'', pname = ''handle''\<rparr>,
       \<lparr>tag = None, ptype = Val ''zx_vaddr_t'', pname = ''addr''\<rparr>,
       \<lparr>tag = None, ptype = Val ''uint64_t'', pname = ''len''\<rparr>],
     nonnull = [], attrs = [ATTR_LEAF_FN]\<rparr>,
    \<lparr>ret = Val ''zx_status_t'', name = ''_zx_vmar_unmap'',
     params = [\<lparr>tag = Some ''handle_use'', ptype = Val ''zx_handle_t'', pname = ''handle''\<rparr>,
       \<lparr>tag = None, ptype = Val ''zx_vaddr_t'', pname = ''addr''\<rparr>,
       \<lparr>tag = None, ptype = Val ''uint64_t'', pname = ''len''\<rparr>],
     nonnull = [], attrs = [ATTR_LEAF_FN]\<rparr>,
    \<lparr>ret = Val ''zx_status_t'', name = ''zx_vmar_protect'',
     params = [\<lparr>tag = Some ''handle_use'', ptype = Val ''zx_handle_t'', pname = ''handle''\<rparr>,
       \<lparr>tag = None, ptype = Val ''zx_vm_option_t'', pname = ''options''\<rparr>,
       \<lparr>tag = None, ptype = Val ''zx_vaddr_t'', pname = ''addr''\<rparr>,
       \<lparr>tag = None, ptype = Val ''uint64_t'', pname = ''len''\<rparr>],
     nonnull = [], attrs = [ATTR_LEAF_FN]\<rparr>,
    \<lparr>ret = Val ''zx_status_t'', name = ''_zx_vmar_protect'',
     params = [\<lparr>tag = Some ''handle_use'', ptype = Val ''zx_handle_t'', pname = ''handle''\<rparr>,
       \<lparr>tag = None, ptype = Val ''zx_vm_option_t'', pname = ''options''\<rparr>,
       \<lparr>tag = None, ptype = Val ''zx_vaddr_t'', pname = ''addr''\<rparr>,
       \<lparr>tag = None, ptype = Val ''uint64_t'', pname = ''len''\<rparr>],
     nonnull = [], attrs = [ATTR_LEAF_FN]\<rparr>,
    \<lparr>ret = Val ''void'', name = ''zx_cprng_draw'',
     params = [\<lparr>tag = None, ptype = Ptr ''void'', pname = ''buffer''\<rparr>,
       \<lparr>tag = None, ptype = Val ''size_t'', pname = ''buffer_size''\<rparr>],
     nonnull = [], attrs = [ATTR_LEAF_FN]\<rparr>,
    \<lparr>ret = Val ''void'', name = ''_zx_cprng_draw'',
     params = [\<lparr>tag = None, ptype = Ptr ''void'', pname = ''buffer''\<rparr>,
       \<lparr>tag = None, ptype = Val ''size_t'', pname = ''buffer_size''\<rparr>],
     nonnull = [], attrs = [ATTR_LEAF_FN]\<rparr>,
    \<lparr>ret = Val ''zx_status_t'', name = ''zx_cprng_add_entropy'',
     params = [\<lparr>tag = None, ptype = ConstPtr ''void'', pname = ''buffer''\<rparr>,
       \<lparr>tag = None, ptype = Val ''size_t'', pname = ''buffer_size''\<rparr>],
     nonnull = [], attrs = [ATTR_LEAF_FN]\<rparr>,
    \<lparr>ret = Val ''zx_status_t'', name = ''_zx_cprng_add_entropy'',
     params = [\<lparr>tag = None, ptype = ConstPtr ''void'', pname = ''buffer''\<rparr>,
       \<lparr>tag = None, ptype = Val ''size_t'', pname = ''buffer_size''\<rparr>],
     nonnull = [], attrs = [ATTR_LEAF_FN]\<rparr>,
    \<lparr>ret = Val ''zx_status_t'', name = ''zx_fifo_create'',
     params = [\<lparr>tag = None, ptype = Val ''size_t'', pname = ''elem_count''\<rparr>,
       \<lparr>tag = None, ptype = Val ''size_t'', pname = ''elem_size''\<rparr>,
       \<lparr>tag = None, ptype = Val ''uint32_t'', pname = ''options''\<rparr>,
       \<lparr>tag = Some ''handle_acquire'', ptype = Ptr ''zx_handle_t'', pname = ''out0''\<rparr>,
       \<lparr>tag = Some ''handle_acquire'', ptype = Ptr ''zx_handle_t'', pname = ''out1''\<rparr>],
     nonnull = [4, 5], attrs = [ATTR_LEAF_FN]\<rparr>,
    \<lparr>ret = Val ''zx_status_t'', name = ''_zx_fifo_create'',
     params = [\<lparr>tag = None, ptype = Val ''size_t'', pname = ''elem_count''\<rparr>,
       \<lparr>tag = None, ptype = Val ''size_t'', pname = ''elem_size''\<rparr>,
       \<lparr>tag = None, ptype = Val ''uint32_t'', pname = ''options''\<rparr>,
       \<lparr>tag = Some ''handle_acquire'', ptype = Ptr ''zx_handle_t'', pname = ''out0''\<rparr>,
       \<lparr>tag = Some ''handle_acquire'', ptype = Ptr ''zx_handle_t'', pname = ''out1''\<rparr>],
     nonnull = [4, 5], attrs = [ATTR_LEAF_FN]\<rparr>,
    \<lparr>ret = Val ''zx_status_t'', name = ''zx_fifo_read'',
     params = [\<lparr>tag = Some ''handle_use'', ptype = Val ''zx_handle_t'', pname = ''handle''\<rparr>,
       \<lparr>tag = None, ptype = Val ''size_t'', pname = ''elem_size''\<rparr>,
       \<lparr>tag = None, ptype = Ptr ''void'', pname = ''data''\<rparr>,
       \<lparr>tag = None, ptype = Val ''size_t'', pname = ''count''\<rparr>,
       \<lparr>tag = None, ptype = Ptr ''size_t'', pname = ''actual_count''\<rparr>],
     nonnull = [], attrs = [ATTR_LEAF_FN]\<rparr>,
    \<lparr>ret = Val ''zx_status_t'', name = ''_zx_fifo_read'',
     params = [\<lparr>tag = Some ''handle_use'', ptype = Val ''zx_handle_t'', pname = ''handle''\<rparr>,
       \<lparr>tag = None, ptype = Val ''size_t'', pname = ''elem_size''\<rparr>,
       \<lparr>tag = None, ptype = Ptr ''void'', pname = ''data''\<rparr>,
       \<lparr>tag = None, ptype = Val ''size_t'', pname = ''count''\<rparr>,
       \<lparr>tag = None, ptype = Ptr ''size_t'', pname = ''actual_count''\<rparr>],
     nonnull = [], attrs = [ATTR_LEAF_FN]\<rparr>,
    \<lparr>ret = Val ''zx_status_t'', name = ''zx_fifo_write'',
     params = [\<lparr>tag = Some ''handle_use'', ptype = Val ''zx_handle_t'', pname = ''handle''\<rparr>,
       \<lparr>tag = None, ptype = Val ''size_t'', pname = ''elem_size''\<rparr>,
       \<lparr>tag = None, ptype = ConstPtr ''void'', pname = ''data''\<rparr>,
       \<lparr>tag = None, ptype = Val ''size_t'', pname = ''count''\<rparr>,
       \<lparr>tag = None, ptype = Ptr ''size_t'', pname = ''actual_count''\<rparr>],
     nonnull = [], attrs = [ATTR_LEAF_FN]\<rparr>,
    \<lparr>ret = Val ''zx_status_t'', name = ''_zx_fifo_write'',
     params = [\<lparr>tag = Some ''handle_use'', ptype = Val ''zx_handle_t'', pname = ''handle''\<rparr>,
       \<lparr>tag = None, ptype = Val ''size_t'', pname = ''elem_size''\<rparr>,
       \<lparr>tag = None, ptype = ConstPtr ''void'', pname = ''data''\<rparr>,
       \<lparr>tag = None, ptype = Val ''size_t'', pname = ''count''\<rparr>,
       \<lparr>tag = None, ptype = Ptr ''size_t'', pname = ''actual_count''\<rparr>],
     nonnull = [], attrs = [ATTR_LEAF_FN]\<rparr>,
    \<lparr>ret = Val ''zx_status_t'', name = ''zx_profile_create'',
     params = [\<lparr>tag = Some ''handle_use'', ptype = Val ''zx_handle_t'', pname = ''root_job''\<rparr>,
       \<lparr>tag = None, ptype = ConstPtr ''zx_profile_info_t'', pname = ''profile''\<rparr>,
       \<lparr>tag = Some ''handle_acquire'', ptype = Ptr ''zx_handle_t'', pname = ''out''\<rparr>],
     nonnull = [3], attrs = [ATTR_LEAF_FN]\<rparr>,
    \<lparr>ret = Val ''zx_status_t'', name = ''_zx_profile_create'',
     params = [\<lparr>tag = Some ''handle_use'', ptype = Val ''zx_handle_t'', pname = ''root_job''\<rparr>,
       \<lparr>tag = None, ptype = ConstPtr ''zx_profile_info_t'', pname = ''profile''\<rparr>,
       \<lparr>tag = Some ''handle_acquire'', ptype = Ptr ''zx_handle_t'', pname = ''out''\<rparr>],
     nonnull = [3], attrs = [ATTR_LEAF_FN]\<rparr>]"

text \<open>Lines 1059 to 1194 of the header: \<^verbatim>\<open>zx_vmar_unmap_handle_close_thread_exit\<close> to \<^verbatim>\<open>_zx_mtrace_control\<close>.\<close>

definition header_lines_10 :: "string list" where
  "header_lines_10 = [
    ''extern zx_status_t zx_vmar_unmap_handle_close_thread_exit('',
    ''    ZX_SYSCALL_PARAM_ATTR(handle_use) zx_handle_t vmar_handle,'',
    ''    zx_vaddr_t addr,'',
    ''    size_t size,'',
    ''    ZX_SYSCALL_PARAM_ATTR(handle_release) zx_handle_t close_handle) __LEAF_FN;'',
    '''',
    ''extern zx_status_t _zx_vmar_unmap_handle_close_thread_exit('',
    ''    ZX_SYSCALL_PARAM_ATTR(handle_use) zx_handle_t vmar_handle,'',
    ''    zx_vaddr_t addr,'',
    ''    size_t size,'',
    ''    ZX_SYSCALL_PARAM_ATTR(handle_release) zx_handle_t close_handle) __LEAF_FN;'',
    '''',
    ''extern void zx_futex_wake_handle_close_thread_exit('',
    ''    const zx_futex_t* value_ptr,'',
    ''    uint32_t count,'',
    ''    int32_t new_value,'',
    ''    ZX_SYSCALL_PARAM_ATTR(handle_release) zx_handle_t handle) __LEAF_FN __NO_RETURN;'',
    '''',
    ''extern void _zx_futex_wake_handle_close_thread_exit('',
    ''    const zx_futex_t* value_ptr,'',
    ''    uint32_t count,'',
    ''    int32_t new_value,'',
    ''    ZX_SYSCALL_PARAM_ATTR(handle_release) zx_handle_t handle) __LEAF_FN __NO_RETURN;'',
    '''',
    ''extern zx_status_t zx_log_write('',
    ''    ZX_SYSCALL_PARAM_ATTR(handle_use) zx_handle_t handle,'',
    ''    uint32_t len,'',
    ''    const void* buffer,'',
    ''    uint32_t options) __LEAF_FN;'',
    '''',
    ''extern zx_status_t _zx_log_write('',
    ''    ZX_SYSCALL_PARAM_ATTR(handle_use) zx_handle_t handle,'',
    ''    uint32_t len,'',
    ''    const void* buffer,'',
    ''    uint32_t options) __LEAF_FN;'',
    '''',
    ''extern zx_status_t zx_log_read('',
    ''    ZX_SYSCALL_PARAM_ATTR(handle_use) zx_handle_t handle,'',
    ''    uint32_t len,'',
    ''    void* buffer,'',
    ''    uint32_t options) __LEAF_FN;'',
    '''',
    ''extern zx_status_t _zx_log_read('',
    ''    ZX_SYSCALL_PARAM_ATTR(handle_use) zx_handle_t handle,'',
    ''    uint32_t len,'',
    ''    void* buffer,'',
    ''    uint32_t options) __LEAF_FN;'',
    '''',
    ''extern zx_status_t zx_debuglog_create('',
    ''    ZX_SYSCALL_PARAM_ATTR(handle_use) zx_handle_t resource,'',
    ''    uint32_t options,'',
    ''    ZX_SYSCALL_PARAM_ATTR(handle_acquire) zx_handle_t* out) __NONNULL((3)) __LEAF_FN;'',
    '''',
    ''extern zx_status_t _zx_debuglog_create('',
    ''    ZX_SYSCALL_PARAM_ATTR(handle_use) zx_handle_t resource,'',
    ''    uint32_t options,'',
    ''    ZX_SYSCALL_PARAM_ATTR(handle_acquire) zx_handle_t* out) __NONNULL((3)) __LEAF_FN;'',
    '''',
    ''extern zx_status_t zx_debuglog_write('',
    ''    ZX_SYSCALL_PARAM_ATTR(handle_use) zx_handle_t handle,'',
    ''    uint32_t options,'',
    ''    const void* buffer,'',
    ''    size_t buffer_size) __LEAF_FN;'',
    '''',
    ''extern zx_status_t _zx_debuglog_write('',
    ''    ZX_SYSCALL_PARAM_ATTR(handle_use) zx_handle_t handle,'',
    ''    uint32_t options,'',
    ''    const void* buffer,'',
    ''    size_t buffer_size) __LEAF_FN;'',
    '''',
    ''extern zx_status_t zx_debuglog_read('',
    ''    ZX_SYSCALL_PARAM_ATTR(handle_use) zx_handle_t handle,'',
    ''    uint32_t options,'',
    ''    void* buffer,'',
    ''    size_t buffer_size) __LEAF_FN;'',
    '''',
    ''extern zx_status_t _zx_debuglog_read('',
    ''    ZX_SYSCALL_PARAM_ATTR(handle_use) zx_handle_t handle,'',
    ''    uint32_t options,'',
    ''    void* buffer,'',
    ''    size_t buffer_size) __LEAF_FN;'',
    '''',
    ''extern zx_status_t zx_ktrace_read('',
    ''    ZX_SYSCALL_PARAM_ATTR(handle_use) zx_handle_t handle,'',
    ''    void* data,'',
    ''    uint32_t offset,'',
    ''    size_t data_size,'',
    ''    size_t* actual) __NONNULL((5)) __LEAF_FN;'',
    '''',
    ''extern zx_status_t _zx_ktrace_read('',
    ''    ZX_SYSCALL_PARAM_ATTR(handle_use) zx_handle_t handle,'',
    ''    void* data,'',
    ''    uint32_t offset,'',
    ''    size_t data_size,'',
    ''    size_t* actual) __NONNULL((5)) __LEAF_FN;'',
    '''',
    ''extern zx_status_t zx_ktrace_control('',
    ''    ZX_SYSCALL_PARAM_ATTR(handle_use) zx_handle_t handle,'',
    ''    uint32_t action,'',
    ''    uint32_t options,'',
    ''    void* ptr) __LEAF_FN;'',
    '''',
    ''extern zx_status_t _zx_ktrace_control('',
    ''    ZX_SYSCALL_PARAM_ATTR(handle_use) zx_handle_t handle,'',
    ''    uint32_t action,'',
    ''    uint32_t options,'',
    ''    void* ptr) __LEAF_FN;'',
    '''',
    ''extern zx_status_t zx_ktrace_write('',
    ''    ZX_SYSCALL_PARAM_ATTR(handle_use) zx_handle_t handle,'',
    ''    uint32_t id,'',
    ''    uint32_t arg0,'',
    ''    uint32_t arg1) __LEAF_FN;'',
    '''',
    ''extern zx_status_t _zx_ktrace_write('',
    ''    ZX_SYSCALL_PARAM_ATTR(handle_use) zx_handle_t handle,'',
    ''    uint32_t id,'',
    ''    uint32_t arg0,'',
    ''    uint32_t arg1) __LEAF_FN;'',
    '''',
    ''extern zx_status_t zx_mtrace_control('',
    ''    ZX_SYSCALL_PARAM_ATTR(handle_use) zx_handle_t handle,'',
    ''    uint32_t kind,'',
    ''    uint32_t action,'',
    ''    uint32_t options,'',
    ''    void* ptr,'',
    ''    size_t ptr_size) __LEAF_FN;'',
    '''',
    ''extern zx_status_t _zx_mtrace_control('',
    ''    ZX_SYSCALL_PARAM_ATTR(handle_use) zx_handle_t handle,'',
    ''    uint32_t kind,'',
    ''    uint32_t action,'',
    ''    uint32_t options,'',
    ''    void* ptr,'',
    ''    size_t ptr_size) __LEAF_FN;'',
    '''']"

definition syscalls_10 :: "decl list" where
  "syscalls_10 = [
    \<lparr>ret = Val ''zx_status_t'', name = ''zx_vmar_unmap_handle_close_thread_exit'',
     params = [\<lparr>tag = Some ''handle_use'', ptype = Val ''zx_handle_t'', pname = ''vmar_handle''\<rparr>,
       \<lparr>tag = None, ptype = Val ''zx_vaddr_t'', pname = ''addr''\<rparr>,
       \<lparr>tag = None, ptype = Val ''size_t'', pname = ''size''\<rparr>,
       \<lparr>tag = Some ''handle_release'', ptype = Val ''zx_handle_t'', pname = ''close_handle''\<rparr>],
     nonnull = [], attrs = [ATTR_LEAF_FN]\<rparr>,
    \<lparr>ret = Val ''zx_status_t'', name = ''_zx_vmar_unmap_handle_close_thread_exit'',
     params = [\<lparr>tag = Some ''handle_use'', ptype = Val ''zx_handle_t'', pname = ''vmar_handle''\<rparr>,
       \<lparr>tag = None, ptype = Val ''zx_vaddr_t'', pname = ''addr''\<rparr>,
       \<lparr>tag = None, ptype = Val ''size_t'', pname = ''size''\<rparr>,
       \<lparr>tag = Some ''handle_release'', ptype = Val ''zx_handle_t'', pname = ''close_handle''\<rparr>],
     nonnull = [], attrs = [ATTR_LEAF_FN]\<rparr>,
    \<lparr>ret = Val ''void'', name = ''zx_futex_wake_handle_close_thread_exit'',
     params = [\<lparr>tag = None, ptype = ConstPtr ''zx_futex_t'', pname = ''value_ptr''\<rparr>,
       \<lparr>tag = None, ptype = Val ''uint32_t'', pname = ''count''\<rparr>,
       \<lparr>tag = None, ptype = Val ''int32_t'', pname = ''new_value''\<rparr>,
       \<lparr>tag = Some ''handle_release'', ptype = Val ''zx_handle_t'', pname = ''handle''\<rparr>],
     nonnull = [], attrs = [ATTR_LEAF_FN, ATTR_NO_RETURN]\<rparr>,
    \<lparr>ret = Val ''void'', name = ''_zx_futex_wake_handle_close_thread_exit'',
     params = [\<lparr>tag = None, ptype = ConstPtr ''zx_futex_t'', pname = ''value_ptr''\<rparr>,
       \<lparr>tag = None, ptype = Val ''uint32_t'', pname = ''count''\<rparr>,
       \<lparr>tag = None, ptype = Val ''int32_t'', pname = ''new_value''\<rparr>,
       \<lparr>tag = Some ''handle_release'', ptype = Val ''zx_handle_t'', pname = ''handle''\<rparr>],
     nonnull = [], attrs = [ATTR_LEAF_FN, ATTR_NO_RETURN]\<rparr>,
    \<lparr>ret = Val ''zx_status_t'', name = ''zx_log_write'',
     params = [\<lparr>tag = Some ''handle_use'', ptype = Val ''zx_handle_t'', pname = ''handle''\<rparr>,
       \<lparr>tag = None, ptype = Val ''uint32_t'', pname = ''len''\<rparr>,
       \<lparr>tag = None, ptype = ConstPtr ''void'', pname = ''buffer''\<rparr>,
       \<lparr>tag = None, ptype = Val ''uint32_t'', pname = ''options''\<rparr>],
     nonnull = [], attrs = [ATTR_LEAF_FN]\<rparr>,
    \<lparr>ret = Val ''zx_status_t'', name = ''_zx_log_write'',
     params = [\<lparr>tag = Some ''handle_use'', ptype = Val ''zx_handle_t'', pname = ''handle''\<rparr>,
       \<lparr>tag = None, ptype = Val ''uint32_t'', pname = ''len''\<rparr>,
       \<lparr>tag = None, ptype = ConstPtr ''void'', pname = ''buffer''\<rparr>,
       \<lparr>tag = None, ptype = Val ''uint32_t'', pname = ''options''\<rparr>],
     nonnull = [], attrs = [ATTR_LEAF_FN]\<rparr>,
    \<lparr>ret = Val ''zx_status_t'', name = ''zx_log_read'',
     params = [\<lparr>tag = Some ''handle_use'', ptype = Val ''zx_handle_t'', pname = ''handle''\<rparr>,
       \<lparr>tag = None, ptype = Val ''uint32_t'', pname = ''len''\<rparr>,
       \<lparr>tag = None, ptype = Ptr ''void'', pname = ''buffer''\<rparr>,
       \<lparr>tag = None, ptype = Val ''uint32_t'', pname = ''options''\<rparr>],
     nonnull = [], attrs = [ATTR_LEAF_FN]\<rparr>,
    \<lparr>ret = Val ''zx_status_t'', name = ''_zx_log_read'',
     params = [\<lparr>tag = Some ''handle_use'', ptype = Val ''zx_handle_t'', pname = ''handle''\<rparr>,
       \<lparr>tag = None, ptype = Val ''uint32_t'', pname = ''len''\<rparr>,
       \<lparr>tag = None, ptype = Ptr ''void'', pname = ''buffer''\<rparr>,
       \<lparr>tag = None, ptype = Val ''uint32_t'', pname = ''options''\<rparr>],
     nonnull = [], attrs = [ATTR_LEAF_FN]\<rparr>,
    \<lparr>ret = Val ''zx_status_t'', name = ''zx_debuglog_create'',
     params = [\<lparr>tag = Some ''handle_use'', ptype = Val ''zx_handle_t'', pname = ''resource''\<rparr>,
       \<lparr>tag = None, ptype = Val ''uint32_t'', pname = ''options''\<rparr>,
       \<lparr>tag = Some ''handle_acquire'', ptype = Ptr ''zx_handle_t'', pname = ''out''\<rparr>],
     nonnull = [3], attrs = [ATTR_LEAF_FN]\<rparr>,
    \<lparr>ret = Val ''zx_status_t'', name = ''_zx_debuglog_create'',
     params = [\<lparr>tag = Some ''handle_use'', ptype = Val ''zx_handle_t'', pname = ''resource''\<rparr>,
       \<lparr>tag = None, ptype = Val ''uint32_t'', pname = ''options''\<rparr>,
       \<lparr>tag = Some ''handle_acquire'', ptype = Ptr ''zx_handle_t'', pname = ''out''\<rparr>],
     nonnull = [3], attrs = [ATTR_LEAF_FN]\<rparr>,
    \<lparr>ret = Val ''zx_status_t'', name = ''zx_debuglog_write'',
     params = [\<lparr>tag = Some ''handle_use'', ptype = Val ''zx_handle_t'', pname = ''handle''\<rparr>,
       \<lparr>tag = None, ptype = Val ''uint32_t'', pname = ''options''\<rparr>,
       \<lparr>tag = None, ptype = ConstPtr ''void'', pname = ''buffer''\<rparr>,
       \<lparr>tag = None, ptype = Val ''size_t'', pname = ''buffer_size''\<rparr>],
     nonnull = [], attrs = [ATTR_LEAF_FN]\<rparr>,
    \<lparr>ret = Val ''zx_status_t'', name = ''_zx_debuglog_write'',
     params = [\<lparr>tag = Some ''handle_use'', ptype = Val ''zx_handle_t'', pname = ''handle''\<rparr>,
       \<lparr>tag = None, ptype = Val ''uint32_t'', pname = ''options''\<rparr>,
       \<lparr>tag = None, ptype = ConstPtr ''void'', pname = ''buffer''\<rparr>,
       \<lparr>tag = None, ptype = Val ''size_t'', pname = ''buffer_size''\<rparr>],
     nonnull = [], attrs = [ATTR_LEAF_FN]\<rparr>,
    \<lparr>ret = Val ''zx_status_t'', name = ''zx_debuglog_read'',
     params = [\<lparr>tag = Some ''handle_use'', ptype = Val ''zx_handle_t'', pname = ''handle''\<rparr>,
       \<lparr>tag = None, ptype = Val ''uint32_t'', pname = ''options''\<rparr>,
       \<lparr>tag = None, ptype = Ptr ''void'', pname = ''buffer''\<rparr>,
       \<lparr>tag = None, ptype = Val ''size_t'', pname = ''buffer_size''\<rparr>],
     nonnull = [], attrs = [ATTR_LEAF_FN]\<rparr>,
    \<lparr>ret = Val ''zx_status_t'', name = ''_zx_debuglog_read'',
     params = [\<lparr>tag = Some ''handle_use'', ptype = Val ''zx_handle_t'', pname = ''handle''\<rparr>,
       \<lparr>tag = None, ptype = Val ''uint32_t'', pname = ''options''\<rparr>,
       \<lparr>tag = None, ptype = Ptr ''void'', pname = ''buffer''\<rparr>,
       \<lparr>tag = None, ptype = Val ''size_t'', pname = ''buffer_size''\<rparr>],
     nonnull = [], attrs = [ATTR_LEAF_FN]\<rparr>,
    \<lparr>ret = Val ''zx_status_t'', name = ''zx_ktrace_read'',
     params = [\<lparr>tag = Some ''handle_use'', ptype = Val ''zx_handle_t'', pname = ''handle''\<rparr>,
       \<lparr>tag = None, ptype = Ptr ''void'', pname = ''data''\<rparr>,
       \<lparr>tag = None, ptype = Val ''uint32_t'', pname = ''offset''\<rparr>,
       \<lparr>tag = None, ptype = Val ''size_t'', pname = ''data_size''\<rparr>,
       \<lparr>tag = None, ptype = Ptr ''size_t'', pname = ''actual''\<rparr>],
     nonnull = [5], attrs = [ATTR_LEAF_FN]\<rparr>,
    \<lparr>ret = Val ''zx_status_t'', name = ''_zx_ktrace_read'',
     params = [\<lparr>tag = Some ''handle_use'', ptype = Val ''zx_handle_t'', pname = ''handle''\<rparr>,
       \<lparr>tag = None, ptype = Ptr ''void'', pname = ''data''\<rparr>,
       \<lparr>tag = None, ptype = Val ''uint32_t'', pname = ''offset''\<rparr>,
       \<lparr>tag = None, ptype = Val ''size_t'', pname = ''data_size''\<rparr>,
       \<lparr>tag = None, ptype = Ptr ''size_t'', pname = ''actual''\<rparr>],
     nonnull = [5], attrs = [ATTR_LEAF_FN]\<rparr>,
    \<lparr>ret = Val ''zx_status_t'', name = ''zx_ktrace_control'',
     params = [\<lparr>tag = Some ''handle_use'', ptype = Val ''zx_handle_t'', pname = ''handle''\<rparr>,
       \<lparr>tag = None, ptype = Val ''uint32_t'', pname = ''action''\<rparr>,
       \<lparr>tag = None, ptype = Val ''uint32_t'', pname = ''options''\<rparr>,
       \<lparr>tag = None, ptype = Ptr ''void'', pname = ''ptr''\<rparr>],
     nonnull = [], attrs = [ATTR_LEAF_FN]\<rparr>,
    \<lparr>ret = Val ''zx_status_t'', name = ''_zx_ktrace_control'',
     params = [\<lparr>tag = Some ''handle_use'', ptype = Val ''zx_handle_t'', pname = ''handle''\<rparr>,
       \<lparr>tag = None, ptype = Val ''uint32_t'', pname = ''action''\<rparr>,
       \<lparr>tag = None, ptype = Val ''uint32_t'', pname = ''options''\<rparr>,
       \<lparr>tag = None, ptype = Ptr ''void'', pname = ''ptr''\<rparr>],
     nonnull = [], attrs = [ATTR_LEAF_FN]\<rparr>,
    \<lparr>ret = Val ''zx_status_t'', name = ''zx_ktrace_write'',
     params = [\<lparr>tag = Some ''handle_use'', ptype = Val ''zx_handle_t'', pname = ''handle''\<rparr>,
       \<lparr>tag = None, ptype = Val ''uint32_t'', pname = ''id''\<rparr>,
       \<lparr>tag = None, ptype = Val ''uint32_t'', pname = ''arg0''\<rparr>,
       \<lparr>tag = None, ptype = Val ''uint32_t'', pname = ''arg1''\<rparr>],
     nonnull = [], attrs = [ATTR_LEAF_FN]\<rparr>,
    \<lparr>ret = Val ''zx_status_t'', name = ''_zx_ktrace_write'',
     params = [\<lparr>tag = Some ''handle_use'', ptype = Val ''zx_handle_t'', pname = ''handle''\<rparr>,
       \<lparr>tag = None, ptype = Val ''uint32_t'', pname = ''id''\<rparr>,
       \<lparr>tag = None, ptype = Val ''uint32_t'', pname = ''arg0''\<rparr>,
       \<lparr>tag = None, ptype = Val ''uint32_t'', pname = ''arg1''\<rparr>],
     nonnull = [], attrs = [ATTR_LEAF_FN]\<rparr>,
    \<lparr>ret = Val ''zx_status_t'', name = ''zx_mtrace_control'',
     params = [\<lparr>tag = Some ''handle_use'', ptype = Val ''zx_handle_t'', pname = ''handle''\<rparr>,
       \<lparr>tag = None, ptype = Val ''uint32_t'', pname = ''kind''\<rparr>,
       \<lparr>tag = None, ptype = Val ''uint32_t'', pname = ''action''\<rparr>,
       \<lparr>tag = None, ptype = Val ''uint32_t'', pname = ''options''\<rparr>,
       \<lparr>tag = None, ptype = Ptr ''void'', pname = ''ptr''\<rparr>,
       \<lparr>tag = None, ptype = Val ''size_t'', pname = ''ptr_size''\<rparr>],
     nonnull = [], attrs = [ATTR_LEAF_FN]\<rparr>,
    \<lparr>ret = Val ''zx_status_t'', name = ''_zx_mtrace_control'',
     params = [\<lparr>tag = Some ''handle_use'', ptype = Val ''zx_handle_t'', pname = ''handle''\<rparr>,
       \<lparr>tag = None, ptype = Val ''uint32_t'', pname = ''kind''\<rparr>,
       \<lparr>tag = None, ptype = Val ''uint32_t'', pname = ''action''\<rparr>,
       \<lparr>tag = None, ptype = Val ''uint32_t'', pname = ''options''\<rparr>,
       \<lparr>tag = None, ptype = Ptr ''void'', pname = ''ptr''\<rparr>,
       \<lparr>tag = None, ptype = Val ''size_t'', pname = ''ptr_size''\<rparr>],
     nonnull = [], attrs = [ATTR_LEAF_FN]\<rparr>]"

text \<open>Lines 1195 to 1296 of the header: \<^verbatim>\<open>zx_debug_read\<close> to \<^verbatim>\<open>_zx_ioports_request\<close>.\<close>

definition header_lines_11 :: "string list" where
  "header_lines_11 = [
    ''extern zx_status_t zx_debug_read('',
    ''    ZX_SYSCALL_PARAM_ATTR(handle_use) zx_handle_t handle,'',
    ''    char* buffer,'',
    ''    size_t* buffer_size) __LEAF_FN;'',
    '''',
    ''extern zx_status_t _zx_debug_read('',
    ''    ZX_SYSCALL_PARAM_ATTR(handle_use) zx_handle_t handle,'',
    ''    char* buffer,'',
    ''    size_t* buffer_size) __LEAF_FN;'',
    '''',
    ''extern zx_status_t zx_debug_write('',
    ''    const char* buffer,'',
    ''    size_t buffer_size) __LEAF_FN;'',
    '''',
    ''extern zx_status_t _zx_debug_write('',
    ''    const char* buffer,'',
    ''    size_t buffer_size) __LEAF_FN;'',
    '''',
    ''extern zx_status_t zx_debug_send_command('',
    ''    ZX_SYSCALL_PARAM_ATTR(handle_use) zx_handle_t resource,'',
    ''    const char* buffer,'',
    ''    size_t buffer_size) __LEAF_FN;'',
    '''',
    ''extern zx_status_t _zx_debug_send_command('',
    ''    ZX_SYSCALL_PARAM_ATTR(handle_use) zx_handle_t resource,'',
    ''    const char* buffer,'',
    ''    size_t buffer_size) __LEAF_FN;'',
    '''',
    ''extern zx_status_t zx_interrupt_create('',
    ''    ZX_SYSCALL_PARAM_ATTR(handle_use) zx_handle_t src_obj,'',
    ''    uint32_t src_num,'',
    ''    uint32_t options,'',
    ''    zx_handle_t* out) __NONNULL((4)) __LEAF_FN;'',
    '''',
    ''extern zx_status_t _zx_interrupt_create('',
    ''    ZX_SYSCALL_PARAM_ATTR(handle_use) zx_handle_t src_obj,'',
    ''    uint32_t src_num,'',
    ''    uint32_t options,'',
    ''    zx_handle_t* out) __NONNULL((4)) __LEAF_FN;'',
    '''',
    ''extern zx_status_t zx_interrupt_bind('',
    ''    ZX_SYSCALL_PARAM_ATTR(handle_use) zx_handle_t handle,'',
    ''    ZX_SYSCALL_PARAM_ATTR(handle_use) zx_handle_t port,'',
    ''    uint64_t key,'',
    ''    uint32_t options) __LEAF_FN;'',
    '''',
    ''extern zx_status_t _zx_interrupt_bind('',
    ''    ZX_SYSCALL_PARAM_ATTR(handle_use) zx_handle_t handle,'',
    ''    ZX_SYSCALL_PARAM_ATTR(handle_use) zx_handle_t port,'',
    ''    uint64_t key,'',
    ''    uint32_t options) __LEAF_FN;'',
    '''',
    ''extern zx_status_t zx_interrupt_wait('',
    ''    ZX_SYSCALL_PARAM_ATTR(handle_use) zx_handle_t handle,'',
    ''    zx_time_t* out_timestamp) __LEAF_FN;'',
    '''',
    ''extern zx_status_t _zx_interrupt_wait('',
    ''    ZX_SYSCALL_PARAM_ATTR(handle_use) zx_handle_t handle,'',
    ''    zx_time_t* out_timestamp) __LEAF_FN;'',
    '''',
    ''extern zx_status_t zx_interrupt_destroy('',
    ''    ZX_SYSCALL_PARAM_ATTR(handle_use) zx_handle_t handle) __LEAF_FN;'',
    '''',
    ''extern zx_status_t _zx_interrupt_destroy('',
    ''    ZX_SYSCALL_PARAM_ATTR(handle_use) zx_handle_t handle) __LEAF_FN;'',
    '''',
    ''extern zx_status_t zx_interrupt_ack('',
    ''    ZX_SYSCALL_PARAM_ATTR(handle_use) zx_handle_t handle) __LEAF_FN;'',
    '''',
    ''extern zx_status_t _zx_interrupt_ack('',
    ''    ZX_SYSCALL_PARAM_ATTR(handle_use) zx_handle_t handle) __LEAF_FN;'',
    '''',
    ''extern zx_status_t zx_interrupt_trigger('',
    ''    ZX_SYSCALL_PARAM_ATTR(handle_use) zx_handle_t handle,'',
    ''    uint32_t options,'',
    ''    zx_time_t timestamp) __LEAF_FN;'',
    '''',
    ''extern zx_status_t _zx_interrupt_trigger('',
    ''    ZX_SYSCALL_PARAM_ATTR(handle_use) zx_handle_t handle,'',
    ''    uint32_t options,'',
    ''    zx_time_t timestamp) __LEAF_FN;'',
    '''',
    ''extern zx_status_t zx_interrupt_bind_vcpu('',
    ''    ZX_SYSCALL_PARAM_ATTR(handle_use) zx_handle_t handle,'',
    ''    ZX_SYSCALL_PARAM_ATTR(handle_use) zx_handle_t vcpu,'',
    ''    uint32_t options) __LEAF_FN;'',
    '''',
    ''extern zx_status_t _zx_interrupt_bind_vcpu('',
    ''    ZX_SYSCALL_PARAM_ATTR(handle_use) zx_handle_t handle,'',
    ''    ZX_SYSCALL_PARAM_ATTR(handle_use) zx_handle_t vcpu,'',
    ''    uint32_t options) __LEAF_FN;'',
    '''',
    ''extern zx_status_t zx_ioports_request('',
    ''    ZX_SYSCALL_PARAM_ATTR(handle_use) zx_handle_t resource,'',
    ''    uint16_t io_addr,'',
    ''    uint32_t len) __LEAF_FN;'',
    '''',
    ''extern zx_status_t _zx_ioports_request('',
    ''    ZX_SYSCALL_PARAM_ATTR(handle_use) zx_handle_t resource,'',
    ''    uint16_t io_addr,'',
    ''    uint32_t len) __LEAF_FN;'',
    '''']"

definition syscalls_11 :: "decl list" where
  "syscalls_11 = [
    \<lparr>ret = Val ''zx_status_t'', name = ''zx_debug_read'',
     params = [\<lparr>tag = Some ''handle_use'', ptype = Val ''zx_handle_t'', pname = ''handle''\<rparr>,
       \<lparr>tag = None, ptype = Ptr ''char'', pname = ''buffer''\<rparr>,
       \<lparr>tag = None, ptype = Ptr ''size_t'', pname = ''buffer_size''\<rparr>],
     nonnull = [], attrs = [ATTR_LEAF_FN]\<rparr>,
    \<lparr>ret = Val ''zx_status_t'', name = ''_zx_debug_read'',
     params = [\<lparr>tag = Some ''handle_use'', ptype = Val ''zx_handle_t'', pname = ''handle''\<rparr>,
       \<lparr>tag = None, ptype = Ptr ''char'', pname = ''buffer''\<rparr>,
       \<lparr>tag = None, ptype = Ptr ''size_t'', pname = ''buffer_size''\<rparr>],
     nonnull = [], attrs = [ATTR_LEAF_FN]\<rparr>,
    \<lparr>ret = Val ''zx_status_t'', name = ''zx_debug_write'',
     params = [\<lparr>tag = None, ptype = ConstPtr ''char'', pname = ''buffer''\<rparr>,
       \<lparr>tag = None, ptype = Val ''size_t'', pname = ''buffer_size''\<rparr>],
     nonnull = [], attrs = [ATTR_LEAF_FN]\<rparr>,
    \<lparr>ret = Val ''zx_status_t'', name = ''_zx_debug_write'',
     params = [\<lparr>tag = None, ptype = ConstPtr ''char'', pname = ''buffer''\<rparr>,
       \<lparr>tag = None, ptype = Val ''size_t'', pname = ''buffer_size''\<rparr>],
     nonnull = [], attrs = [ATTR_LEAF_FN]\<rparr>,
    \<lparr>ret = Val ''zx_status_t'', name = ''zx_debug_send_command'',
     params = [\<lparr>tag = Some ''handle_use'', ptype = Val ''zx_handle_t'', pname = ''resource''\<rparr>,
       \<lparr>tag = None, ptype = ConstPtr ''char'', pname = ''buffer''\<rparr>,
       \<lparr>tag = None, ptype = Val ''size_t'', pname = ''buffer_size''\<rparr>],
     nonnull = [], attrs = [ATTR_LEAF_FN]\<rparr>,
    \<lparr>ret = Val ''zx_status_t'', name = ''_zx_debug_send_command'',
     params = [\<lparr>tag = Some ''handle_use'', ptype = Val ''zx_handle_t'', pname = ''resource''\<rparr>,
       \<lparr>tag = None, ptype = ConstPtr ''char'', pname = ''buffer''\<rparr>,
       \<lparr>tag = None, ptype = Val ''size_t'', pname = ''buffer_size''\<rparr>],
     nonnull = [], attrs = [ATTR_LEAF_FN]\<rparr>,
    \<lparr>ret = Val ''zx_status_t'', name = ''zx_interrupt_create'',
     params = [\<lparr>tag = Some ''handle_use'', ptype = Val ''zx_handle_t'', pname = ''src_obj''\<rparr>,
       \<lparr>tag = None, ptype = Val ''uint32_t'', pname = ''src_num''\<rparr>,
       \<lparr>tag = None, ptype = Val ''uint32_t'', pname = ''options''\<rparr>,
       \<lparr>tag = None, ptype = Ptr ''zx_handle_t'', pname = ''out''\<rparr>],
     nonnull = [4], attrs = [ATTR_LEAF_FN]\<rparr>,
    \<lparr>ret = Val ''zx_status_t'', name = ''_zx_interrupt_create'',
     params = [\<lparr>tag = Some ''handle_use'', ptype = Val ''zx_handle_t'', pname = ''src_obj''\<rparr>,
       \<lparr>tag = None, ptype = Val ''uint32_t'', pname = ''src_num''\<rparr>,
       \<lparr>tag = None, ptype = Val ''uint32_t'', pname = ''options''\<rparr>,
       \<lparr>tag = None, ptype = Ptr ''zx_handle_t'', pname = ''out''\<rparr>],
     nonnull = [4], attrs = [ATTR_LEAF_FN]\<rparr>,
    \<lparr>ret = Val ''zx_status_t'', name = ''zx_interrupt_bind'',
     params = [\<lparr>tag = Some ''handle_use'', ptype = Val ''zx_handle_t'', pname = ''handle''\<rparr>,
       \<lparr>tag = Some ''handle_use'', ptype = Val ''zx_handle_t'', pname = ''port''\<rparr>,
       \<lparr>tag = None, ptype = Val ''uint64_t'', pname = ''key''\<rparr>,
       \<lparr>tag = None, ptype = Val ''uint32_t'', pname = ''options''\<rparr>],
     nonnull = [], attrs = [ATTR_LEAF_FN]\<rparr>,
    \<lparr>ret = Val ''zx_status_t'', name = ''_zx_interrupt_bind'',
     params = [\<lparr>tag = Some ''handle_use'', ptype = Val ''zx_handle_t'', pname = ''handle''\<rparr>,
       \<lparr>tag = Some ''handle_use'', ptype = Val ''zx_handle_t'', pname = ''port''\<rparr>,
       \<lparr>tag = None, ptype = Val ''uint64_t'', pname = ''key''\<rparr>,
       \<lparr>tag = None, ptype = Val ''uint32_t'', pname = ''options''\<rparr>],
     nonnull = [], attrs = [ATTR_LEAF_FN]\<rparr>,
    \<lparr>ret = Val ''zx_status_t'', name = ''zx_interrupt_wait'',
     params = [\<lparr>tag = Some ''handle_use'', ptype = Val ''zx_handle_t'', pname = ''handle''\<rparr>,
       \<lparr>tag = None, ptype = Ptr ''zx_time_t'', pname = ''out_timestamp''\<rparr>],
     nonnull = [], attrs = [ATTR_LEAF_FN]\<rparr>,
    \<lparr>ret = Val ''zx_status_t'', name = ''_zx_interrupt_wait'',
     params = [\<lparr>tag = Some ''handle_use'', ptype = Val ''zx_handle_t'', pname = ''handle''\<rparr>,
       \<lparr>tag = None, ptype = Ptr ''zx_time_t'', pname = ''out_timestamp''\<rparr>],
     nonnull = [], attrs = [ATTR_LEAF_FN]\<rparr>,
    \<lparr>ret = Val ''zx_status_t'', name = ''zx_interrupt_destroy'',
     params = [\<lparr>tag = Some ''handle_use'', ptype = Val ''zx_handle_t'', pname = ''handle''\<rparr>],
     nonnull = [], attrs = [ATTR_LEAF_FN]\<rparr>,
    \<lparr>ret = Val ''zx_status_t'', name = ''_zx_interrupt_destroy'',
     params = [\<lparr>tag = Some ''handle_use'', ptype = Val ''zx_handle_t'', pname = ''handle''\<rparr>],
     nonnull = [], attrs = [ATTR_LEAF_FN]\<rparr>,
    \<lparr>ret = Val ''zx_status_t'', name = ''zx_interrupt_ack'',
     params = [\<lparr>tag = Some ''handle_use'', ptype = Val ''zx_handle_t'', pname = ''handle''\<rparr>],
     nonnull = [], attrs = [ATTR_LEAF_FN]\<rparr>,
    \<lparr>ret = Val ''zx_status_t'', name = ''_zx_interrupt_ack'',
     params = [\<lparr>tag = Some ''handle_use'', ptype = Val ''zx_handle_t'', pname = ''handle''\<rparr>],
     nonnull = [], attrs = [ATTR_LEAF_FN]\<rparr>,
    \<lparr>ret = Val ''zx_status_t'', name = ''zx_interrupt_trigger'',
     params = [\<lparr>tag = Some ''handle_use'', ptype = Val ''zx_handle_t'', pname = ''handle''\<rparr>,
       \<lparr>tag = None, ptype = Val ''uint32_t'', pname = ''options''\<rparr>,
       \<lparr>tag = None, ptype = Val ''zx_time_t'', pname = ''timestamp''\<rparr>],
     nonnull = [], attrs = [ATTR_LEAF_FN]\<rparr>,
    \<lparr>ret = Val ''zx_status_t'', name = ''_zx_interrupt_trigger'',
     params = [\<lparr>tag = Some ''handle_use'', ptype = Val ''zx_handle_t'', pname = ''handle''\<rparr>,
       \<lparr>tag = None, ptype = Val ''uint32_t'', pname = ''options''\<rparr>,
       \<lparr>tag = None, ptype = Val ''zx_time_t'', pname = ''timestamp''\<rparr>],
     nonnull = [], attrs = [ATTR_LEAF_FN]\<rparr>,
    \<lparr>ret = Val ''zx_status_t'', name = ''zx_interrupt_bind_vcpu'',
     params = [\<lparr>tag = Some ''handle_use'', ptype = Val ''zx_handle_t'', pname = ''handle''\<rparr>,
       \<lparr>tag = Some ''handle_use'', ptype = Val ''zx_handle_t'', pname = ''vcpu''\<rparr>,
       \<lparr>tag = None, ptype = Val ''uint32_t'', pname = ''options''\<rparr>],
     nonnull = [], attrs = [ATTR_LEAF_FN]\<rparr>,
    \<lparr>ret = Val ''zx_status_t'', name = ''_zx_interrupt_bind_vcpu'',
     params = [\<lparr>tag = Some ''handle_use'', ptype = Val ''zx_handle_t'', pname = ''handle''\<rparr>,
       \<lparr>tag = Some ''handle_use'', ptype = Val ''zx_handle_t'', pname = ''vcpu''\<rparr>,
       \<lparr>tag = None, ptype = Val ''uint32_t'', pname = ''options''\<rparr>],
     nonnull = [], attrs = [ATTR_LEAF_FN]\<rparr>,
    \<lparr>ret = Val ''zx_status_t'', name = ''zx_ioports_request'',
     params = [\<lparr>tag = Some ''handle_use'', ptype = Val ''zx_handle_t'', pname = ''resource''\<rparr>,
       \<lparr>tag = None, ptype = Val ''uint16_t'', pname = ''io_addr''\<rparr>,
       \<lparr>tag = None, ptype = Val ''uint32_t'', pname = ''len''\<rparr>],
     nonnull = [], attrs = [ATTR_LEAF_FN]\<rparr>,
    \<lparr>ret = Val ''zx_status_t'', name = ''_zx_ioports_request'',
     params = [\<lparr>tag = Some ''handle_use'', ptype = Val ''zx_handle_t'', pname = ''resource''\<rparr>,
       \<lparr>tag = None, ptype = Val ''uint16_t'', pname = ''io_addr''\<rparr>,
       \<lparr>tag = None, ptype = Val ''uint32_t'', pname = ''len''\<rparr>],
     nonnull = [], attrs = [ATTR_LEAF_FN]\<rparr>]"

text \<open>Lines 1297 to 1430 of the header: \<^verbatim>\<open>zx_vmo_create_contiguous\<close> to \<^verbatim>\<open>_zx_pci_enable_bus_master\<close>.\<close>

definition header_lines_12 :: "string list" where
  "header_lines_12 = [
    ''extern zx_status_t zx_vmo_create_contiguous('',
    ''    ZX_SYSCALL_PARAM_ATTR(handle_use) zx_handle_t bti,'',
    ''    size_t size,'',
    ''    uint32_t alignment_log2,'',
    ''    ZX_SYSCALL_PARAM_ATTR(handle_acquire) zx_handle_t* out) __NONNULL((4)) __LEAF_FN;'',
    '''',
    ''extern zx_status_t _zx_vmo_create_contiguous('',
    ''    ZX_SYSCALL_PARAM_ATTR(handle_use) zx_handle_t bti,'',
    ''    size_t size,'',
    ''    uint32_t alignment_log2,'',
    ''    ZX_SYSCALL_PARAM_ATTR(handle_acquire) zx_handle_t* out) __NONNULL((4)) __LEAF_FN;'',
    '''',
    ''extern zx_status_t zx_vmo_create_physical('',
    ''    ZX_SYSCALL_PARAM_ATTR(handle_use) zx_handle_t resource,'',
    ''    zx_paddr_t paddr,'',
    ''    size_t size,'',
    ''    ZX_SYSCALL_PARAM_ATTR(handle_acquire) zx_handle_t* out) __NONNULL((4)) __LEAF_FN;'',
    '''',
    ''extern zx_status_t _zx_vmo_create_physical('',
    ''    ZX_SYSCALL_PARAM_ATTR(handle_use) zx_handle_t resource,'',
    ''    zx_paddr_t paddr,'',
    ''    size_t size,'',
    ''    ZX_SYSCALL_PARAM_ATTR(handle_acquire) zx_handle_t* out) __NONNULL((4)) __LEAF_FN;'',
    '''',
    ''extern zx_status_t zx_iommu_create('',
    ''    ZX_SYSCALL_PARAM_ATTR(handle_use) zx_handle_t resource,'',
    ''    uint32_t type,'',
    ''    const void* desc,'',
    ''    size_t desc_size,'',
    ''    ZX_SYSCALL_PARAM_ATTR(handle_acquire) zx_handle_t* out) __NONNULL((5)) __LEAF_FN;'',
    '''',
    ''extern zx_status_t _zx_iommu_create('',
    ''    ZX_SYSCALL_PARAM_ATTR(handle_use) zx_handle_t resource,'',
    ''    uint32_t type,'',
    ''    const void* desc,'',
    ''    size_t desc_size,'',
    ''    ZX_SYSCALL_PARAM_ATTR(handle_acquire) zx_handle_t* out) __NONNULL((5)) __LEAF_FN;'',
    '''',
    ''extern zx_status_t zx_bti_create('',
    ''    ZX_SYSCALL_PARAM_ATTR(handle_use) zx_handle_t iommu,'',
    ''    uint32_t options,'',
    ''    uint64_t bti_id,'',
    ''    ZX_SYSCALL_PARAM_ATTR(handle_acquire) zx_handle_t* out) __NONNULL((4)) __LEAF_FN;'',
    '''',
    ''extern zx_status_t _zx_bti_create('',
    ''    ZX_SYSCALL_PARAM_ATTR(handle_use) zx_handle_t iommu,'',
    ''    uint32_t options,'',
    ''    uint64_t bti_id,'',
    ''    ZX_SYSCALL_PARAM_ATTR(handle_acquire) zx_handle_t* out) __NONNULL((4)) __LEAF_FN;'',
    '''',
    ''extern zx_status_t zx_bti_pin('',
    ''    ZX_SYSCALL_PARAM_ATTR(handle_use) zx_handle_t handle,'',
    ''    uint32_t options,'',
    ''    ZX_SYSCALL_PARAM_ATTR(handle_use) zx_handle_t vmo,'',
    ''    uint64_t offset,'',
    ''    uint64_t size,'',
    ''    zx_paddr_t* addrs,'',
    ''    size_t addrs_count,'',
    ''    ZX_SYSCALL_PARAM_ATTR(handle_acquire) zx_handle_t* pmt) __NONNULL((8)) __LEAF_FN;'',
    '''',
    ''extern zx_status_t _zx_bti_pin('',
    ''    ZX_SYSCALL_PARAM_ATTR(handle_use) zx_handle_t handle,'',
    ''    uint32_t options,'',
    ''    ZX_SYSCALL_PARAM_ATTR(handle_use) zx_handle_t vmo,'',
    ''    uint64_t offset,'',
    ''    uint64_t size,'',
    ''    zx_paddr_t* addrs,'',
    ''    size_t addrs_count,'',
    ''    ZX_SYSCALL_PARAM_ATTR(handle_acquire) zx_handle_t* pmt) __NONNULL((8)) __LEAF_FN;'',
    '''',
    ''extern zx_status_t zx_bti_release_quarantine('',
    ''    ZX_SYSCALL_PARAM_ATTR(handle_use) zx_handle_t handle) __LEAF_FN;'',
    '''',
    ''extern zx_status_t _zx_bti_release_quarantine('',
    ''    ZX_SYSCALL_PARAM_ATTR(handle_use) zx_handle_t handle) __LEAF_FN;'',
    '''',
    ''extern zx_status_t zx_pmt_unpin('',
    ''    ZX_SYSCALL_PARAM_ATTR(handle_release_always) zx_handle_t handle) __LEAF_FN;'',
    '''',
    ''extern zx_status_t _zx_pmt_unpin('',
    ''    ZX_SYSCALL_PARAM_ATTR(handle_release_always) zx_handle_t handle) __LEAF_FN;'',
    '''',
    ''extern zx_status_t zx_framebuffer_get_info('',
    ''    ZX_SYSCALL_PARAM_ATTR(handle_use) zx_handle_t resource,'',
    ''    uint32_t* format,'',
    ''    uint32_t* width,'',
    ''    uint32_t* height,'',
    ''    uint32_t* stride) __NONNULL((2, 3, 4, 5)) __LEAF_FN;'',
    '''',
    ''extern zx_status_t _zx_framebuffer_get_info('',
    ''    ZX_SYSCALL_PARAM_ATTR(handle_use) zx_handle_t resource,'',
    ''    uint32_t* format,'',
    ''    uint32_t* width,'',
    ''    uint32_t* height,'',
    ''    uint32_t* stride) __NONNULL((2, 3, 4, 5)) __LEAF_FN;'',
    '''',
    ''extern zx_status_t zx_framebuffer_set_range('',
    ''    ZX_SYSCALL_PARAM_ATTR(handle_use) zx_handle_t resource,'',
    ''    ZX_SYSCALL_PARAM_ATTR(handle_use) zx_handle_t vmo,'',
    ''    uint32_t len,'',
    ''    uint32_t format,'',
    ''    uint32_t width,'',
    ''    uint32_t height,'',
    ''    uint32_t stride) __LEAF_FN;'',
    '''',
    ''extern zx_status_t _zx_framebuffer_set_range('',
    ''    ZX_SYSCALL_PARAM_ATTR(handle_use) zx_handle_t resource,'',
    ''    ZX_SYSCALL_PARAM_ATTR(handle_use) zx_handle_t vmo,'',
    ''    uint32_t len,'',
    ''    uint32_t format,'',
    ''    uint32_t width,'',
    ''    uint32_t height,'',
    ''    uint32_t stride) __LEAF_FN;'',
    '''',
    ''extern zx_status_t zx_pci_get_nth_device('',
    ''    ZX_SYSCALL_PARAM_ATTR(handle_use) zx_handle_t handle,'',
    ''    uint32_t index,'',
    ''    zx_pcie_device_info_t* out_info,'',
    ''    ZX_SYSCALL_PARAM_ATTR(handle_acquire) zx_handle_t* out_handle) __NONNULL((3, 4)) __LEAF_FN;'',
    '''',
    ''extern zx_status_t _zx_pci_get_nth_device('',
    ''    ZX_SYSCALL_PARAM_ATTR(handle_use) zx_handle_t handle,'',
    ''    uint32_t index,'',
    ''    zx_pcie_device_info_t* out_info,'',
    ''    ZX_SYSCALL_PARAM_ATTR(handle_acquire) zx_handle_t* out_handle) __NONNULL((3, 4)) __LEAF_FN;'',
    '''',
    ''extern zx_status_t zx_pci_enable_bus_master('',
    ''    ZX_SYSCALL_PARAM_ATTR(handle_use) zx_handle_t handle,'',
    ''    bool enable) __LEAF_FN;'',
    '''',
    ''extern zx_status_t _zx_pci_enable_bus_master('',
    ''    ZX_SYSCALL_PARAM_ATTR(handle_use) zx_handle_t handle,'',
    ''    bool enable) __LEAF_FN;'',
    '''']"

definition syscalls_12 :: "decl list" where
  "syscalls_12 = [
    \<lparr>ret = Val ''zx_status_t'', name = ''zx_vmo_create_contiguous'',
     params = [\<lparr>tag = Some ''handle_use'', ptype = Val ''zx_handle_t'', pname = ''bti''\<rparr>,
       \<lparr>tag = None, ptype = Val ''size_t'', pname = ''size''\<rparr>,
       \<lparr>tag = None, ptype = Val ''uint32_t'', pname = ''alignment_log2''\<rparr>,
       \<lparr>tag = Some ''handle_acquire'', ptype = Ptr ''zx_handle_t'', pname = ''out''\<rparr>],
     nonnull = [4], attrs = [ATTR_LEAF_FN]\<rparr>,
    \<lparr>ret = Val ''zx_status_t'', name = ''_zx_vmo_create_contiguous'',
     params = [\<lparr>tag = Some ''handle_use'', ptype = Val ''zx_handle_t'', pname = ''bti''\<rparr>,
       \<lparr>tag = None, ptype = Val ''size_t'', pname = ''size''\<rparr>,
       \<lparr>tag = None, ptype = Val ''uint32_t'', pname = ''alignment_log2''\<rparr>,
       \<lparr>tag = Some ''handle_acquire'', ptype = Ptr ''zx_handle_t'', pname = ''out''\<rparr>],
     nonnull = [4], attrs = [ATTR_LEAF_FN]\<rparr>,
    \<lparr>ret = Val ''zx_status_t'', name = ''zx_vmo_create_physical'',
     params = [\<lparr>tag = Some ''handle_use'', ptype = Val ''zx_handle_t'', pname = ''resource''\<rparr>,
       \<lparr>tag = None, ptype = Val ''zx_paddr_t'', pname = ''paddr''\<rparr>,
       \<lparr>tag = None, ptype = Val ''size_t'', pname = ''size''\<rparr>,
       \<lparr>tag = Some ''handle_acquire'', ptype = Ptr ''zx_handle_t'', pname = ''out''\<rparr>],
     nonnull = [4], attrs = [ATTR_LEAF_FN]\<rparr>,
    \<lparr>ret = Val ''zx_status_t'', name = ''_zx_vmo_create_physical'',
     params = [\<lparr>tag = Some ''handle_use'', ptype = Val ''zx_handle_t'', pname = ''resource''\<rparr>,
       \<lparr>tag = None, ptype = Val ''zx_paddr_t'', pname = ''paddr''\<rparr>,
       \<lparr>tag = None, ptype = Val ''size_t'', pname = ''size''\<rparr>,
       \<lparr>tag = Some ''handle_acquire'', ptype = Ptr ''zx_handle_t'', pname = ''out''\<rparr>],
     nonnull = [4], attrs = [ATTR_LEAF_FN]\<rparr>,
    \<lparr>ret = Val ''zx_status_t'', name = ''zx_iommu_create'',
     params = [\<lparr>tag = Some ''handle_use'', ptype = Val ''zx_handle_t'', pname = ''resource''\<rparr>,
       \<lparr>tag = None, ptype = Val ''uint32_t'', pname = ''type''\<rparr>,
       \<lparr>tag = None, ptype = ConstPtr ''void'', pname = ''desc''\<rparr>,
       \<lparr>tag = None, ptype = Val ''size_t'', pname = ''desc_size''\<rparr>,
       \<lparr>tag = Some ''handle_acquire'', ptype = Ptr ''zx_handle_t'', pname = ''out''\<rparr>],
     nonnull = [5], attrs = [ATTR_LEAF_FN]\<rparr>,
    \<lparr>ret = Val ''zx_status_t'', name = ''_zx_iommu_create'',
     params = [\<lparr>tag = Some ''handle_use'', ptype = Val ''zx_handle_t'', pname = ''resource''\<rparr>,
       \<lparr>tag = None, ptype = Val ''uint32_t'', pname = ''type''\<rparr>,
       \<lparr>tag = None, ptype = ConstPtr ''void'', pname = ''desc''\<rparr>,
       \<lparr>tag = None, ptype = Val ''size_t'', pname = ''desc_size''\<rparr>,
       \<lparr>tag = Some ''handle_acquire'', ptype = Ptr ''zx_handle_t'', pname = ''out''\<rparr>],
     nonnull = [5], attrs = [ATTR_LEAF_FN]\<rparr>,
    \<lparr>ret = Val ''zx_status_t'', name = ''zx_bti_create'',
     params = [\<lparr>tag = Some ''handle_use'', ptype = Val ''zx_handle_t'', pname = ''iommu''\<rparr>,
       \<lparr>tag = None, ptype = Val ''uint32_t'', pname = ''options''\<rparr>,
       \<lparr>tag = None, ptype = Val ''uint64_t'', pname = ''bti_id''\<rparr>,
       \<lparr>tag = Some ''handle_acquire'', ptype = Ptr ''zx_handle_t'', pname = ''out''\<rparr>],
     nonnull = [4], attrs = [ATTR_LEAF_FN]\<rparr>,
    \<lparr>ret = Val ''zx_status_t'', name = ''_zx_bti_create'',
     params = [\<lparr>tag = Some ''handle_use'', ptype = Val ''zx_handle_t'', pname = ''iommu''\<rparr>,
       \<lparr>tag = None, ptype = Val ''uint32_t'', pname = ''options''\<rparr>,
       \<lparr>tag = None, ptype = Val ''uint64_t'', pname = ''bti_id''\<rparr>,
       \<lparr>tag = Some ''handle_acquire'', ptype = Ptr ''zx_handle_t'', pname = ''out''\<rparr>],
     nonnull = [4], attrs = [ATTR_LEAF_FN]\<rparr>,
    \<lparr>ret = Val ''zx_status_t'', name = ''zx_bti_pin'',
     params = [\<lparr>tag = Some ''handle_use'', ptype = Val ''zx_handle_t'', pname = ''handle''\<rparr>,
       \<lparr>tag = None, ptype = Val ''uint32_t'', pname = ''options''\<rparr>,
       \<lparr>tag = Some ''handle_use'', ptype = Val ''zx_handle_t'', pname = ''vmo''\<rparr>,
       \<lparr>tag = None, ptype = Val ''uint64_t'', pname = ''offset''\<rparr>,
       \<lparr>tag = None, ptype = Val ''uint64_t'', pname = ''size''\<rparr>,
       \<lparr>tag = None, ptype = Ptr ''zx_paddr_t'', pname = ''addrs''\<rparr>,
       \<lparr>tag = None, ptype = Val ''size_t'', pname = ''addrs_count''\<rparr>,
       \<lparr>tag = Some ''handle_acquire'', ptype = Ptr ''zx_handle_t'', pname = ''pmt''\<rparr>],
     nonnull = [8], attrs = [ATTR_LEAF_FN]\<rparr>,
    \<lparr>ret = Val ''zx_status_t'', name = ''_zx_bti_pin'',
     params = [\<lparr>tag = Some ''handle_use'', ptype = Val ''zx_handle_t'', pname = ''handle''\<rparr>,
       \<lparr>tag = None, ptype = Val ''uint32_t'', pname = ''options''\<rparr>,
       \<lparr>tag = Some ''handle_use'', ptype = Val ''zx_handle_t'', pname = ''vmo''\<rparr>,
       \<lparr>tag = None, ptype = Val ''uint64_t'', pname = ''offset''\<rparr>,
       \<lparr>tag = None, ptype = Val ''uint64_t'', pname = ''size''\<rparr>,
       \<lparr>tag = None, ptype = Ptr ''zx_paddr_t'', pname = ''addrs''\<rparr>,
       \<lparr>tag = None, ptype = Val ''size_t'', pname = ''addrs_count''\<rparr>,
       \<lparr>tag = Some ''handle_acquire'', ptype = Ptr ''zx_handle_t'', pname = ''pmt''\<rparr>],
     nonnull = [8], attrs = [ATTR_LEAF_FN]\<rparr>,
    \<lparr>ret = Val ''zx_status_t'', name = ''zx_bti_release_quarantine'',
     params = [\<lparr>tag = Some ''handle_use'', ptype = Val ''zx_handle_t'', pname = ''handle''\<rparr>],
     nonnull = [], attrs = [ATTR_LEAF_FN]\<rparr>,
    \<lparr>ret = Val ''zx_status_t'', name = ''_zx_bti_release_quarantine'',
     params = [\<lparr>tag = Some ''handle_use'', ptype = Val ''zx_handle_t'', pname = ''handle''\<rparr>],
     nonnull = [], attrs = [ATTR_LEAF_FN]\<rparr>,
    \<lparr>ret = Val ''zx_status_t'', name = ''zx_pmt_unpin'',
     params = [\<lparr>tag = Some ''handle_release_always'', ptype = Val ''zx_handle_t'', pname = ''handle''\<rparr>],
     nonnull = [], attrs = [ATTR_LEAF_FN]\<rparr>,
    \<lparr>ret = Val ''zx_status_t'', name = ''_zx_pmt_unpin'',
     params = [\<lparr>tag = Some ''handle_release_always'', ptype = Val ''zx_handle_t'', pname = ''handle''\<rparr>],
     nonnull = [], attrs = [ATTR_LEAF_FN]\<rparr>,
    \<lparr>ret = Val ''zx_status_t'', name = ''zx_framebuffer_get_info'',
     params = [\<lparr>tag = Some ''handle_use'', ptype = Val ''zx_handle_t'', pname = ''resource''\<rparr>,
       \<lparr>tag = None, ptype = Ptr ''uint32_t'', pname = ''format''\<rparr>,
       \<lparr>tag = None, ptype = Ptr ''uint32_t'', pname = ''width''\<rparr>,
       \<lparr>tag = None, ptype = Ptr ''uint32_t'', pname = ''height''\<rparr>,
       \<lparr>tag = None, ptype = Ptr ''uint32_t'', pname = ''stride''\<rparr>],
     nonnull = [2, 3, 4, 5], attrs = [ATTR_LEAF_FN]\<rparr>,
    \<lparr>ret = Val ''zx_status_t'', name = ''_zx_framebuffer_get_info'',
     params = [\<lparr>tag = Some ''handle_use'', ptype = Val ''zx_handle_t'', pname = ''resource''\<rparr>,
       \<lparr>tag = None, ptype = Ptr ''uint32_t'', pname = ''format''\<rparr>,
       \<lparr>tag = None, ptype = Ptr ''uint32_t'', pname = ''width''\<rparr>,
       \<lparr>tag = None, ptype = Ptr ''uint32_t'', pname = ''height''\<rparr>,
       \<lparr>tag = None, ptype = Ptr ''uint32_t'', pname = ''stride''\<rparr>],
     nonnull = [2, 3, 4, 5], attrs = [ATTR_LEAF_FN]\<rparr>,
    \<lparr>ret = Val ''zx_status_t'', name = ''zx_framebuffer_set_range'',
     params = [\<lparr>tag = Some ''handle_use'', ptype = Val ''zx_handle_t'', pname = ''resource''\<rparr>,
       \<lparr>tag = Some ''handle_use'', ptype = Val ''zx_handle_t'', pname = ''vmo''\<rparr>,
       \<lparr>tag = None, ptype = Val ''uint32_t'', pname = ''len''\<rparr>,
       \<lparr>tag = None, ptype = Val ''uint32_t'', pname = ''format''\<rparr>,
       \<lparr>tag = None, ptype = Val ''uint32_t'', pname = ''width''\<rparr>,
       \<lparr>tag = None, ptype = Val ''uint32_t'', pname = ''height''\<rparr>,
       \<lparr>tag = None, ptype = Val ''uint32_t'', pname = ''stride''\<rparr>],
     nonnull = [], attrs = [ATTR_LEAF_FN]\<rparr>,
    \<lparr>ret = Val ''zx_status_t'', name = ''_zx_framebuffer_set_range'',
     params = [\<lparr>tag = Some ''handle_use'', ptype = Val ''zx_handle_t'', pname = ''resource''\<rparr>,
       \<lparr>tag = Some ''handle_use'', ptype = Val ''zx_handle_t'', pname = ''vmo''\<rparr>,
       \<lparr>tag = None, ptype = Val ''uint32_t'', pname = ''len''\<rparr>,
       \<lparr>tag = None, ptype = Val ''uint32_t'', pname = ''format''\<rparr>,
       \<lparr>tag = None, ptype = Val ''uint32_t'', pname = ''width''\<rparr>,
       \<lparr>tag = None, ptype = Val ''uint32_t'', pname = ''height''\<rparr>,
       \<lparr>tag = None, ptype = Val ''uint32_t'', pname = ''stride''\<rparr>],
     nonnull = [], attrs = [ATTR_LEAF_FN]\<rparr>,
    \<lparr>ret = Val ''zx_status_t'', name = ''zx_pci_get_nth_device'',
     params = [\<lparr>tag = Some ''handle_use'', ptype = Val ''zx_handle_t'', pname = ''handle''\<rparr>,
       \<lparr>tag = None, ptype = Val ''uint32_t'', pname = ''index''\<rparr>,
       \<lparr>tag = None, ptype = Ptr ''zx_pcie_device_info_t'', pname = ''out_info''\<rparr>,
       \<lparr>tag = Some ''handle_acquire'', ptype = Ptr ''zx_handle_t'', pname = ''out_handle''\<rparr>],
     nonnull = [3, 4], attrs = [ATTR_LEAF_FN]\<rparr>,
    \<lparr>ret = Val ''zx_status_t'', name = ''_zx_pci_get_nth_device'',
     params = [\<lparr>tag = Some ''handle_use'', ptype = Val ''zx_handle_t'', pname = ''handle''\<rparr>,
       \<lparr>tag = None, ptype = Val ''uint32_t'', pname = ''index''\<rparr>,
       \<lparr>tag = None, ptype = Ptr ''zx_pcie_device_info_t'', pname = ''out_info''\<rparr>,
       \<lparr>tag = Some ''handle_acquire'', ptype = Ptr ''zx_handle_t'', pname = ''out_handle''\<rparr>],
     nonnull = [3, 4], attrs = [ATTR_LEAF_FN]\<rparr>,
    \<lparr>ret = Val ''zx_status_t'', name = ''zx_pci_enable_bus_master'',
     params = [\<lparr>tag = Some ''handle_use'', ptype = Val ''zx_handle_t'', pname = ''handle''\<rparr>,
       \<lparr>tag = None, ptype = Val ''bool'', pname = ''enable''\<rparr>],
     nonnull = [], attrs = [ATTR_LEAF_FN]\<rparr>,
    \<lparr>ret = Val ''zx_status_t'', name = ''_zx_pci_enable_bus_master'',
     params = [\<lparr>tag = Some ''handle_use'', ptype = Val ''zx_handle_t'', pname = ''handle''\<rparr>,
       \<lparr>tag = None, ptype = Val ''bool'', pname = ''enable''\<rparr>],
     nonnull = [], attrs = [ATTR_LEAF_FN]\<rparr>]"

text \<open>Lines 1431 to 1556 of the header: \<^verbatim>\<open>zx_pci_reset_device\<close> to \<^verbatim>\<open>_zx_pc_firmware_tables\<close>.\<close>

definition header_lines_13 :: "string list" where
  "header_lines_13 = [
    ''extern zx_status_t zx_pci_reset_device('',
    ''    ZX_SYSCALL_PARAM_ATTR(handle_use) zx_handle_t handle) __LEAF_FN;'',
    '''',
    ''extern zx_status_t _zx_pci_reset_device('',
    ''    ZX_SYSCALL_PARAM_ATTR(handle_use) zx_handle_t handle) __LEAF_FN;'',
    '''',
    ''extern zx_status_t zx_pci_config_read('',
    ''    ZX_SYSCALL_PARAM_ATTR(handle_use) zx_handle_t handle,'',
    ''    uint16_t offset,'',
    ''    size_t width,'',
    ''    uint32_t* out_val) __LEAF_FN;'',
    '''',
    ''extern zx_status_t _zx_pci_config_read('',
    ''    ZX_SYSCALL_PARAM_ATTR(handle_use) zx_handle_t handle,'',
    ''    uint16_t offset,'',
    ''    size_t width,'',
    ''    uint32_t* out_val) __LEAF_FN;'',
    '''',
    ''extern zx_status_t zx_pci_config_write('',
    ''    ZX_SYSCALL_PARAM_ATTR(handle_use) zx_handle_t handle,'',
    ''    uint16_t offset,'',
    ''    size_t width,'',
    ''    uint32_t val) __LEAF_FN;'',
    '''',
    ''extern zx_status_t _zx_pci_config_write('',
    ''    ZX_SYSCALL_PARAM_ATTR(handle_use) zx_handle_t handle,'',
    ''    uint16_t offset,'',
    ''    size_t width,'',
    ''    uint32_t val) __LEAF_FN;'',
    '''',
    ''extern zx_status_t zx_pci_cfg_pio_rw('',
    ''    ZX_SYSCALL_PARAM_ATTR(handle_use) zx_handle_t handle,'',
    ''    uint8_t bus,'',
    ''    uint8_t dev,'',
    ''    uint8_t func,'',
    ''    uint8_t offset,'',
    ''    uint32_t* val,'',
    ''    size_t width,'',
    ''    bool write) __LEAF_FN;'',
    '''',
    ''extern zx_status_t _zx_pci_cfg_pio_rw('',
    ''    ZX_SYSCALL_PARAM_ATTR(handle_use) zx_handle_t handle,'',
    ''    uint8_t bus,'',
    ''    uint8_t dev,'',
    ''    uint8_t func,'',
    ''    uint8_t offset,'',
    ''    uint32_t* val,'',
    ''    size_t width,'',
    ''    bool write) __LEAF_FN;'',
    '''',
    ''extern zx_status_t zx_pci_get_bar('',
    ''    ZX_SYSCALL_PARAM_ATTR(handle_use) zx_handle_t handle,'',
    ''    uint32_t bar_num,'',
    ''    zx_pci_bar_t* out_bar,'',
    ''    ZX_SYSCALL_PARAM_ATTR(handle_acquire) zx_handle_t* out_handle) __NONNULL((4)) __LEAF_FN;'',
    '''',
    ''extern zx_status_t _zx_pci_get_bar('',
    ''    ZX_SYSCALL_PARAM_ATTR(handle_use) zx_handle_t handle,'',
    ''    uint32_t bar_num,'',
    ''    zx_pci_bar_t* out_bar,'',
    ''    ZX_SYSCALL_PARAM_ATTR(handle_acquire) zx_handle_t* out_handle) __NONNULL((4)) __LEAF_FN;'',
    '''',
    ''extern zx_status_t zx_pci_map_interrupt('',
    ''    ZX_SYSCALL_PARAM_ATTR(handle_use) zx_handle_t handle,'',
    ''    int32_t which_irq,'',
    ''    ZX_SYSCALL_PARAM_ATTR(handle_acquire) zx_handle_t* out_handle) __NONNULL((3)) __LEAF_FN;'',
    '''',
    ''extern zx_status_t _zx_pci_map_interrupt('',
    ''    ZX_SYSCALL_PARAM_ATTR(handle_use) zx_handle_t handle,'',
    ''    int32_t which_irq,'',
    ''    ZX_SYSCALL_PARAM_ATTR(handle_acquire) zx_handle_t* out_handle) __NONNULL((3)) __LEAF_FN;'',
    '''',
    ''extern zx_status_t zx_pci_query_irq_mode('',
    ''    ZX_SYSCALL_PARAM_ATTR(handle_use) zx_handle_t handle,'',
    ''    uint32_t mode,'',
    ''    uint32_t* out_max_irqs) __NONNULL((3)) __LEAF_FN;'',
    '''',
    ''extern zx_status_t _zx_pci_query_irq_mode('',
    ''    ZX_SYSCALL_PARAM_ATTR(handle_use) zx_handle_t handle,'',
    ''    uint32_t mode,'',
    ''    uint32_t* out_max_irqs) __NONNULL((3)) __LEAF_FN;'',
    '''',
    ''extern zx_status_t zx_pci_set_irq_mode('',
    ''    ZX_SYSCALL_PARAM_ATTR(handle_use) zx_handle_t handle,'',
    ''    uint32_t mode,'',
    ''    uint32_t requested_irq_count) __LEAF_FN;'',
    '''',
    ''extern zx_status_t _zx_pci_set_irq_mode('',
    ''    ZX_SYSCALL_PARAM_ATTR(handle_use) zx_handle_t handle,'',
    ''    uint32_t mode,'',
    ''    uint32_t requested_irq_count) __LEAF_FN;'',
    '''',
    ''extern zx_status_t zx_pci_init('',
    ''    ZX_SYSCALL_PARAM_ATTR(handle_use) zx_handle_t handle,'',
    ''    const zx_pci_init_arg_t* init_buf,'',
    ''    uint32_t len) __LEAF_FN;'',
    '''',
    ''extern zx_status_t _zx_pci_init('',
    ''    ZX_SYSCALL_PARAM_ATTR(handle_use) zx_handle_t handle,'',
    ''    const zx_pci_init_arg_t* init_buf,'',
    ''    uint32_t len) __LEAF_FN;'',
    '''',
    ''extern zx_status_t zx_pci_add_subtract_io_range('',
    ''    ZX_SYSCALL_PARAM_ATTR(handle_use) zx_handle_t handle,'',
    ''    bool mmio,'',
    ''    uint64_t base,'',
    ''    uint64_t len,'',
    ''    bool add) __LEAF_FN;'',
    '''',
    ''extern zx_status_t _zx_pci_add_subtract_io_range('',
    ''    ZX_SYSCALL_PARAM_ATTR(handle_use) zx_handle_t handle,'',
    ''    bool mmio,'',
    ''    uint64_t base,'',
    ''    uint64_t len,'',
    ''    bool add) __LEAF_FN;'',
    '''',
    ''extern zx_status_t zx_pc_firmware_tables('',
    ''    ZX_SYSCALL_PARAM_ATTR(handle_use) zx_handle_t handle,'',
    ''    zx_paddr_t* acpi_rsdp,'',
    ''    zx_paddr_t* smbios) __NONNULL((2, 3)) __LEAF_FN;'',
    '''',
    ''extern zx_status_t _zx_pc_firmware_tables('',
    ''    ZX_SYSCALL_PARAM_ATTR(handle_use) zx_handle_t handle,'',
    ''    zx_paddr_t* acpi_rsdp,'',
    ''    zx_paddr_t* smbios) __NONNULL((2, 3)) __LEAF_FN;'',
    '''']"

definition syscalls_13 :: "decl list" where
  "syscalls_13 = [
    \<lparr>ret = Val ''zx_status_t'', name = ''zx_pci_reset_device'',
     params = [\<lparr>tag = Some ''handle_use'', ptype = Val ''zx_handle_t'', pname = ''handle''\<rparr>],
     nonnull = [], attrs = [ATTR_LEAF_FN]\<rparr>,
    \<lparr>ret = Val ''zx_status_t'', name = ''_zx_pci_reset_device'',
     params = [\<lparr>tag = Some ''handle_use'', ptype = Val ''zx_handle_t'', pname = ''handle''\<rparr>],
     nonnull = [], attrs = [ATTR_LEAF_FN]\<rparr>,
    \<lparr>ret = Val ''zx_status_t'', name = ''zx_pci_config_read'',
     params = [\<lparr>tag = Some ''handle_use'', ptype = Val ''zx_handle_t'', pname = ''handle''\<rparr>,
       \<lparr>tag = None, ptype = Val ''uint16_t'', pname = ''offset''\<rparr>,
       \<lparr>tag = None, ptype = Val ''size_t'', pname = ''width''\<rparr>,
       \<lparr>tag = None, ptype = Ptr ''uint32_t'', pname = ''out_val''\<rparr>],
     nonnull = [], attrs = [ATTR_LEAF_FN]\<rparr>,
    \<lparr>ret = Val ''zx_status_t'', name = ''_zx_pci_config_read'',
     params = [\<lparr>tag = Some ''handle_use'', ptype = Val ''zx_handle_t'', pname = ''handle''\<rparr>,
       \<lparr>tag = None, ptype = Val ''uint16_t'', pname = ''offset''\<rparr>,
       \<lparr>tag = None, ptype = Val ''size_t'', pname = ''width''\<rparr>,
       \<lparr>tag = None, ptype = Ptr ''uint32_t'', pname = ''out_val''\<rparr>],
     nonnull = [], attrs = [ATTR_LEAF_FN]\<rparr>,
    \<lparr>ret = Val ''zx_status_t'', name = ''zx_pci_config_write'',
     params = [\<lparr>tag = Some ''handle_use'', ptype = Val ''zx_handle_t'', pname = ''handle''\<rparr>,
       \<lparr>tag = None, ptype = Val ''uint16_t'', pname = ''offset''\<rparr>,
       \<lparr>tag = None, ptype = Val ''size_t'', pname = ''width''\<rparr>,
       \<lparr>tag = None, ptype = Val ''uint32_t'', pname = ''val''\<rparr>],
     nonnull = [], attrs = [ATTR_LEAF_FN]\<rparr>,
    \<lparr>ret = Val ''zx_status_t'', name = ''_zx_pci_config_write'',
     params = [\<lparr>tag = Some ''handle_use'', ptype = Val ''zx_handle_t'', pname = ''handle''\<rparr>,
       \<lparr>tag = None, ptype = Val ''uint16_t'', pname = ''offset''\<rparr>,
       \<lparr>tag = None, ptype = Val ''size_t'', pname = ''width''\<rparr>,
       \<lparr>tag = None, ptype = Val ''uint32_t'', pname = ''val''\<rparr>],
     nonnull = [], attrs = [ATTR_LEAF_FN]\<rparr>,
    \<lparr>ret = Val ''zx_status_t'', name = ''zx_pci_cfg_pio_rw'',
     params = [\<lparr>tag = Some ''handle_use'', ptype = Val ''zx_handle_t'', pname = ''handle''\<rparr>,
       \<lparr>tag = None, ptype = Val ''uint8_t'', pname = ''bus''\<rparr>,
       \<lparr>tag = None, ptype = Val ''uint8_t'', pname = ''dev''\<rparr>,
       \<lparr>tag = None, ptype = Val ''uint8_t'', pname = ''func''\<rparr>,
       \<lparr>tag = None, ptype = Val ''uint8_t'', pname = ''offset''\<rparr>,
       \<lparr>tag = None, ptype = Ptr ''uint32_t'', pname = ''val''\<rparr>,
       \<lparr>tag = None, ptype = Val ''size_t'', pname = ''width''\<rparr>,
       \<lparr>tag = None, ptype = Val ''bool'', pname = ''write''\<rparr>],
     nonnull = [], attrs = [ATTR_LEAF_FN]\<rparr>,
    \<lparr>ret = Val ''zx_status_t'', name = ''_zx_pci_cfg_pio_rw'',
     params = [\<lparr>tag = Some ''handle_use'', ptype = Val ''zx_handle_t'', pname = ''handle''\<rparr>,
       \<lparr>tag = None, ptype = Val ''uint8_t'', pname = ''bus''\<rparr>,
       \<lparr>tag = None, ptype = Val ''uint8_t'', pname = ''dev''\<rparr>,
       \<lparr>tag = None, ptype = Val ''uint8_t'', pname = ''func''\<rparr>,
       \<lparr>tag = None, ptype = Val ''uint8_t'', pname = ''offset''\<rparr>,
       \<lparr>tag = None, ptype = Ptr ''uint32_t'', pname = ''val''\<rparr>,
       \<lparr>tag = None, ptype = Val ''size_t'', pname = ''width''\<rparr>,
       \<lparr>tag = None, ptype = Val ''bool'', pname = ''write''\<rparr>],
     nonnull = [], attrs = [ATTR_LEAF_FN]\<rparr>,
    \<lparr>ret = Val ''zx_status_t'', name = ''zx_pci_get_bar'',
     params = [\<lparr>tag = Some ''handle_use'', ptype = Val ''zx_handle_t'', pname = ''handle''\<rparr>,
       \<lparr>tag = None, ptype = Val ''uint32_t'', pname = ''bar_num''\<rparr>,
       \<lparr>tag = None, ptype = Ptr ''zx_pci_bar_t'', pname = ''out_bar''\<rparr>,
       \<lparr>tag = Some ''handle_acquire'', ptype = Ptr ''zx_handle_t'', pname = ''out_handle''\<rparr>],
     nonnull = [4], attrs = [ATTR_LEAF_FN]\<rparr>,
    \<lparr>ret = Val ''zx_status_t'', name = ''_zx_pci_get_bar'',
     params = [\<lparr>tag = Some ''handle_use'', ptype = Val ''zx_handle_t'', pname = ''handle''\<rparr>,
       \<lparr>tag = None, ptype = Val ''uint32_t'', pname = ''bar_num''\<rparr>,
       \<lparr>tag = None, ptype = Ptr ''zx_pci_bar_t'', pname = ''out_bar''\<rparr>,
       \<lparr>tag = Some ''handle_acquire'', ptype = Ptr ''zx_handle_t'', pname = ''out_handle''\<rparr>],
     nonnull = [4], attrs = [ATTR_LEAF_FN]\<rparr>,
    \<lparr>ret = Val ''zx_status_t'', name = ''zx_pci_map_interrupt'',
     params = [\<lparr>tag = Some ''handle_use'', ptype = Val ''zx_handle_t'', pname = ''handle''\<rparr>,
       \<lparr>tag = None, ptype = Val ''int32_t'', pname = ''which_irq''\<rparr>,
       \<lparr>tag = Some ''handle_acquire'', ptype = Ptr ''zx_handle_t'', pname = ''out_handle''\<rparr>],
     nonnull = [3], attrs = [ATTR_LEAF_FN]\<rparr>,
    \<lparr>ret = Val ''zx_status_t'', name = ''_zx_pci_map_interrupt'',
     params = [\<lparr>tag = Some ''handle_use'', ptype = Val ''zx_handle_t'', pname = ''handle''\<rparr>,
       \<lparr>tag = None, ptype = Val ''int32_t'', pname = ''which_irq''\<rparr>,
       \<lparr>tag = Some ''handle_acquire'', ptype = Ptr ''zx_handle_t'', pname = ''out_handle''\<rparr>],
     nonnull = [3], attrs = [ATTR_LEAF_FN]\<rparr>,
    \<lparr>ret = Val ''zx_status_t'', name = ''zx_pci_query_irq_mode'',
     params = [\<lparr>tag = Some ''handle_use'', ptype = Val ''zx_handle_t'', pname = ''handle''\<rparr>,
       \<lparr>tag = None, ptype = Val ''uint32_t'', pname = ''mode''\<rparr>,
       \<lparr>tag = None, ptype = Ptr ''uint32_t'', pname = ''out_max_irqs''\<rparr>],
     nonnull = [3], attrs = [ATTR_LEAF_FN]\<rparr>,
    \<lparr>ret = Val ''zx_status_t'', name = ''_zx_pci_query_irq_mode'',
     params = [\<lparr>tag = Some ''handle_use'', ptype = Val ''zx_handle_t'', pname = ''handle''\<rparr>,
       \<lparr>tag = None, ptype = Val ''uint32_t'', pname = ''mode''\<rparr>,
       \<lparr>tag = None, ptype = Ptr ''uint32_t'', pname = ''out_max_irqs''\<rparr>],
     nonnull = [3], attrs = [ATTR_LEAF_FN]\<rparr>,
    \<lparr>ret = Val ''zx_status_t'', name = ''zx_pci_set_irq_mode'',
     params = [\<lparr>tag = Some ''handle_use'', ptype = Val ''zx_handle_t'', pname = ''handle''\<rparr>,
       \<lparr>tag = None, ptype = Val ''uint32_t'', pname = ''mode''\<rparr>,
       \<lparr>tag = None, ptype = Val ''uint32_t'', pname = ''requested_irq_count''\<rparr>],
     nonnull = [], attrs = [ATTR_LEAF_FN]\<rparr>,
    \<lparr>ret = Val ''zx_status_t'', name = ''_zx_pci_set_irq_mode'',
     params = [\<lparr>tag = Some ''handle_use'', ptype = Val ''zx_handle_t'', pname = ''handle''\<rparr>,
       \<lparr>tag = None, ptype = Val ''uint32_t'', pname = ''mode''\<rparr>,
       \<lparr>tag = None, ptype = Val ''uint32_t'', pname = ''requested_irq_count''\<rparr>],
     nonnull = [], attrs = [ATTR_LEAF_FN]\<rparr>,
    \<lparr>ret = Val ''zx_status_t'', name = ''zx_pci_init'',
     params = [\<lparr>tag = Some ''handle_use'', ptype = Val ''zx_handle_t'', pname = ''handle''\<rparr>,
       \<lparr>tag = None, ptype = ConstPtr ''zx_pci_init_arg_t'', pname = ''init_buf''\<rparr>,
       \<lparr>tag = None, ptype = Val ''uint32_t'', pname = ''len''\<rparr>],
     nonnull = [], attrs = [ATTR_LEAF_FN]\<rparr>,
    \<lparr>ret = Val ''zx_status_t'', name = ''_zx_pci_init'',
     params = [\<lparr>tag = Some ''handle_use'', ptype = Val ''zx_handle_t'', pname = ''handle''\<rparr>,
       \<lparr>tag = None, ptype = ConstPtr ''zx_pci_init_arg_t'', pname = ''init_buf''\<rparr>,
       \<lparr>tag = None, ptype = Val ''uint32_t'', pname = ''len''\<rparr>],
     nonnull = [], attrs = [ATTR_LEAF_FN]\<rparr>,
    \<lparr>ret = Val ''zx_status_t'', name = ''zx_pci_add_subtract_io_range'',
     params = [\<lparr>tag = Some ''handle_use'', ptype = Val ''zx_handle_t'', pname = ''handle''\<rparr>,
       \<lparr>tag = None, ptype = Val ''bool'', pname = ''mmio''\<rparr>,
       \<lparr>tag = None, ptype = Val ''uint64_t'', pname = ''base''\<rparr>,
       \<lparr>tag = None, ptype = Val ''uint64_t'', pname = ''len''\<rparr>,
       \<lparr>tag = None, ptype = Val ''bool'', pname = ''add''\<rparr>],
     nonnull = [], attrs = [ATTR_LEAF_FN]\<rparr>,
    \<lparr>ret = Val ''zx_status_t'', name = ''_zx_pci_add_subtract_io_range'',
     params = [\<lparr>tag = Some ''handle_use'', ptype = Val ''zx_handle_t'', pname = ''handle''\<rparr>,
       \<lparr>tag = None, ptype = Val ''bool'', pname = ''mmio''\<rparr>,
       \<lparr>tag = None, ptype = Val ''uint64_t'', pname = ''base''\<rparr>,
       \<lparr>tag = None, ptype = Val ''uint64_t'', pname = ''len''\<rparr>,
       \<lparr>tag = None, ptype = Val ''bool'', pname = ''add''\<rparr>],
     nonnull = [], attrs = [ATTR_LEAF_FN]\<rparr>,
    \<lparr>ret = Val ''zx_status_t'', name = ''zx_pc_firmware_tables'',
     params = [\<lparr>tag = Some ''handle_use'', ptype = Val ''zx_handle_t'', pname = ''handle''\<rparr>,
       \<lparr>tag = None, ptype = Ptr ''zx_paddr_t'', pname = ''acpi_rsdp''\<rparr>,
       \<lparr>tag = None, ptype = Ptr ''zx_paddr_t'', pname = ''smbios''\<rparr>],
     nonnull = [2, 3], attrs = [ATTR_LEAF_FN]\<rparr>,
    \<lparr>ret = Val ''zx_status_t'', name = ''_zx_pc_firmware_tables'',
     params = [\<lparr>tag = Some ''handle_use'', ptype = Val ''zx_handle_t'', pname = ''handle''\<rparr>,
       \<lparr>tag = None, ptype = Ptr ''zx_paddr_t'', pname = ''acpi_rsdp''\<rparr>,
       \<lparr>tag = None, ptype = Ptr ''zx_paddr_t'', pname = ''smbios''\<rparr>],
     nonnull = [2, 3], attrs = [ATTR_LEAF_FN]\<rparr>]"

text \<open>Lines 1557 to 1684 of the header: \<^verbatim>\<open>zx_smc_call\<close> to \<^verbatim>\<open>_zx_system_mexec_payload_get\<close>.\<close>

definition header_lines_14 :: "string list" where
  "header_lines_14 = [
    ''extern zx_status_t zx_smc_call('',
    ''    ZX_SYSCALL_PARAM_ATTR(handle_use) zx_handle_t handle,'',
    ''    const zx_smc_parameters_t* parameters,'',
    ''    zx_smc_result_t* out_smc_result) __NONNULL((3)) __LEAF_FN;'',
    '''',
    ''extern zx_status_t _zx_smc_call('',
    ''    ZX_SYSCALL_PARAM_ATTR(handle_use) zx_handle_t handle,'',
    ''    const zx_smc_parameters_t* parameters,'',
    ''    zx_smc_result_t* out_smc_result) __NONNULL((3)) __LEAF_FN;'',
    '''',
    ''extern zx_status_t zx_resource_create('',
    ''    ZX_SYSCALL_PARAM_ATTR(handle_use) zx_handle_t parent_rsrc,'',
    ''    uint32_t options,'',
    ''    uint64_t base,'',
    ''    size_t size,'',
    ''    const char* name,'',
    ''    size_t name_size,'',
    ''    ZX_SYSCALL_PARAM_ATTR(handle_acquire) zx_handle_t* resource_out) __NONNULL((7)) __LEAF_FN;'',
    '''',
    ''extern zx_status_t _zx_resource_create('',
    ''    ZX_SYSCALL_PARAM_ATTR(handle_use) zx_handle_t parent_rsrc,'',
    ''    uint32_t options,'',
    ''    uint64_t base,'',
    ''    size_t size,'',
    ''    const char* name,'',
    ''    size_t name_size,'',
    ''    ZX_SYSCALL_PARAM_ATTR(handle_acquire) zx_handle_t* resource_out) __NONNULL((7)) __LEAF_FN;'',
    '''',
    ''extern zx_status_t zx_guest_create('',
    ''    ZX_SYSCALL_PARAM_ATTR(handle_use) zx_handle_t resource,'',
    ''    uint32_t options,'',
    ''    ZX_SYSCALL_PARAM_ATTR(handle_acquire) zx_handle_t* guest_handle,'',
    ''    ZX_SYSCALL_PARAM_ATTR(handle_acquire) zx_handle_t* vmar_handle) __NONNULL((3, 4)) __LEAF_FN;'',
    '''',
    ''extern zx_status_t _zx_guest_create('',
    ''    ZX_SYSCALL_PARAM_ATTR(handle_use) zx_handle_t resource,'',
    ''    uint32_t options,'',
    ''    ZX_SYSCALL_PARAM_ATTR(handle_acquire) zx_handle_t* guest_handle,'',
    ''    ZX_SYSCALL_PARAM_ATTR(handle_acquire) zx_handle_t* vmar_handle) __NONNULL((3, 4)) __LEAF_FN;'',
    '''',
    ''extern zx_status_t zx_guest_set_trap('',
    ''    ZX_SYSCALL_PARAM_ATTR(handle_use) zx_handle_t handle,'',
    ''    uint32_t kind,'',
    ''    zx_vaddr_t addr,'',
    ''    size_t size,'',
    ''    ZX_SYSCALL_PARAM_ATTR(handle_use) zx_handle_t port_handle,'',
    ''    uint64_t key) __LEAF_FN;'',
    '''',
    ''extern zx_status_t _zx_guest_set_trap('',
    ''    ZX_SYSCALL_PARAM_ATTR(handle_use) zx_handle_t handle,'',
    ''    uint32_t kind,'',
    ''    zx_vaddr_t addr,'',
    ''    size_t size,'',
    ''    ZX_SYSCALL_PARAM_ATTR(handle_use) zx_handle_t port_handle,'',
    ''    uint64_t key) __LEAF_FN;'',
    '''',
    ''extern zx_status_t zx_vcpu_create('',
    ''    ZX_SYSCALL_PARAM_ATTR(handle_use) zx_handle_t guest,'',
    ''    uint32_t options,'',
    ''    zx_vaddr_t entry,'',
    ''    ZX_SYSCALL_PARAM_ATTR(handle_acquire) zx_handle_t* out) __NONNULL((4)) __LEAF_FN;'',
    '''',
    ''extern zx_status_t _zx_vcpu_create('',
    ''    ZX_SYSCALL_PARAM_ATTR(handle_use) zx_handle_t guest,'',
    ''    uint32_t options,'',
    ''    zx_vaddr_t entry,'',
    ''    ZX_SYSCALL_PARAM_ATTR(handle_acquire) zx_handle_t* out) __NONNULL((4)) __LEAF_FN;'',
    '''',
    ''extern zx_status_t zx_vcpu_resume('',
    ''    ZX_SYSCALL_PARAM_ATTR(handle_use) zx_handle_t handle,'',
    ''    zx_port_packet_t* packet) __NONNULL((2)) __LEAF_FN;'',
    '''',
    ''extern zx_status_t _zx_vcpu_resume('',
    ''    ZX_SYSCALL_PARAM_ATTR(handle_use) zx_handle_t handle,'',
    ''    zx_port_packet_t* packet) __NONNULL((2)) __LEAF_FN;'',
    '''',
    ''extern zx_status_t zx_vcpu_interrupt('',
    ''    ZX_SYSCALL_PARAM_ATTR(handle_use) zx_handle_t handle,'',
    ''    uint32_t vector) __LEAF_FN;'',
    '''',
    ''extern zx_status_t _zx_vcpu_interrupt('',
    ''    ZX_SYSCALL_PARAM_ATTR(handle_use) zx_handle_t handle,'',
    ''    uint32_t vector) __LEAF_FN;'',
    '''',
    ''extern zx_status_t zx_vcpu_read_state('',
    ''    ZX_SYSCALL_PARAM_ATTR(handle_use) zx_handle_t handle,'',
    ''    uint32_t kind,'',
    ''    void* buffer,'',
    ''    size_t buffer_size) __LEAF_FN;'',
    '''',
    ''extern zx_status_t _zx_vcpu_read_state('',
    ''    ZX_SYSCALL_PARAM_ATTR(handle_use) zx_handle_t handle,'',
    ''    uint32_t kind,'',
    ''    void* buffer,'',
    ''    size_t buffer_size) __LEAF_FN;'',
    '''',
    ''extern zx_status_t zx_vcpu_write_state('',
    ''    ZX_SYSCALL_PARAM_ATTR(handle_use) zx_handle_t handle,'',
    ''    uint32_t kind,'',
    ''    const void* buffer,'',
    ''    size_t buffer_size) __LEAF_FN;'',
    '''',
    ''extern zx_status_t _zx_vcpu_write_state('',
    ''    ZX_SYSCALL_PARAM_ATTR(handle_use) zx_handle_t handle,'',
    ''    uint32_t kind,'',
    ''    const void* buffer,'',
    ''    size_t buffer_size) __LEAF_FN;'',
    '''',
    ''extern zx_status_t zx_system_mexec('',
    ''    ZX_SYSCALL_PARAM_ATTR(handle_use) zx_handle_t resource,'',
    ''    ZX_SYSCALL_PARAM_ATTR(handle_use) zx_handle_t kernel_vmo,'',
    ''    ZX_SYSCALL_PARAM_ATTR(handle_use) zx_handle_t bootimage_vmo) __LEAF_FN;'',
    '''',
    ''extern zx_status_t _zx_system_mexec('',
    ''    ZX_SYSCALL_PARAM_ATTR(handle_use) zx_handle_t resource,'',
    ''    ZX_SYSCALL_PARAM_ATTR(handle_use) zx_handle_t kernel_vmo,'',
    ''    ZX_SYSCALL_PARAM_ATTR(handle_use) zx_handle_t bootimage_vmo) __LEAF_FN;'',
    '''',
    ''extern zx_status_t zx_system_mexec_payload_get('',
    ''    ZX_SYSCALL_PARAM_ATTR(handle_use) zx_handle_t resource,'',
    ''    void* buffer,'',
    ''    size_t buffer_size) __LEAF_FN;'',
    '''',
    ''extern zx_status_t _zx_system_mexec_payload_get('',
    ''    ZX_SYSCALL_PARAM_ATTR(handle_use) zx_handle_t resource,'',
    ''    void* buffer,'',
    ''    size_t buffer_size) __LEAF_FN;'',
    '''']"

definition syscalls_14 :: "decl list" where
  "syscalls_14 = [
    \<lparr>ret = Val ''zx_status_t'', name = ''zx_smc_call'',
     params = [\<lparr>tag = Some ''handle_use'', ptype = Val ''zx_handle_t'', pname = ''handle''\<rparr>,
       \<lparr>tag = None, ptype = ConstPtr ''zx_smc_parameters_t'', pname = ''parameters''\<rparr>,
       \<lparr>tag = None, ptype = Ptr ''zx_smc_result_t'', pname = ''out_smc_result''\<rparr>],
     nonnull = [3], attrs = [ATTR_LEAF_FN]\<rparr>,
    \<lparr>ret = Val ''zx_status_t'', name = ''_zx_smc_call'',
     params = [\<lparr>tag = Some ''handle_use'', ptype = Val ''zx_handle_t'', pname = ''handle''\<rparr>,
       \<lparr>tag = None, ptype = ConstPtr ''zx_smc_parameters_t'', pname = ''parameters''\<rparr>,
       \<lparr>tag = None, ptype = Ptr ''zx_smc_result_t'', pname = ''out_smc_result''\<rparr>],
     nonnull = [3], attrs = [ATTR_LEAF_FN]\<rparr>,
    \<lparr>ret = Val ''zx_status_t'', name = ''zx_resource_create'',
     params = [\<lparr>tag = Some ''handle_use'', ptype = Val ''zx_handle_t'', pname = ''parent_rsrc''\<rparr>,
       \<lparr>tag = None, ptype = Val ''uint32_t'', pname = ''options''\<rparr>,
       \<lparr>tag = None, ptype = Val ''uint64_t'', pname = ''base''\<rparr>,
       \<lparr>tag = None, ptype = Val ''size_t'', pname = ''size''\<rparr>,
       \<lparr>tag = None, ptype = ConstPtr ''char'', pname = ''name''\<rparr>,
       \<lparr>tag = None, ptype = Val ''size_t'', pname = ''name_size''\<rparr>,
       \<lparr>tag = Some ''handle_acquire'', ptype = Ptr ''zx_handle_t'', pname = ''resource_out''\<rparr>],
     nonnull = [7], attrs = [ATTR_LEAF_FN]\<rparr>,
    \<lparr>ret = Val ''zx_status_t'', name = ''_zx_resource_create'',
     params = [\<lparr>tag = Some ''handle_use'', ptype = Val ''zx_handle_t'', pname = ''parent_rsrc''\<rparr>,
       \<lparr>tag = None, ptype = Val ''uint32_t'', pname = ''options''\<rparr>,
       \<lparr>tag = None, ptype = Val ''uint64_t'', pname = ''base''\<rparr>,
       \<lparr>tag = None, ptype = Val ''size_t'', pname = ''size''\<rparr>,
       \<lparr>tag = None, ptype = ConstPtr ''char'', pname = ''name''\<rparr>,
       \<lparr>tag = None, ptype = Val ''size_t'', pname = ''name_size''\<rparr>,
       \<lparr>tag = Some ''handle_acquire'', ptype = Ptr ''zx_handle_t'', pname = ''resource_out''\<rparr>],
     nonnull = [7], attrs = [ATTR_LEAF_FN]\<rparr>,
    \<lparr>ret = Val ''zx_status_t'', name = ''zx_guest_create'',
     params = [\<lparr>tag = Some ''handle_use'', ptype = Val ''zx_handle_t'', pname = ''resource''\<rparr>,
       \<lparr>tag = None, ptype = Val ''uint32_t'', pname = ''options''\<rparr>,
       \<lparr>tag = Some ''handle_acquire'', ptype = Ptr ''zx_handle_t'', pname = ''guest_handle''\<rparr>,
       \<lparr>tag = Some ''handle_acquire'', ptype = Ptr ''zx_handle_t'', pname = ''vmar_handle''\<rparr>],
     nonnull = [3, 4], attrs = [ATTR_LEAF_FN]\<rparr>,
    \<lparr>ret = Val ''zx_status_t'', name = ''_zx_guest_create'',
     params = [\<lparr>tag = Some ''handle_use'', ptype = Val ''zx_handle_t'', pname = ''resource''\<rparr>,
       \<lparr>tag = None, ptype = Val ''uint32_t'', pname = ''options''\<rparr>,
       \<lparr>tag = Some ''handle_acquire'', ptype = Ptr ''zx_handle_t'', pname = ''guest_handle''\<rparr>,
       \<lparr>tag = Some ''handle_acquire'', ptype = Ptr ''zx_handle_t'', pname = ''vmar_handle''\<rparr>],
     nonnull = [3, 4], attrs = [ATTR_LEAF_FN]\<rparr>,
    \<lparr>ret = Val ''zx_status_t'', name = ''zx_guest_set_trap'',
     params = [\<lparr>tag = Some ''handle_use'', ptype = Val ''zx_handle_t'', pname = ''handle''\<rparr>,
       \<lparr>tag = None, ptype = Val ''uint32_t'', pname = ''kind''\<rparr>,
       \<lparr>tag = None, ptype = Val ''zx_vaddr_t'', pname = ''addr''\<rparr>,
       \<lparr>tag = None, ptype = Val ''size_t'', pname = ''size''\<rparr>,
       \<lparr>tag = Some ''handle_use'', ptype = Val ''zx_handle_t'', pname = ''port_handle''\<rparr>,
       \<lparr>tag = None, ptype = Val ''uint64_t'', pname = ''key''\<rparr>],
     nonnull = [], attrs = [ATTR_LEAF_FN]\<rparr>,
    \<lparr>ret = Val ''zx_status_t'', name = ''_zx_guest_set_trap'',
     params = [\<lparr>tag = Some ''handle_use'', ptype = Val ''zx_handle_t'', pname = ''handle''\<rparr>,
       \<lparr>tag = None, ptype = Val ''uint32_t'', pname = ''kind''\<rparr>,
       \<lparr>tag = None, ptype = Val ''zx_vaddr_t'', pname = ''addr''\<rparr>,
       \<lparr>tag = None, ptype = Val ''size_t'', pname = ''size''\<rparr>,
       \<lparr>tag = Some ''handle_use'', ptype = Val ''zx_handle_t'', pname = ''port_handle''\<rparr>,
       \<lparr>tag = None, ptype = Val ''uint64_t'', pname = ''key''\<rparr>],
     nonnull = [], attrs = [ATTR_LEAF_FN]\<rparr>,
    \<lparr>ret = Val ''zx_status_t'', name = ''zx_vcpu_create'',
     params = [\<lparr>tag = Some ''handle_use'', ptype = Val ''zx_handle_t'', pname = ''guest''\<rparr>,
       \<lparr>tag = None, ptype = Val ''uint32_t'', pname = ''options''\<rparr>,
       \<lparr>tag = None, ptype = Val ''zx_vaddr_t'', pname = ''entry''\<rparr>,
       \<lparr>tag = Some ''handle_acquire'', ptype = Ptr ''zx_handle_t'', pname = ''out''\<rparr>],
     nonnull = [4], attrs = [ATTR_LEAF_FN]\<rparr>,
    \<lparr>ret = Val ''zx_status_t'', name = ''_zx_vcpu_create'',
     params = [\<lparr>tag = Some ''handle_use'', ptype = Val ''zx_handle_t'', pname = ''guest''\<rparr>,
       \<lparr>tag = None, ptype = Val ''uint32_t'', pname = ''options''\<rparr>,
       \<lparr>tag = None, ptype = Val ''zx_vaddr_t'', pname = ''entry''\<rparr>,
       \<lparr>tag = Some ''handle_acquire'', ptype = Ptr ''zx_handle_t'', pname = ''out''\<rparr>],
     nonnull = [4], attrs = [ATTR_LEAF_FN]\<rparr>,
    \<lparr>ret = Val ''zx_status_t'', name = ''zx_vcpu_resume'',
     params = [\<lparr>tag = Some ''handle_use'', ptype = Val ''zx_handle_t'', pname = ''handle''\<rparr>,
       \<lparr>tag = None, ptype = Ptr ''zx_port_packet_t'', pname = ''packet''\<rparr>],
     nonnull = [2], attrs = [ATTR_LEAF_FN]\<rparr>,
    \<lparr>ret = Val ''zx_status_t'', name = ''_zx_vcpu_resume'',
     params = [\<lparr>tag = Some ''handle_use'', ptype = Val ''zx_handle_t'', pname = ''handle''\<rparr>,
       \<lparr>tag = None, ptype = Ptr ''zx_port_packet_t'', pname = ''packet''\<rparr>],
     nonnull = [2], attrs = [ATTR_LEAF_FN]\<rparr>,
    \<lparr>ret = Val ''zx_status_t'', name = ''zx_vcpu_interrupt'',
     params = [\<lparr>tag = Some ''handle_use'', ptype = Val ''zx_handle_t'', pname = ''handle''\<rparr>,
       \<lparr>tag = None, ptype = Val ''uint32_t'', pname = ''vector''\<rparr>],
     nonnull = [], attrs = [ATTR_LEAF_FN]\<rparr>,
    \<lparr>ret = Val ''zx_status_t'', name = ''_zx_vcpu_interrupt'',
     params = [\<lparr>tag = Some ''handle_use'', ptype = Val ''zx_handle_t'', pname = ''handle''\<rparr>,
       \<lparr>tag = None, ptype = Val ''uint32_t'', pname = ''vector''\<rparr>],
     nonnull = [], attrs = [ATTR_LEAF_FN]\<rparr>,
    \<lparr>ret = Val ''zx_status_t'', name = ''zx_vcpu_read_state'',
     params = [\<lparr>tag = Some ''handle_use'', ptype = Val ''zx_handle_t'', pname = ''handle''\<rparr>,
       \<lparr>tag = None, ptype = Val ''uint32_t'', pname = ''kind''\<rparr>,
       \<lparr>tag = None, ptype = Ptr ''void'', pname = ''buffer''\<rparr>,
       \<lparr>tag = None, ptype = Val ''size_t'', pname = ''buffer_size''\<rparr>],
     nonnull = [], attrs = [ATTR_LEAF_FN]\<rparr>,
    \<lparr>ret = Val ''zx_status_t'', name = ''_zx_vcpu_read_state'',
     params = [\<lparr>tag = Some ''handle_use'', ptype = Val ''zx_handle_t'', pname = ''handle''\<rparr>,
       \<lparr>tag = None, ptype = Val ''uint32_t'', pname = ''kind''\<rparr>,
       \<lparr>tag = None, ptype = Ptr ''void'', pname = ''buffer''\<rparr>,
       \<lparr>tag = None, ptype = Val ''size_t'', pname = ''buffer_size''\<rparr>],
     nonnull = [], attrs = [ATTR_LEAF_FN]\<rparr>,
    \<lparr>ret = Val ''zx_status_t'', name = ''zx_vcpu_write_state'',
     params = [\<lparr>tag = Some ''handle_use'', ptype = Val ''zx_handle_t'', pname = ''handle''\<rparr>,
       \<lparr>tag = None, ptype = Val ''uint32_t'', pname = ''kind''\<rparr>,
       \<lparr>tag = None, ptype = ConstPtr ''void'', pname = ''buffer''\<rparr>,
       \<lparr>tag = None, ptype = Val ''size_t'', pname = ''buffer_size''\<rparr>],
     nonnull = [], attrs = [ATTR_LEAF_FN]\<rparr>,
    \<lparr>ret = Val ''zx_status_t'', name = ''_zx_vcpu_write_state'',
     params = [\<lparr>tag = Some ''handle_use'', ptype = Val ''zx_handle_t'', pname = ''handle''\<rparr>,
       \<lparr>tag = None, ptype = Val ''uint32_t'', pname = ''kind''\<rparr>,
       \<lparr>tag = None, ptype = ConstPtr ''void'', pname = ''buffer''\<rparr>,
       \<lparr>tag = None, ptype = Val ''size_t'', pname = ''buffer_size''\<rparr>],
     nonnull = [], attrs = [ATTR_LEAF_FN]\<rparr>,
    \<lparr>ret = Val ''zx_status_t'', name = ''zx_system_mexec'',
     params = [\<lparr>tag = Some ''handle_use'', ptype = Val ''zx_handle_t'', pname = ''resource''\<rparr>,
       \<lparr>tag = Some ''handle_use'', ptype = Val ''zx_handle_t'', pname = ''kernel_vmo''\<rparr>,
       \<lparr>tag = Some ''handle_use'', ptype = Val ''zx_handle_t'', pname = ''bootimage_vmo''\<rparr>],
     nonnull = [], attrs = [ATTR_LEAF_FN]\<rparr>,
    \<lparr>ret = Val ''zx_status_t'', name = ''_zx_system_mexec'',
     params = [\<lparr>tag = Some ''handle_use'', ptype = Val ''zx_handle_t'', pname = ''resource''\<rparr>,
       \<lparr>tag = Some ''handle_use'', ptype = Val ''zx_handle_t'', pname = ''kernel_vmo''\<rparr>,
       \<lparr>tag = Some ''handle_use'', ptype = Val ''zx_handle_t'', pname = ''bootimage_vmo''\<rparr>],
     nonnull = [], attrs = [ATTR_LEAF_FN]\<rparr>,
    \<lparr>ret = Val ''zx_status_t'', name = ''zx_system_mexec_payload_get'',
     params = [\<lparr>tag = Some ''handle_use'', ptype = Val ''zx_handle_t'', pname = ''resource''\<rparr>,
       \<lparr>tag = None, ptype = Ptr ''void'', pname = ''buffer''\<rparr>,
       \<lparr>tag = None, ptype = Val ''size_t'', pname = ''buffer_size''\<rparr>],
     nonnull = [], attrs = [ATTR_LEAF_FN]\<rparr>,
    \<lparr>ret = Val ''zx_status_t'', name = ''_zx_system_mexec_payload_get'',
     params = [\<lparr>tag = Some ''handle_use'', ptype = Val ''zx_handle_t'', pname = ''resource''\<rparr>,
       \<lparr>tag = None, ptype = Ptr ''void'', pname = ''buffer''\<rparr>,
       \<lparr>tag = None, ptype = Val ''size_t'', pname = ''buffer_size''\<rparr>],
     nonnull = [], attrs = [ATTR_LEAF_FN]\<rparr>]"

text \<open>Lines 1685 to 1808 of the header: \<^verbatim>\<open>zx_system_powerctl\<close> to \<^verbatim>\<open>_zx_syscall_test_7\<close>.\<close>

definition header_lines_15 :: "string list" where
  "header_lines_15 = [
    ''extern zx_status_t zx_system_powerctl('',
    ''    ZX_SYSCALL_PARAM_ATTR(handle_use) zx_handle_t resource,'',
    ''    uint32_t cmd,'',
    ''    const zx_system_powerctl_arg_t* arg) __LEAF_FN;'',
    '''',
    ''extern zx_status_t _zx_system_powerctl('',
    ''    ZX_SYSCALL_PARAM_ATTR(handle_use) zx_handle_t resource,'',
    ''    uint32_t cmd,'',
    ''    const zx_system_powerctl_arg_t* arg) __LEAF_FN;'',
    '''',
    ''extern zx_status_t zx_pager_create('',
    ''    uint32_t options,'',
    ''    ZX_SYSCALL_PARAM_ATTR(pager) zx_handle_t* out_pager) __NONNULL((2)) __LEAF_FN;'',
    '''',
    ''extern zx_status_t _zx_pager_create('',
    ''    uint32_t options,'',
    ''    ZX_SYSCALL_PARAM_ATTR(pager) zx_handle_t* out_pager) __NONNULL((2)) __LEAF_FN;'',
    '''',
    ''extern zx_status_t zx_pager_create_vmo('',
    ''    ZX_SYSCALL_PARAM_ATTR(handle_use) zx_handle_t pager,'',
    ''    ZX_SYSCALL_PARAM_ATTR(handle_use) zx_handle_t port,'',
    ''    uint64_t key,'',
    ''    uint64_t size,'',
    ''    uint32_t options,'',
    ''    ZX_SYSCALL_PARAM_ATTR(out_pager_vmo) zx_handle_t* out_pager_vmo) __NONNULL((6)) __LEAF_FN;'',
    '''',
    ''extern zx_status_t _zx_pager_create_vmo('',
    ''    ZX_SYSCALL_PARAM_ATTR(handle_use) zx_handle_t pager,'',
    ''    ZX_SYSCALL_PARAM_ATTR(handle_use) zx_handle_t port,'',
    ''    uint64_t key,'',
    ''    uint64_t size,'',
    ''    uint32_t options,'',
    ''    ZX_SYSCALL_PARAM_ATTR(out_pager_vmo) zx_handle_t* out_pager_vmo) __NONNULL((6)) __LEAF_FN;'',
    '''',
    ''extern zx_status_t zx_syscall_test_0('',
    ''    void) __LEAF_FN;'',
    '''',
    ''extern zx_status_t _zx_syscall_test_0('',
    ''    void) __LEAF_FN;'',
    '''',
    ''extern zx_status_t zx_syscall_test_1('',
    ''    int a) __LEAF_FN;'',
    '''',
    ''extern zx_status_t _zx_syscall_test_1('',
    ''    int a) __LEAF_FN;'',
    '''',
    ''extern zx_status_t zx_syscall_test_2('',
    ''    int a,'',
    ''    int b) __LEAF_FN;'',
    '''',
    ''extern zx_status_t _zx_syscall_test_2('',
    ''    int a,'',
    ''    int b) __LEAF_FN;'',
    '''',
    ''extern zx_status_t zx_syscall_test_3('',
    ''    int a,'',
    ''    int b,'',
    ''    int c) __LEAF_FN;'',
    '''',
    ''extern zx_status_t _zx_syscall_test_3('',
    ''    int a,'',
    ''    int b,'',
    ''    int c) __LEAF_FN;'',
    '''',
    ''extern zx_status_t zx_syscall_test_4('',
    ''    int a,'',
    ''    int b,'',
    ''    int c,'',
    ''    int d) __LEAF_FN;'',
    '''',
    ''extern zx_status_t _zx_syscall_test_4('',
    ''    int a,'',
    ''    int b,'',
    ''    int c,'',
    ''    int d) __LEAF_FN;'',
    '''',
    ''extern zx_status_t zx_syscall_test_5('',
    ''    int a,'',
    ''    int b,'',
    ''    int c,'',
    ''    int d,'',
    ''    int e) __LEAF_FN;'',
    '''',
    ''extern zx_status_t _zx_syscall_test_5('',
    ''    int a,'',
    ''    int b,'',
    ''    int c,'',
    ''    int d,'',
    ''    int e) __LEAF_FN;'',
    '''',
    ''extern zx_status_t zx_syscall_test_6('',
    ''    int a,'',
    ''    int b,'',
    ''    int c,'',
    ''    int d,'',
    ''    int e,'',
    ''    int f) __LEAF_FN;'',
    '''',
    ''extern zx_status_t _zx_syscall_test_6('',
    ''    int a,'',
    ''    int b,'',
    ''    int c,'',
    ''    int d,'',
    ''    int e,'',
    ''    int f) __LEAF_FN;'',
    '''',
    ''extern zx_status_t zx_syscall_test_7('',
    ''    int a,'',
    ''    int b,'',
    ''    int c,'',
    ''    int d,'',
    ''    int e,'',
    ''    int f,'',
    ''    int g) __LEAF_FN;'',
    '''',
    ''extern zx_status_t _zx_syscall_test_7('',
    ''    int a,'',
    ''    int b,'',
    ''    int c,'',
    ''    int d,'',
    ''    int e,'',
    ''    int f,'',
    ''    int g) __LEAF_FN;'',
    '''']"

definition syscalls_15 :: "decl list" where
  "syscalls_15 = [
    \<lparr>ret = Val ''zx_status_t'', name = ''zx_system_powerctl'',
     params = [\<lparr>tag = Some ''handle_use'', ptype = Val ''zx_handle_t'', pname = ''resource''\<rparr>,
       \<lparr>tag = None, ptype = Val ''uint32_t'', pname = ''cmd''\<rparr>,
       \<lparr>tag = None, ptype = ConstPtr ''zx_system_powerctl_arg_t'', pname = ''arg''\<rparr>],
     nonnull = [], attrs = [ATTR_LEAF_FN]\<rparr>,
    \<lparr>ret = Val ''zx_status_t'', name = ''_zx_system_powerctl'',
     params = [\<lparr>tag = Some ''handle_use'', ptype = Val ''zx_handle_t'', pname = ''resource''\<rparr>,
       \<lparr>tag = None, ptype = Val ''uint32_t'', pname = ''cmd''\<rparr>,
       \<lparr>tag = None, ptype = ConstPtr ''zx_system_powerctl_arg_t'', pname = ''arg''\<rparr>],
     nonnull = [], attrs = [ATTR_LEAF_FN]\<rparr>,
    \<lparr>ret = Val ''zx_status_t'', name = ''zx_pager_create'',
     params = [\<lparr>tag = None, ptype = Val ''uint32_t'', pname = ''options''\<rparr>,
       \<lparr>tag = Some ''pager'', ptype = Ptr ''zx_handle_t'', pname = ''out_pager''\<rparr>],
     nonnull = [2], attrs = [ATTR_LEAF_FN]\<rparr>,
    \<lparr>ret = Val ''zx_status_t'', name = ''_zx_pager_create'',
     params = [\<lparr>tag = None, ptype = Val ''uint32_t'', pname = ''options''\<rparr>,
       \<lparr>tag = Some ''pager'', ptype = Ptr ''zx_handle_t'', pname = ''out_pager''\<rparr>],
     nonnull = [2], attrs = [ATTR_LEAF_FN]\<rparr>,
    \<lparr>ret = Val ''zx_status_t'', name = ''zx_pager_create_vmo'',
     params = [\<lparr>tag = Some ''handle_use'', ptype = Val ''zx_handle_t'', pname = ''pager''\<rparr>,
       \<lparr>tag = Some ''handle_use'', ptype = Val ''zx_handle_t'', pname = ''port''\<rparr>,
       \<lparr>tag = None, ptype = Val ''uint64_t'', pname = ''key''\<rparr>,
       \<lparr>tag = None, ptype = Val ''uint64_t'', pname = ''size''\<rparr>,
       \<lparr>tag = None, ptype = Val ''uint32_t'', pname = ''options''\<rparr>,
       \<lparr>tag = Some ''out_pager_vmo'', ptype = Ptr ''zx_handle_t'', pname = ''out_pager_vmo''\<rparr>],
     nonnull = [6], attrs = [ATTR_LEAF_FN]\<rparr>,
    \<lparr>ret = Val ''zx_status_t'', name = ''_zx_pager_create_vmo'',
     params = [\<lparr>tag = Some ''handle_use'', ptype = Val ''zx_handle_t'', pname = ''pager''\<rparr>,
       \<lparr>tag = Some ''handle_use'', ptype = Val ''zx_handle_t'', pname = ''port''\<rparr>,
       \<lparr>tag = None, ptype = Val ''uint64_t'', pname = ''key''\<rparr>,
       \<lparr>tag = None, ptype = Val ''uint64_t'', pname = ''size''\<rparr>,
       \<lparr>tag = None, ptype = Val ''uint32_t'', pname = ''options''\<rparr>,
       \<lparr>tag = Some ''out_pager_vmo'', ptype = Ptr ''zx_handle_t'', pname = ''out_pager_vmo''\<rparr>],
     nonnull = [6], attrs = [ATTR_LEAF_FN]\<rparr>,
    \<lparr>ret = Val ''zx_status_t'', name = ''zx_syscall_test_0'',
     params = [],
     nonnull = [], attrs = [ATTR_LEAF_FN]\<rparr>,
    \<lparr>ret = Val ''zx_status_t'', name = ''_zx_syscall_test_0'',
     params = [],
     nonnull = [], attrs = [ATTR_LEAF_FN]\<rparr>,
    \<lparr>ret = Val ''zx_status_t'', name = ''zx_syscall_test_1'',
     params = [\<lparr>tag = None, ptype = Val ''int'', pname = ''a''\<rparr>],
     nonnull = [], attrs = [ATTR_LEAF_FN]\<rparr>,
    \<lparr>ret = Val ''zx_status_t'', name = ''_zx_syscall_test_1'',
     params = [\<lparr>tag = None, ptype = Val ''int'', pname = ''a''\<rparr>],
     nonnull = [], attrs = [ATTR_LEAF_FN]\<rparr>,
    \<lparr>ret = Val ''zx_status_t'', name = ''zx_syscall_test_2'',
     params = [\<lparr>tag = None, ptype = Val ''int'', pname = ''a''\<rparr>,
       \<lparr>tag = None, ptype = Val ''int'', pname = ''b''\<rparr>],
     nonnull = [], attrs = [ATTR_LEAF_FN]\<rparr>,
    \<lparr>ret = Val ''zx_status_t'', name = ''_zx_syscall_test_2'',
     params = [\<lparr>tag = None, ptype = Val ''int'', pname = ''a''\<rparr>,
       \<lparr>tag = None, ptype = Val ''int'', pname = ''b''\<rparr>],
     nonnull = [], attrs = [ATTR_LEAF_FN]\<rparr>,
    \<lparr>ret = Val ''zx_status_t'', name = ''zx_syscall_test_3'',
     params = [\<lparr>tag = None, ptype = Val ''int'', pname = ''a''\<rparr>,
       \<lparr>tag = None, ptype = Val ''int'', pname = ''b''\<rparr>,
       \<lparr>tag = None, ptype = Val ''int'', pname = ''c''\<rparr>],
     nonnull = [], attrs = [ATTR_LEAF_FN]\<rparr>,
    \<lparr>ret = Val ''zx_status_t'', name = ''_zx_syscall_test_3'',
     params = [\<lparr>tag = None, ptype = Val ''int'', pname = ''a''\<rparr>,
       \<lparr>tag = None, ptype = Val ''int'', pname = ''b''\<rparr>,
       \<lparr>tag = None, ptype = Val ''int'', pname = ''c''\<rparr>],
     nonnull = [], attrs = [ATTR_LEAF_FN]\<rparr>,
    \<lparr>ret = Val ''zx_status_t'', name = ''zx_syscall_test_4'',
     params = [\<lparr>tag = None, ptype = Val ''int'', pname = ''a''\<rparr>,
       \<lparr>tag = None, ptype = Val ''int'', pname = ''b''\<rparr>,
       \<lparr>tag = None, ptype = Val ''int'', pname = ''c''\<rparr>,
       \<lparr>tag = None, ptype = Val ''int'', pname = ''d''\<rparr>],
     nonnull = [], attrs = [ATTR_LEAF_FN]\<rparr>,
    \<lparr>ret = Val ''zx_status_t'', name = ''_zx_syscall_test_4'',
     params = [\<lparr>tag = None, ptype = Val ''int'', pname = ''a''\<rparr>,
       \<lparr>tag = None, ptype = Val ''int'', pname = ''b''\<rparr>,
       \<lparr>tag = None, ptype = Val ''int'', pname = ''c''\<rparr>,
       \<lparr>tag = None, ptype = Val ''int'', pname = ''d''\<rparr>],
     nonnull = [], attrs = [ATTR_LEAF_FN]\<rparr>,
    \<lparr>ret = Val ''zx_status_t'', name = ''zx_syscall_test_5'',
     params = [\<lparr>tag = None, ptype = Val ''int'', pname = ''a''\<rparr>,
       \<lparr>tag = None, ptype = Val ''int'', pname = ''b''\<rparr>,
       \<lparr>tag = None, ptype = Val ''int'', pname = ''c''\<rparr>,
       \<lparr>tag = None, ptype = Val ''int'', pname = ''d''\<rparr>,
       \<lparr>tag = None, ptype = Val ''int'', pname = ''e''\<rparr>],
     nonnull = [], attrs = [ATTR_LEAF_FN]\<rparr>,
    \<lparr>ret = Val ''zx_status_t'', name = ''_zx_syscall_test_5'',
     params = [\<lparr>tag = None, ptype = Val ''int'', pname = ''a''\<rparr>,
       \<lparr>tag = None, ptype = Val ''int'', pname = ''b''\<rparr>,
       \<lparr>tag = None, ptype = Val ''int'', pname = ''c''\<rparr>,
       \<lparr>tag = None, ptype = Val ''int'', pname = ''d''\<rparr>,
       \<lparr>tag = None, ptype = Val ''int'', pname = ''e''\<rparr>],
     nonnull = [], attrs = [ATTR_LEAF_FN]\<rparr>,
    \<lparr>ret = Val ''zx_status_t'', name = ''zx_syscall_test_6'',
     params = [\<lparr>tag = None, ptype = Val ''int'', pname = ''a''\<rparr>,
       \<lparr>tag = None, ptype = Val ''int'', pname = ''b''\<rparr>,
       \<lparr>tag = None, ptype = Val ''int'', pname = ''c''\<rparr>,
       \<lparr>tag = None, ptype = Val ''int'', pname = ''d''\<rparr>,
       \<lparr>tag = None, ptype = Val ''int'', pname = ''e''\<rparr>,
       \<lparr>tag = None, ptype = Val ''int'', pname = ''f''\<rparr>],
     nonnull = [], attrs = [ATTR_LEAF_FN]\<rparr>,
    \<lparr>ret = Val ''zx_status_t'', name = ''_zx_syscall_test_6'',
     params = [\<lparr>tag = None, ptype = Val ''int'', pname = ''a''\<rparr>,
       \<lparr>tag = None, ptype = Val ''int'', pname = ''b''\<rparr>,
       \<lparr>tag = None, ptype = Val ''int'', pname = ''c''\<rparr>,
       \<lparr>tag = None, ptype = Val ''int'', pname = ''d''\<rparr>,
       \<lparr>tag = None, ptype = Val ''int'', pname = ''e''\<rparr>,
       \<lparr>tag = None, ptype = Val ''int'', pname = ''f''\<rparr>],
     nonnull = [], attrs = [ATTR_LEAF_FN]\<rparr>,
    \<lparr>ret = Val ''zx_status_t'', name = ''zx_syscall_test_7'',
     params = [\<lparr>tag = None, ptype = Val ''int'', pname = ''a''\<rparr>,
       \<lparr>tag = None, ptype = Val ''int'', pname = ''b''\<rparr>,
       \<lparr>tag = None, ptype = Val ''int'', pname = ''c''\<rparr>,
       \<lparr>tag = None, ptype = Val ''int'', pname = ''d''\<rparr>,
       \<lparr>tag = None, ptype = Val ''int'', pname = ''e''\<rparr>,
       \<lparr>tag = None, ptype = Val ''int'', pname = ''f''\<rparr>,
       \<lparr>tag = None, ptype = Val ''int'', pname = ''g''\<rparr>],
     nonnull = [], attrs = [ATTR_LEAF_FN]\<rparr>,
    \<lparr>ret = Val ''zx_status_t'', name = ''_zx_syscall_test_7'',
     params = [\<lparr>tag = None, ptype = Val ''int'', pname = ''a''\<rparr>,
       \<lparr>tag = None, ptype = Val ''int'', pname = ''b''\<rparr>,
       \<lparr>tag = None, ptype = Val ''int'', pname = ''c''\<rparr>,
       \<lparr>tag = None, ptype = Val ''int'', pname = ''d''\<rparr>,
       \<lparr>tag = None, ptype = Val ''int'', pname = ''e''\<rparr>,
       \<lparr>tag = None, ptype = Val ''int'', pname = ''f''\<rparr>,
       \<lparr>tag = None, ptype = Val ''int'', pname = ''g''\<rparr>],
     nonnull = [], attrs = [ATTR_LEAF_FN]\<rparr>]"

text \<open>Lines 1809 to 1838 of the header: \<^verbatim>\<open>zx_syscall_test_8\<close> to \<^verbatim>\<open>_zx_syscall_test_wrapper\<close>.\<close>

definition header_lines_16 :: "string list" where
  "header_lines_16 = [
    ''extern zx_status_t zx_syscall_test_8('',
    ''    int a,'',
    ''    int b,'',
    ''    int c,'',
    ''    int d,'',
    ''    int e,'',
    ''    int f,'',
    ''    int g,'',
    ''    int h) __LEAF_FN;'',
    '''',
    ''extern zx_status_t _zx_syscall_test_8('',
    ''    int a,'',
    ''    int b,'',
    ''    int c,'',
    ''    int d,'',
    ''    int e,'',
    ''    int f,'',
    ''    int g,'',
    ''    int h) __LEAF_FN;'',
    '''',
    ''extern zx_status_t zx_syscall_test_wrapper('',
    ''    int a,'',
    ''    int b,'',
    ''    int c) __LEAF_FN;'',
    '''',
    ''extern zx_status_t _zx_syscall_test_wrapper('',
    ''    int a,'',
    ''    int b,'',
    ''    int c) __LEAF_FN;'',
    '''']"

definition syscalls_16 :: "decl list" where
  "syscalls_16 = [
    \<lparr>ret = Val ''zx_status_t'', name = ''zx_syscall_test_8'',
     params = [\<lparr>tag = None, ptype = Val ''int'', pname = ''a''\<rparr>,
       \<lparr>tag = None, ptype = Val ''int'', pname = ''b''\<rparr>,
       \<lparr>tag = None, ptype = Val ''int'', pname = ''c''\<rparr>,
       \<lparr>tag = None, ptype = Val ''int'', pname = ''d''\<rparr>,
       \<lparr>tag = None, ptype = Val ''int'', pname = ''e''\<rparr>,
       \<lparr>tag = None, ptype = Val ''int'', pname = ''f''\<rparr>,
       \<lparr>tag = None, ptype = Val ''int'', pname = ''g''\<rparr>,
       \<lparr>tag = None, ptype = Val ''int'', pname = ''h''\<rparr>],
     nonnull = [], attrs = [ATTR_LEAF_FN]\<rparr>,
    \<lparr>ret = Val ''zx_status_t'', name = ''_zx_syscall_test_8'',
     params = [\<lparr>tag = None, ptype = Val ''int'', pname = ''a''\<rparr>,
       \<lparr>tag = None, ptype = Val ''int'', pname = ''b''\<rparr>,
       \<lparr>tag = None, ptype = Val ''int'', pname = ''c''\<rparr>,
       \<lparr>tag = None, ptype = Val ''int'', pname = ''d''\<rparr>,
       \<lparr>tag = None, ptype = Val ''int'', pname = ''e''\<rparr>,
       \<lparr>tag = None, ptype = Val ''int'', pname = ''f''\<rparr>,
       \<lparr>tag = None, ptype = Val ''int'', pname = ''g''\<rparr>,
       \<lparr>tag = None, ptype = Val ''int'', pname = ''h''\<rparr>],
     nonnull = [], attrs = [ATTR_LEAF_FN]\<rparr>,
    \<lparr>ret = Val ''zx_status_t'', name = ''zx_syscall_test_wrapper'',
     params = [\<lparr>tag = None, ptype = Val ''int'', pname = ''a''\<rparr>,
       \<lparr>tag = None, ptype = Val ''int'', pname = ''b''\<rparr>,
       \<lparr>tag = None, ptype = Val ''int'', pname = ''c''\<rparr>],
     nonnull = [], attrs = [ATTR_LEAF_FN]\<rparr>,
    \<lparr>ret = Val ''zx_status_t'', name = ''_zx_syscall_test_wrapper'',
     params = [\<lparr>tag = None, ptype = Val ''int'', pname = ''a''\<rparr>,
       \<lparr>tag = None, ptype = Val ''int'', pname = ''b''\<rparr>,
       \<lparr>tag = None, ptype = Val ''int'', pname = ''c''\<rparr>],
     nonnull = [], attrs = [ATTR_LEAF_FN]\<rparr>]"

text \<open>Lines 1 to 3 of the header; line 4 is empty.\<close>

definition comment_lines :: "string list" where
  "comment_lines = [
    ''// Copyright 2018 The Fuchsia Authors. All rights reserved.'',
    ''// This is a GENERATED file, see //zircon/system/host/abigen.'',
    ''// The license governing this file can be found in the LICENSE file.'']"

text \<open>The whole header: the comment lines, an empty line, then the prototypes.\<close>

definition header_lines_parts :: "string list list" where
  "header_lines_parts =
     [header_lines_1, header_lines_2, header_lines_3, header_lines_4, header_lines_5,
      header_lines_6, header_lines_7, header_lines_8, header_lines_9, header_lines_10,
      header_lines_11, header_lines_12, header_lines_13, header_lines_14,
      header_lines_15, header_lines_16]"

definition header_lines :: "string list" where
  "header_lines = comment_lines @ [[]] @ concat header_lines_parts"

definition syscalls_parts :: "decl list list" where
  "syscalls_parts =
     [syscalls_1, syscalls_2, syscalls_3, syscalls_4, syscalls_5, syscalls_6,
      syscalls_7, syscalls_8, syscalls_9, syscalls_10, syscalls_11, syscalls_12,
      syscalls_13, syscalls_14, syscalls_15, syscalls_16]"

definition syscalls :: "decl list" where
  "syscalls = concat syscalls_parts"
subsection \<open>Printing a declaration table\<close>

fun render_ctype :: "ctype \<Rightarrow> string" where
  "render_ctype (Val b) = b"
| "render_ctype (Ptr b) = b @ ''*''"
| "render_ctype (ConstPtr b) = ''const '' @ b @ ''*''"

fun render_attr :: "fn_attr \<Rightarrow> string" where
  "render_attr ATTR_LEAF_FN = ''__LEAF_FN''"
| "render_attr ATTR_CONST = ''__CONST''"
| "render_attr ATTR_NO_RETURN = ''__NO_RETURN''"

definition render_tag :: "string option \<Rightarrow> string" where
  "render_tag t = (case t of None \<Rightarrow> [] | Some a \<Rightarrow> ''ZX_SYSCALL_PARAM_ATTR('' @ a @ '') '')"

definition render_param :: "param \<Rightarrow> string" where
  "render_param p = render_tag (tag p) @ render_ctype (ptype p) @ '' '' @ pname p"

definition digit :: "nat \<Rightarrow> char" where
  "digit n = char_of (48 + n)"

fun show_nat :: "nat \<Rightarrow> string" where
  "show_nat n = (if n < 10 then [digit n] else show_nat (n div 10) @ [digit (n mod 10)])"

fun commas :: "string list \<Rightarrow> string" where
  "commas [] = []"
| "commas [x] = x"
| "commas (x # y # xs) = x @ '', '' @ commas (y # xs)"

definition render_nonnull :: "nat list \<Rightarrow> string" where
  "render_nonnull ns =
     (if ns = [] then [] else '' __NONNULL(('' @ commas (map show_nat ns) @ ''))'')"

definition render_attrs :: "decl \<Rightarrow> string" where
  "render_attrs d =
     render_nonnull (nonnull d) @ concat (map (\<lambda>a. '' '' @ render_attr a) (attrs d))"

text \<open>One parameter per line; the last line closes the list and carries the attributes.\<close>

fun render_params :: "param list \<Rightarrow> string \<Rightarrow> string list" where
  "render_params [] e = [''    void'' @ e]"
| "render_params [p] e = [''    '' @ render_param p @ e]"
| "render_params (p # q # ps) e =
     (''    '' @ render_param p @ '','') # render_params (q # ps) e"

definition render_decl :: "decl \<Rightarrow> string list" where
  "render_decl d =
     (''extern '' @ render_ctype (ret d) @ '' '' @ name d @ ''('') #
     render_params (params d) ('')'' @ render_attrs d @ '';'')"

text \<open>Every declaration is followed by an empty line.\<close>

definition render_decls :: "decl list \<Rightarrow> string list" where
  "render_decls ds = concat (map (\<lambda>d. render_decl d @ ['''']) ds)"

definition render_header :: "decl list \<Rightarrow> string list" where
  "render_header ds = comment_lines @ [[]] @ render_decls ds"

subsection \<open>Reading the text\<close>

text \<open>
  The paragraphs of a text: the maximal runs of non-empty lines. \<open>acc\<close> holds the
  lines of the current paragraph, last line first.
\<close>

fun paragraphs_acc :: "string list \<Rightarrow> string list \<Rightarrow> string list list" where
  "paragraphs_acc acc [] = (if acc = [] then [] else [rev acc])"
| "paragraphs_acc acc (l # ls) =
     (if l \<noteq> [] then paragraphs_acc (l # acc) ls
      else if acc = [] then paragraphs_acc [] ls
      else rev acc # paragraphs_acc [] ls)"

definition paragraphs :: "string list \<Rightarrow> string list list" where
  "paragraphs ls = paragraphs_acc [] ls"

definition is_comment :: "string \<Rightarrow> bool" where
  "is_comment l = (take 2 l = ''//'')"

text \<open>
  A character that may occur inside a prototype: not a semicolon, not a brace, not an
  equals sign.
\<close>

definition plain_char :: "char \<Rightarrow> bool" where
  "plain_char c = (c \<noteq> CHR '';'' \<and> c \<noteq> CHR ''{'' \<and> c \<noteq> CHR ''}'' \<and> c \<noteq> CHR ''='')"

text \<open>
  \<open>ends_with e l\<close>: the line \<open>l\<close> ends with the character \<open>e\<close>, after plain
  characters only.
\<close>

fun ends_with :: "char \<Rightarrow> string \<Rightarrow> bool" where
  "ends_with e [] = False"
| "ends_with e [c] = (c = e)"
| "ends_with e (c # c' # cs) = (plain_char c \<and> ends_with e (c' # cs))"

text \<open>
  A paragraph that is one prototype and nothing more: its first line opens with
  \<^verbatim>\<open>extern\<close> and ends at the opening parenthesis, its last line ends with a
  semicolon, and before that semicolon it has no semicolon, no brace and no equals
  sign: one declaration, with no body and no initialiser.
\<close>

fun is_prototype :: "string list \<Rightarrow> bool" where
  "is_prototype [] = False"
| "is_prototype (l # ls) =
     (take 7 l = ''extern '' \<and> ends_with CHR ''('' l \<and> ls \<noteq> [] \<and>
      list_all (list_all plain_char) (butlast ls) \<and> ends_with CHR '';'' (last ls))"

subsection \<open>Vocabulary of the properties\<close>

text \<open>Public entry points are named \<^verbatim>\<open>zx_NAME\<close>, their private variants \<^verbatim>\<open>_zx_NAME\<close>.\<close>

definition is_public :: "decl \<Rightarrow> bool" where
  "is_public d = (take 3 (name d) = ''zx_'')"

definition private_name :: "string \<Rightarrow> string" where
  "private_name n = CHR ''_'' # n"

definition private_of :: "decl \<Rightarrow> decl" where
  "private_of d = d\<lparr>name := private_name (name d)\<rparr>"

text \<open>A table made of pairs: a public declaration, then the same declaration under its private name.\<close>

fun paired :: "decl list \<Rightarrow> bool" where
  "paired [] = True"
| "paired [d] = False"
| "paired (p # q # ds) = (is_public p \<and> q = private_of p \<and> paired ds)"

fun is_pointer :: "ctype \<Rightarrow> bool" where
  "is_pointer (Val b) = False"
| "is_pointer (Ptr b) = True"
| "is_pointer (ConstPtr b) = True"

text \<open>The \<^verbatim>\<open>ZX_SYSCALL_PARAM_ATTR\<close> tags of a declaration, in parameter order.\<close>

definition tags_of :: "decl \<Rightarrow> string list" where
  "tags_of d = concat (map (\<lambda>p. case tag p of None \<Rightarrow> [] | Some t \<Rightarrow> [t]) (params d))"

text \<open>The four handle-discipline tags that the specification names.\<close>

definition spec_param_tags :: "string list" where
  "spec_param_tags =
     [''handle_use'', ''handle_release_always'', ''handle_release'', ''handle_acquire'']"

text \<open>The return types that are raw values: times, tick counts and plain integers.\<close>

definition raw_value_types :: "ctype list" where
  "raw_value_types =
     [Val ''zx_time_t'', Val ''zx_ticks_t'', Val ''uint32_t'', Val ''uint64_t'']"

text \<open>The declarations that carry a parameter tag other than those four.\<close>

definition other_tag_decls :: "string list" where
  "other_tag_decls =
     [''zx_system_get_features'', ''_zx_system_get_features'',
      ''zx_pager_create'', ''_zx_pager_create'',
      ''zx_pager_create_vmo'', ''_zx_pager_create_vmo'']"

text \<open>
  The declarations with a parameter of type \<^verbatim>\<open>zx_handle_t*\<close> or
  \<^verbatim>\<open>const zx_handle_t*\<close> that is not tagged \<^verbatim>\<open>handle_acquire\<close>.
\<close>

definition other_handle_pointer_decls :: "string list" where
  "other_handle_pointer_decls =
     [''zx_handle_close_many'', ''_zx_handle_close_many'',
      ''zx_object_get_child'', ''_zx_object_get_child'',
      ''zx_channel_read'', ''_zx_channel_read'',
      ''zx_channel_write'', ''_zx_channel_write'',
      ''zx_interrupt_create'', ''_zx_interrupt_create'',
      ''zx_pager_create'', ''_zx_pager_create'',
      ''zx_pager_create_vmo'', ''_zx_pager_create_vmo'']"

text \<open>The declarations that return \<^verbatim>\<open>void\<close> and are not \<^verbatim>\<open>__NO_RETURN\<close>.\<close>

definition returning_void_decls :: "string list" where
  "returning_void_decls = [''zx_cprng_draw'', ''_zx_cprng_draw'']"

text \<open>The declarations that are \<^verbatim>\<open>__CONST\<close>.\<close>

definition const_decls :: "string list" where
  "const_decls =
     [''zx_ticks_per_second'', ''_zx_ticks_per_second'',
      ''zx_system_get_dcache_line_size'', ''_zx_system_get_dcache_line_size'',
      ''zx_system_get_num_cpus'', ''_zx_system_get_num_cpus'']"

text \<open>
  Distinctness of a list given in parts, checked part against part.
\<close>

definition disjoint_lists :: "'a list \<Rightarrow> 'a list \<Rightarrow> bool" where
  "disjoint_lists xs ys = list_all (\<lambda>x. list_all (\<lambda>y. x \<noteq> y) ys) xs"

fun distinct_parts :: "'a list list \<Rightarrow> bool" where
  "distinct_parts [] = True"
| "distinct_parts (c # cs) =
     (distinct c \<and> list_all (disjoint_lists c) cs \<and> distinct_parts cs)"

section \<open>The table is the text\<close>

lemma parts_rendering: "map render_decls syscalls_parts = header_lines_parts"
  by code_simp

lemma render_decls_append: "render_decls (ds @ es) = render_decls ds @ render_decls es"
  by (simp add: render_decls_def)

lemma render_decls_concat: "render_decls (concat dss) = concat (map render_decls dss)"
  by (induction dss) (simp_all add: render_decls_append, simp add: render_decls_def)

lemma header_is_rendering: "header_lines = render_header syscalls"
  by (simp only: header_lines_def render_header_def syscalls_def render_decls_concat
        parts_rendering)

subsection \<open>Paragraphs of a printed table\<close>

lemma render_params_nonempty: "render_params ps e \<noteq> [] \<and> [] \<notin> set (render_params ps e)"
  by (induction ps e rule: render_params.induct) simp_all

lemma render_decl_nonempty: "render_decl d \<noteq> [] \<and> [] \<notin> set (render_decl d)"
  using render_params_nonempty by (simp add: render_decl_def)

lemma paragraphs_acc_run:
  "[] \<notin> set ls \<Longrightarrow> paragraphs_acc acc (ls @ rest) = paragraphs_acc (rev ls @ acc) rest"
  by (induction ls arbitrary: acc) auto

lemma paragraphs_acc_paragraph:
  assumes "ls \<noteq> []" and "[] \<notin> set ls"
  shows "paragraphs_acc [] (ls @ [] # rest) = ls # paragraphs_acc [] rest"
proof -
  have "paragraphs_acc [] (ls @ [] # rest) = paragraphs_acc (rev ls) ([] # rest)"
    using assms(2) paragraphs_acc_run [of ls "[]" "[] # rest"] by simp
  also have "\<dots> = ls # paragraphs_acc [] rest"
    using assms(1) by simp
  finally show ?thesis .
qed

lemma paragraphs_acc_render_decls: "paragraphs_acc [] (render_decls ds) = map render_decl ds"
proof (induction ds)
  case Nil
  show ?case by (simp add: render_decls_def)
next
  case (Cons d ds)
  have "render_decls (d # ds) = render_decl d @ [] # render_decls ds"
    by (simp add: render_decls_def)
  with Cons render_decl_nonempty [of d] show ?case
    by (simp add: paragraphs_acc_paragraph)
qed

lemma paragraphs_render_header:
  "paragraphs (render_header ds) = comment_lines # map render_decl ds"
proof -
  have c: "comment_lines \<noteq> [] \<and> [] \<notin> set comment_lines"
    by (simp add: comment_lines_def)
  have "render_header ds = comment_lines @ [] # render_decls ds"
    by (simp add: render_header_def)
  with c show ?thesis
    by (simp add: paragraphs_def paragraphs_acc_paragraph paragraphs_acc_render_decls)
qed

section \<open>Facts about every declaration\<close>

text \<open>A property checked on every part of the table holds of every declaration.\<close>

lemma in_syscalls:
  assumes "list_all (list_all P) syscalls_parts" and "d \<in> set syscalls"
  shows "P d"
  using assms by (auto simp: syscalls_def list_all_iff)

lemma part_in_syscalls: "ds \<in> set syscalls_parts \<Longrightarrow> set ds \<subseteq> set syscalls"
  by (auto simp: syscalls_def)

subsection \<open>Pairs\<close>

lemma parts_paired: "list_all paired syscalls_parts"
  by code_simp

lemma paired_append: "paired ds \<Longrightarrow> paired (ds @ es) = paired es"
  by (induction ds rule: paired.induct) simp_all

lemma paired_concat: "list_all paired dss \<Longrightarrow> paired (concat dss)"
  by (induction dss) (simp_all add: paired_append)

lemma paired_syscalls: "paired syscalls"
  unfolding syscalls_def using parts_paired by (rule paired_concat)

lemma private_not_public: "\<not> is_public (private_of p)"
  by (simp add: is_public_def private_of_def private_name_def)

lemma paired_member:
  "paired ds \<Longrightarrow> e \<in> set ds \<Longrightarrow>
     (is_public e \<and> private_of e \<in> set ds) \<or>
     (\<exists>p \<in> set ds. is_public p \<and> e = private_of p)"
  by (induction ds rule: paired.induct) auto

lemma paired_nth:
  "paired ds \<Longrightarrow> i < length ds \<Longrightarrow>
     (even i \<longrightarrow> is_public (ds ! i) \<and> Suc i < length ds \<and> ds ! Suc i = private_of (ds ! i)) \<and>
     (odd i \<longrightarrow> is_public (ds ! (i - 1)) \<and> ds ! i = private_of (ds ! (i - 1)))"
proof (induction ds arbitrary: i rule: paired.induct)
  case 1
  then show ?case by simp
next
  case (2 d)
  then show ?case by simp
next
  case (3 p q ds)
  show ?case
  proof (cases i)
    case 0
    with 3 show ?thesis by simp
  next
    case (Suc j)
    show ?thesis
    proof (cases j)
      case 0
      with Suc 3 show ?thesis by simp
    next
      case (Suc k)
      with \<open>i = Suc j\<close> 3 have "k < length ds" and "paired ds" by simp_all
      moreover have "odd k \<Longrightarrow> (q # ds) ! k = ds ! (k - 1)"
        by (cases k) simp_all
      ultimately show ?thesis
        using "3.IH" [of k] Suc \<open>i = Suc j\<close> by simp
    qed
  qed
qed

subsection \<open>Names\<close>

lemma public_names_distinct_parts:
  "distinct_parts (map (\<lambda>ds. map name (filter is_public ds)) syscalls_parts)"
  by code_simp

lemma disjoint_lists_iff: "disjoint_lists xs ys \<longleftrightarrow> set xs \<inter> set ys = {}"
  by (auto simp: disjoint_lists_def list_all_iff)

lemma distinct_parts_concat: "distinct_parts cs \<Longrightarrow> distinct (concat cs)"
  by (induction cs) (auto simp: disjoint_lists_iff list_all_iff)

lemma public_names_distinct: "distinct (map name (filter is_public syscalls))"
proof -
  have "map name (filter is_public syscalls) =
        concat (map (\<lambda>ds. map name (filter is_public ds)) syscalls_parts)"
    by (simp add: syscalls_def filter_concat map_concat comp_def)
  with distinct_parts_concat [OF public_names_distinct_parts] show ?thesis by simp
qed

text \<open>The declaration named \<^verbatim>\<open>_zx_NAME\<close> is the private variant of the one named \<^verbatim>\<open>zx_NAME\<close>.\<close>

lemma private_variant_unique:
  assumes d: "d \<in> set syscalls" "is_public d"
    and e: "e \<in> set syscalls" "name e = private_name (name d)"
  shows "e = private_of d"
proof -
  have "\<not> is_public e"
    using e(2) by (simp add: is_public_def private_name_def)
  with paired_member [OF paired_syscalls e(1)]
  obtain p where p: "p \<in> set syscalls" "is_public p" "e = private_of p"
    by blast
  from p(3) e(2) have "name p = name d"
    by (simp add: private_of_def private_name_def)
  moreover have "inj_on name (set (filter is_public syscalls))"
    using public_names_distinct by (simp add: distinct_map)
  ultimately have "p = d"
    using p(1,2) d by (auto dest: inj_onD)
  with p(3) show ?thesis by simp
qed

lemma private_variant_declared:
  assumes "d \<in> set syscalls" "is_public d"
  shows "private_of d \<in> set syscalls"
  using paired_member [OF paired_syscalls assms(1)] assms(2) private_not_public by auto

section \<open>Properties of the header\<close>

subsection \<open>Public and private variants\<close>

text \<open>
  C1. Every public entry point \<^verbatim>\<open>zx_NAME\<close> of the header has a private entry point
  \<^verbatim>\<open>_zx_NAME\<close>, and whenever the header declares both, the private declaration has
  the return type, the parameters (with their tags), the \<^verbatim>\<open>__NONNULL\<close> indexes and
  the attributes of the public one; its text is the text of the public declaration
  with an underscore put before the name, and nothing else changed.
\<close>

theorem public_private_signatures:
  assumes "d \<in> set syscalls" and "is_public d"
  shows "(\<exists>e \<in> set syscalls. name e = private_name (name d)) \<and>
         (\<forall>e \<in> set syscalls. name e = private_name (name d) \<longrightarrow>
            ret e = ret d \<and> params e = params d \<and> nonnull e = nonnull d \<and>
            attrs e = attrs d \<and>
            render_decl e =
              (''extern '' @ render_ctype (ret d) @ '' '' @ private_name (name d) @ ''('') #
              tl (render_decl d))"
proof
  have "name (private_of d) = private_name (name d)"
    by (simp add: private_of_def)
  with private_variant_declared [OF assms]
  show "\<exists>e \<in> set syscalls. name e = private_name (name d)"
    by blast
next
  show "\<forall>e \<in> set syscalls. name e = private_name (name d) \<longrightarrow>
          ret e = ret d \<and> params e = params d \<and> nonnull e = nonnull d \<and>
          attrs e = attrs d \<and>
          render_decl e =
            (''extern '' @ render_ctype (ret d) @ '' '' @ private_name (name d) @ ''('') #
            tl (render_decl d)"
  proof (intro ballI impI)
    fix e
    assume "e \<in> set syscalls" and "name e = private_name (name d)"
    with assms have "e = private_of d"
      by (rule private_variant_unique)
    then show "ret e = ret d \<and> params e = params d \<and> nonnull e = nonnull d \<and>
          attrs e = attrs d \<and>
          render_decl e =
            (''extern '' @ render_ctype (ret d) @ '' '' @ private_name (name d) @ ''('') #
            tl (render_decl d)"
      by (simp add: private_of_def render_decl_def render_attrs_def)
  qed
qed

theorem public_private_signatures_witness:
  "syscalls_1 ! 2 \<in> set syscalls \<and> is_public (syscalls_1 ! 2) \<and>
   name (syscalls_1 ! 2) = ''zx_clock_get_new'' \<and>
   syscalls_1 ! 3 \<in> set syscalls \<and> name (syscalls_1 ! 3) = ''_zx_clock_get_new'' \<and>
   params (syscalls_1 ! 3) = params (syscalls_1 ! 2) \<and>
   render_decl (syscalls_1 ! 3) =
     [''extern zx_status_t _zx_clock_get_new('',
      ''    zx_clock_t clock_id,'',
      ''    zx_time_t* out) __NONNULL((2)) __LEAF_FN;'']"
proof -
  have part: "syscalls_1 \<in> set syscalls_parts"
    by (simp add: syscalls_parts_def)
  have "syscalls_1 ! 2 \<in> set syscalls_1" and "syscalls_1 ! 3 \<in> set syscalls_1"
    by code_simp+
  with part_in_syscalls [OF part]
  have d: "syscalls_1 ! 2 \<in> set syscalls" and e: "syscalls_1 ! 3 \<in> set syscalls"
    by blast+
  have pub: "is_public (syscalls_1 ! 2)"
    by code_simp
  have names: "name (syscalls_1 ! 2) = ''zx_clock_get_new''"
    "name (syscalls_1 ! 3) = ''_zx_clock_get_new''"
    by code_simp+
  then have n: "name (syscalls_1 ! 3) = private_name (name (syscalls_1 ! 2))"
    by (simp add: private_name_def)
  from public_private_signatures [OF d pub] e n
  have same: "params (syscalls_1 ! 3) = params (syscalls_1 ! 2)"
    by blast
  have printed: "render_decl (syscalls_1 ! 3) =
     [''extern zx_status_t _zx_clock_get_new'' @ ''('',
      ''    zx_clock_t clock_id,'',
      ''    zx_time_t* out) __NONNULL((2)) __LEAF_FN;'']"
    by code_simp
  from d e pub names same printed show ?thesis
    by simp
qed

text \<open>
  C4. Whenever the header declares \<^verbatim>\<open>zx_NAME\<close> and \<^verbatim>\<open>_zx_NAME\<close>, the two declarations
  have the same set of \<^verbatim>\<open>__NONNULL\<close> indexes, and each index designates the same
  parameter in both.
\<close>

theorem nonnull_same_in_both_variants:
  assumes "d \<in> set syscalls" and "is_public d"
    and "e \<in> set syscalls" and "name e = private_name (name d)"
  shows "set (nonnull e) = set (nonnull d) \<and>
         (\<forall>i \<in> set (nonnull d). params e ! (i - 1) = params d ! (i - 1))"
proof -
  from assms have "e = private_of d"
    by (rule private_variant_unique)
  then show ?thesis
    by (simp add: private_of_def)
qed

theorem nonnull_same_in_both_variants_witness:
  "syscalls_3 ! 16 \<in> set syscalls \<and> is_public (syscalls_3 ! 16) \<and>
   syscalls_3 ! 17 \<in> set syscalls \<and>
   name (syscalls_3 ! 16) = ''zx_channel_create'' \<and>
   name (syscalls_3 ! 17) = ''_zx_channel_create'' \<and>
   nonnull (syscalls_3 ! 16) = [2, 3] \<and>
   set (nonnull (syscalls_3 ! 17)) = set (nonnull (syscalls_3 ! 16))"
proof -
  have part: "syscalls_3 \<in> set syscalls_parts"
    by (simp add: syscalls_parts_def)
  have "syscalls_3 ! 16 \<in> set syscalls_3" and "syscalls_3 ! 17 \<in> set syscalls_3"
    by code_simp+
  with part_in_syscalls [OF part]
  have d: "syscalls_3 ! 16 \<in> set syscalls" and e: "syscalls_3 ! 17 \<in> set syscalls"
    by blast+
  have pub: "is_public (syscalls_3 ! 16)"
    by code_simp
  have names: "name (syscalls_3 ! 16) = ''zx_channel_create''"
    "name (syscalls_3 ! 17) = ''_zx_channel_create''"
    by code_simp+
  then have n: "name (syscalls_3 ! 17) = private_name (name (syscalls_3 ! 16))"
    by (simp add: private_name_def)
  have nn: "nonnull (syscalls_3 ! 16) = [2, 3]"
    by code_simp
  from nonnull_same_in_both_variants [OF d pub e n]
  have "set (nonnull (syscalls_3 ! 17)) = set (nonnull (syscalls_3 ! 16))"
    by blast
  with d e pub names nn show ?thesis
    by simp
qed

text \<open>
  C8. The declarations come in adjacent pairs: a public declaration is immediately
  followed by its private variant, and a declaration that is not public is the
  private variant of the public declaration immediately before it.
\<close>

theorem private_follows_public:
  assumes "i < length syscalls"
  shows "(is_public (syscalls ! i) \<longrightarrow>
            Suc i < length syscalls \<and> syscalls ! Suc i = private_of (syscalls ! i)) \<and>
         (\<not> is_public (syscalls ! i) \<longrightarrow>
            0 < i \<and> is_public (syscalls ! (i - 1)) \<and>
            syscalls ! i = private_of (syscalls ! (i - 1)))"
proof (cases "even i")
  case True
  with paired_nth [OF paired_syscalls assms] show ?thesis
    by simp
next
  case False
  with paired_nth [OF paired_syscalls assms]
  have "is_public (syscalls ! (i - 1))" and p: "syscalls ! i = private_of (syscalls ! (i - 1))"
    by simp_all
  moreover from p have "\<not> is_public (syscalls ! i)"
    by (simp add: private_not_public)
  moreover from False have "0 < i"
    by (cases i) simp_all
  ultimately show ?thesis
    by simp
qed

theorem private_follows_public_witness:
  "(0::nat) < length syscalls \<and> is_public (syscalls ! 0) \<and>
   name (syscalls ! 0) = ''zx_clock_get'' \<and> name (syscalls ! Suc 0) = ''_zx_clock_get'' \<and>
   syscalls ! Suc 0 = private_of (syscalls ! 0)"
proof -
  have len: "(0::nat) < length syscalls"
    by (simp add: syscalls_def syscalls_parts_def syscalls_1_def)
  have pub: "is_public (syscalls ! 0)"
    and names: "name (syscalls ! 0) = ''zx_clock_get''" "name (syscalls ! Suc 0) = ''_zx_clock_get''"
    by code_simp+
  from private_follows_public [OF len] pub
  have "syscalls ! Suc 0 = private_of (syscalls ! 0)"
    by blast
  with len pub names show ?thesis
    by simp
qed

subsection \<open>Parameter tags\<close>

text \<open>
  C2, as stated, fails: \<^verbatim>\<open>zx_system_get_features\<close> tags its second parameter
  \<^verbatim>\<open>features\<close>, \<^verbatim>\<open>zx_pager_create\<close> tags its second parameter \<^verbatim>\<open>pager\<close>, and
  \<^verbatim>\<open>zx_pager_create_vmo\<close> tags its sixth parameter \<^verbatim>\<open>out_pager_vmo\<close>; none of these
  is one of the four handle-discipline tags.
\<close>

theorem param_tags_counterexample:
  "syscalls_2 ! 2 \<in> set syscalls \<and>
   name (syscalls_2 ! 2) = ''zx_system_get_features'' \<and>
   tags_of (syscalls_2 ! 2) = [''features''] \<and>
   ''features'' \<notin> set spec_param_tags \<and>
   syscalls_15 ! 2 \<in> set syscalls \<and>
   name (syscalls_15 ! 2) = ''zx_pager_create'' \<and>
   tags_of (syscalls_15 ! 2) = [''pager''] \<and>
   ''pager'' \<notin> set spec_param_tags \<and>
   syscalls_15 ! 4 \<in> set syscalls \<and>
   name (syscalls_15 ! 4) = ''zx_pager_create_vmo'' \<and>
   tags_of (syscalls_15 ! 4) = [''handle_use'', ''handle_use'', ''out_pager_vmo''] \<and>
   ''out_pager_vmo'' \<notin> set spec_param_tags"
proof -
  have "syscalls_2 \<in> set syscalls_parts" and "syscalls_15 \<in> set syscalls_parts"
    by (simp_all add: syscalls_parts_def)
  moreover have "syscalls_2 ! 2 \<in> set syscalls_2" and "syscalls_15 ! 2 \<in> set syscalls_15"
    and "syscalls_15 ! 4 \<in> set syscalls_15"
    by code_simp+
  ultimately have "syscalls_2 ! 2 \<in> set syscalls" and "syscalls_15 ! 2 \<in> set syscalls"
    and "syscalls_15 ! 4 \<in> set syscalls"
    using part_in_syscalls by blast+
  moreover have "name (syscalls_2 ! 2) = ''zx_system_get_features''"
    and "tags_of (syscalls_2 ! 2) = [''features'']"
    and "name (syscalls_15 ! 2) = ''zx_pager_create''"
    and "tags_of (syscalls_15 ! 2) = [''pager'']"
    and "name (syscalls_15 ! 4) = ''zx_pager_create_vmo''"
    and "tags_of (syscalls_15 ! 4) = [''handle_use'', ''handle_use'', ''out_pager_vmo'']"
    by code_simp+
  moreover have "''features'' \<notin> set spec_param_tags" and "''pager'' \<notin> set spec_param_tags"
    and "''out_pager_vmo'' \<notin> set spec_param_tags"
    by (simp_all add: spec_param_tags_def)
  ultimately show ?thesis
    by blast
qed

lemma parts_param_tags:
  "list_all (list_all (\<lambda>d. name d \<in> set other_tag_decls \<or>
      list_all (\<lambda>t. t \<in> set spec_param_tags) (tags_of d))) syscalls_parts"
  by code_simp

text \<open>
  C2, amended. In every declaration other than \<^verbatim>\<open>zx_system_get_features\<close>,
  \<^verbatim>\<open>zx_pager_create\<close>, \<^verbatim>\<open>zx_pager_create_vmo\<close> and their private variants, every
  \<^verbatim>\<open>ZX_SYSCALL_PARAM_ATTR\<close> tag is one of \<^verbatim>\<open>handle_use\<close>, \<^verbatim>\<open>handle_release_always\<close>,
  \<^verbatim>\<open>handle_release\<close> and \<^verbatim>\<open>handle_acquire\<close>.
\<close>

theorem param_tags_four_elsewhere:
  assumes "d \<in> set syscalls" and "name d \<notin> set other_tag_decls"
  shows "set (tags_of d) \<subseteq> set spec_param_tags"
  using in_syscalls [OF parts_param_tags assms(1)] assms(2)
  by (auto simp: list_all_iff)

theorem param_tags_four_elsewhere_witness:
  "syscalls_2 ! 6 \<in> set syscalls \<and> name (syscalls_2 ! 6) = ''zx_handle_close'' \<and>
   name (syscalls_2 ! 6) \<notin> set other_tag_decls \<and>
   tags_of (syscalls_2 ! 6) = [''handle_release_always''] \<and>
   set (tags_of (syscalls_2 ! 6)) \<subseteq> set spec_param_tags"
proof -
  have "syscalls_2 \<in> set syscalls_parts"
    by (simp add: syscalls_parts_def)
  moreover have "syscalls_2 ! 6 \<in> set syscalls_2"
    by code_simp
  ultimately have d: "syscalls_2 ! 6 \<in> set syscalls"
    using part_in_syscalls by blast
  have n: "name (syscalls_2 ! 6) = ''zx_handle_close''"
    and t: "tags_of (syscalls_2 ! 6) = [''handle_release_always'']"
    by code_simp+
  from n have o: "name (syscalls_2 ! 6) \<notin> set other_tag_decls"
    by (simp add: other_tag_decls_def)
  from param_tags_four_elsewhere [OF d o] d n o t show ?thesis
    by blast
qed

text \<open>
  C6, as stated, fails in its closing half. Handles are not always passed by value:
  \<^verbatim>\<open>zx_handle_close_many\<close> takes \<^verbatim>\<open>const zx_handle_t* handles\<close>. And handles are
  returned through out-pointers that are not tagged \<^verbatim>\<open>handle_acquire\<close>: the fourth
  parameter of \<^verbatim>\<open>zx_object_get_child\<close> is an untagged, non-null
  \<^verbatim>\<open>zx_handle_t* out\<close>, and the second parameter of \<^verbatim>\<open>zx_pager_create\<close> is a
  \<^verbatim>\<open>zx_handle_t* out_pager\<close> tagged \<^verbatim>\<open>pager\<close>.
\<close>

theorem handle_pointer_counterexample:
  "syscalls_2 ! 8 \<in> set syscalls \<and> name (syscalls_2 ! 8) = ''zx_handle_close_many'' \<and>
   params (syscalls_2 ! 8) ! 0 =
     \<lparr>tag = None, ptype = ConstPtr ''zx_handle_t'', pname = ''handles''\<rparr> \<and>
   syscalls_3 ! 12 \<in> set syscalls \<and> name (syscalls_3 ! 12) = ''zx_object_get_child'' \<and>
   params (syscalls_3 ! 12) ! 3 =
     \<lparr>tag = None, ptype = Ptr ''zx_handle_t'', pname = ''out''\<rparr> \<and>
   nonnull (syscalls_3 ! 12) = [4] \<and>
   syscalls_15 ! 2 \<in> set syscalls \<and> name (syscalls_15 ! 2) = ''zx_pager_create'' \<and>
   params (syscalls_15 ! 2) ! 1 =
     \<lparr>tag = Some ''pager'', ptype = Ptr ''zx_handle_t'', pname = ''out_pager''\<rparr> \<and>
   Some ''pager'' \<noteq> Some ''handle_acquire''"
proof -
  have "syscalls_2 \<in> set syscalls_parts" and "syscalls_3 \<in> set syscalls_parts"
    and "syscalls_15 \<in> set syscalls_parts"
    by (simp_all add: syscalls_parts_def)
  moreover have "syscalls_2 ! 8 \<in> set syscalls_2" and "syscalls_3 ! 12 \<in> set syscalls_3"
    and "syscalls_15 ! 2 \<in> set syscalls_15"
    by code_simp+
  ultimately have "syscalls_2 ! 8 \<in> set syscalls" and "syscalls_3 ! 12 \<in> set syscalls"
    and "syscalls_15 ! 2 \<in> set syscalls"
    using part_in_syscalls by blast+
  moreover have "name (syscalls_2 ! 8) = ''zx_handle_close_many''"
    and "params (syscalls_2 ! 8) ! 0 =
      \<lparr>tag = None, ptype = ConstPtr ''zx_handle_t'', pname = ''handles''\<rparr>"
    and "name (syscalls_3 ! 12) = ''zx_object_get_child''"
    and "params (syscalls_3 ! 12) ! 3 =
      \<lparr>tag = None, ptype = Ptr ''zx_handle_t'', pname = ''out''\<rparr>"
    and "nonnull (syscalls_3 ! 12) = [4]"
    and "name (syscalls_15 ! 2) = ''zx_pager_create''"
    and "params (syscalls_15 ! 2) ! 1 =
      \<lparr>tag = Some ''pager'', ptype = Ptr ''zx_handle_t'', pname = ''out_pager''\<rparr>"
    by code_simp+
  moreover have "Some ''pager'' \<noteq> Some ''handle_acquire''"
    by simp
  ultimately show ?thesis
    by blast
qed

lemma parts_handle_tags:
  "list_all (list_all (\<lambda>d. list_all (\<lambda>p.
      (tag p = Some ''handle_use'' \<or> tag p = Some ''handle_release'' \<or>
       tag p = Some ''handle_release_always'' \<longleftrightarrow> ptype p = Val ''zx_handle_t'') \<and>
      (tag p = Some ''handle_acquire'' \<longrightarrow> ptype p = Ptr ''zx_handle_t'')) (params d)))
    syscalls_parts"
  by code_simp

lemma parts_handle_pointers:
  "list_all (list_all (\<lambda>d. name d \<in> set other_handle_pointer_decls \<or>
      list_all (\<lambda>p. ptype p = Ptr ''zx_handle_t'' \<or> ptype p = ConstPtr ''zx_handle_t'' \<longrightarrow>
        tag p = Some ''handle_acquire'') (params d))) syscalls_parts"
  by code_simp

text \<open>
  C6, amended. A parameter is tagged \<^verbatim>\<open>handle_use\<close>, \<^verbatim>\<open>handle_release\<close> or
  \<^verbatim>\<open>handle_release_always\<close> exactly when it has the by-value type \<^verbatim>\<open>zx_handle_t\<close>,
  and a parameter tagged \<^verbatim>\<open>handle_acquire\<close> has the pointer type \<^verbatim>\<open>zx_handle_t*\<close>.
  A parameter of type \<^verbatim>\<open>zx_handle_t*\<close> or \<^verbatim>\<open>const zx_handle_t*\<close> is tagged
  \<^verbatim>\<open>handle_acquire\<close> in every declaration other than \<^verbatim>\<open>zx_handle_close_many\<close>,
  \<^verbatim>\<open>zx_object_get_child\<close>, \<^verbatim>\<open>zx_channel_read\<close>, \<^verbatim>\<open>zx_channel_write\<close>,
  \<^verbatim>\<open>zx_interrupt_create\<close>, \<^verbatim>\<open>zx_pager_create\<close>, \<^verbatim>\<open>zx_pager_create_vmo\<close> and their
  private variants.
\<close>

theorem handle_tags_types:
  assumes "d \<in> set syscalls" and "p \<in> set (params d)"
  shows "(tag p = Some ''handle_use'' \<or> tag p = Some ''handle_release'' \<or>
          tag p = Some ''handle_release_always'' \<longleftrightarrow> ptype p = Val ''zx_handle_t'') \<and>
         (tag p = Some ''handle_acquire'' \<longrightarrow> ptype p = Ptr ''zx_handle_t'') \<and>
         (name d \<notin> set other_handle_pointer_decls \<longrightarrow>
            (ptype p = Ptr ''zx_handle_t'' \<or> ptype p = ConstPtr ''zx_handle_t'' \<longrightarrow>
             tag p = Some ''handle_acquire''))"
proof -
  from in_syscalls [OF parts_handle_tags assms(1)] assms(2)
  have "(tag p = Some ''handle_use'' \<or> tag p = Some ''handle_release'' \<or>
       tag p = Some ''handle_release_always'' \<longleftrightarrow> ptype p = Val ''zx_handle_t'') \<and>
      (tag p = Some ''handle_acquire'' \<longrightarrow> ptype p = Ptr ''zx_handle_t'')"
    by (simp add: list_all_iff)
  moreover from in_syscalls [OF parts_handle_pointers assms(1)] assms(2)
  have "name d \<notin> set other_handle_pointer_decls \<longrightarrow>
      (ptype p = Ptr ''zx_handle_t'' \<or> ptype p = ConstPtr ''zx_handle_t'' \<longrightarrow>
       tag p = Some ''handle_acquire'')"
    by (auto simp: list_all_iff)
  ultimately show ?thesis
    by blast
qed

theorem handle_tags_types_witness:
  "syscalls_2 ! 10 \<in> set syscalls \<and> name (syscalls_2 ! 10) = ''zx_handle_duplicate'' \<and>
   name (syscalls_2 ! 10) \<notin> set other_handle_pointer_decls \<and>
   params (syscalls_2 ! 10) ! 0 \<in> set (params (syscalls_2 ! 10)) \<and>
   tag (params (syscalls_2 ! 10) ! 0) = Some ''handle_use'' \<and>
   ptype (params (syscalls_2 ! 10) ! 0) = Val ''zx_handle_t'' \<and>
   params (syscalls_2 ! 10) ! 2 \<in> set (params (syscalls_2 ! 10)) \<and>
   ptype (params (syscalls_2 ! 10) ! 2) = Ptr ''zx_handle_t'' \<and>
   tag (params (syscalls_2 ! 10) ! 2) = Some ''handle_acquire''"
proof -
  have "syscalls_2 \<in> set syscalls_parts"
    by (simp add: syscalls_parts_def)
  moreover have "syscalls_2 ! 10 \<in> set syscalls_2"
    by code_simp
  ultimately have d: "syscalls_2 ! 10 \<in> set syscalls"
    using part_in_syscalls by blast
  have n: "name (syscalls_2 ! 10) = ''zx_handle_duplicate''"
    and p0: "params (syscalls_2 ! 10) ! 0 \<in> set (params (syscalls_2 ! 10))"
    and t0: "tag (params (syscalls_2 ! 10) ! 0) = Some ''handle_use''"
    and p2: "params (syscalls_2 ! 10) ! 2 \<in> set (params (syscalls_2 ! 10))"
    and y2: "ptype (params (syscalls_2 ! 10) ! 2) = Ptr ''zx_handle_t''"
    by code_simp+
  from n have o: "name (syscalls_2 ! 10) \<notin> set other_handle_pointer_decls"
    by (simp add: other_handle_pointer_decls_def)
  from handle_tags_types [OF d p0] t0
  have "ptype (params (syscalls_2 ! 10) ! 0) = Val ''zx_handle_t''"
    by blast
  moreover from handle_tags_types [OF d p2] o y2
  have "tag (params (syscalls_2 ! 10) ! 2) = Some ''handle_acquire''"
    by blast
  ultimately show ?thesis
    using d n o p0 t0 p2 y2 by blast
qed

subsection \<open>Return types and function attributes\<close>

text \<open>
  C3, as stated, fails: \<^verbatim>\<open>zx_cprng_draw\<close> returns \<^verbatim>\<open>void\<close> and is not
  \<^verbatim>\<open>__NO_RETURN\<close>.
\<close>

theorem void_return_counterexample:
  "syscalls_9 ! 10 \<in> set syscalls \<and> name (syscalls_9 ! 10) = ''zx_cprng_draw'' \<and>
   ret (syscalls_9 ! 10) = Val ''void'' \<and> attrs (syscalls_9 ! 10) = [ATTR_LEAF_FN] \<and>
   ATTR_NO_RETURN \<notin> set (attrs (syscalls_9 ! 10))"
proof -
  have "syscalls_9 \<in> set syscalls_parts"
    by (simp add: syscalls_parts_def)
  moreover have "syscalls_9 ! 10 \<in> set syscalls_9"
    by code_simp
  ultimately have "syscalls_9 ! 10 \<in> set syscalls"
    using part_in_syscalls by blast
  moreover have "name (syscalls_9 ! 10) = ''zx_cprng_draw''"
    and "ret (syscalls_9 ! 10) = Val ''void''"
    and a: "attrs (syscalls_9 ! 10) = [ATTR_LEAF_FN]"
    by code_simp+
  moreover from a have "ATTR_NO_RETURN \<notin> set (attrs (syscalls_9 ! 10))"
    by simp
  ultimately show ?thesis
    by blast
qed

lemma parts_return_types:
  "list_all (list_all (\<lambda>d.
      (ret d = Val ''zx_status_t'' \<or> ret d \<in> set raw_value_types \<or> ret d = Val ''void'') \<and>
      (ATTR_NO_RETURN \<in> set (attrs d) \<longrightarrow> ret d = Val ''void'') \<and>
      (ret d = Val ''void'' \<longrightarrow>
         ATTR_NO_RETURN \<in> set (attrs d) \<or> name d \<in> set returning_void_decls)))
    syscalls_parts"
  by code_simp

text \<open>
  C3, amended. The return type of every declaration is \<^verbatim>\<open>zx_status_t\<close>, or a raw
  value type (\<^verbatim>\<open>zx_time_t\<close>, \<^verbatim>\<open>zx_ticks_t\<close>, \<^verbatim>\<open>uint32_t\<close>, \<^verbatim>\<open>uint64_t\<close>), or
  \<^verbatim>\<open>void\<close>. Every \<^verbatim>\<open>__NO_RETURN\<close> declaration returns \<^verbatim>\<open>void\<close>, and \<^verbatim>\<open>void\<close> is the
  return type only of the \<^verbatim>\<open>__NO_RETURN\<close> declarations and of \<^verbatim>\<open>zx_cprng_draw\<close> and
  \<^verbatim>\<open>_zx_cprng_draw\<close>.
\<close>

theorem return_types:
  assumes "d \<in> set syscalls"
  shows "(ret d = Val ''zx_status_t'' \<or> ret d \<in> set raw_value_types \<or> ret d = Val ''void'') \<and>
         (ATTR_NO_RETURN \<in> set (attrs d) \<longrightarrow> ret d = Val ''void'') \<and>
         (ret d = Val ''void'' \<longrightarrow>
            ATTR_NO_RETURN \<in> set (attrs d) \<or> name d \<in> set returning_void_decls)"
  using in_syscalls [OF parts_return_types assms] .

theorem return_types_witness:
  "syscalls_4 ! 16 \<in> set syscalls \<and> name (syscalls_4 ! 16) = ''zx_thread_exit'' \<and>
   ATTR_NO_RETURN \<in> set (attrs (syscalls_4 ! 16)) \<and> ret (syscalls_4 ! 16) = Val ''void''"
proof -
  have "syscalls_4 \<in> set syscalls_parts"
    by (simp add: syscalls_parts_def)
  moreover have "syscalls_4 ! 16 \<in> set syscalls_4"
    by code_simp
  ultimately have d: "syscalls_4 ! 16 \<in> set syscalls"
    using part_in_syscalls by blast
  have n: "name (syscalls_4 ! 16) = ''zx_thread_exit''"
    and a: "ATTR_NO_RETURN \<in> set (attrs (syscalls_4 ! 16))"
    by code_simp+
  from return_types [OF d] a have "ret (syscalls_4 ! 16) = Val ''void''"
    by blast
  with d n a show ?thesis
    by blast
qed

lemma parts_leaf_fn_and_const:
  "list_all (list_all (\<lambda>d. ATTR_LEAF_FN \<in> set (attrs d) \<and>
      (ATTR_CONST \<in> set (attrs d) \<longleftrightarrow> name d \<in> set const_decls) \<and>
      (ATTR_CONST \<in> set (attrs d) \<longrightarrow> params d = [] \<and> ret d \<in> set raw_value_types)))
    syscalls_parts"
  by code_simp

text \<open>
  C9. Every declaration is \<^verbatim>\<open>__LEAF_FN\<close>. The \<^verbatim>\<open>__CONST\<close> declarations are
  \<^verbatim>\<open>zx_ticks_per_second\<close>, \<^verbatim>\<open>zx_system_get_dcache_line_size\<close>,
  \<^verbatim>\<open>zx_system_get_num_cpus\<close> and their private variants, and a \<^verbatim>\<open>__CONST\<close>
  declaration has the parameter list \<^verbatim>\<open>(void)\<close> and returns a raw value.
\<close>

theorem leaf_fn_and_const:
  assumes "d \<in> set syscalls"
  shows "ATTR_LEAF_FN \<in> set (attrs d) \<and>
         (ATTR_CONST \<in> set (attrs d) \<longleftrightarrow> name d \<in> set const_decls) \<and>
         (ATTR_CONST \<in> set (attrs d) \<longrightarrow> params d = [] \<and> ret d \<in> set raw_value_types)"
  using in_syscalls [OF parts_leaf_fn_and_const assms] .

theorem leaf_fn_and_const_witness:
  "syscalls_1 ! 10 \<in> set syscalls \<and> name (syscalls_1 ! 10) = ''zx_ticks_per_second'' \<and>
   attrs (syscalls_1 ! 10) = [ATTR_LEAF_FN, ATTR_CONST] \<and>
   params (syscalls_1 ! 10) = [] \<and> ret (syscalls_1 ! 10) \<in> set raw_value_types"
proof -
  have "syscalls_1 \<in> set syscalls_parts"
    by (simp add: syscalls_parts_def)
  moreover have "syscalls_1 ! 10 \<in> set syscalls_1"
    by code_simp
  ultimately have d: "syscalls_1 ! 10 \<in> set syscalls"
    using part_in_syscalls by blast
  have n: "name (syscalls_1 ! 10) = ''zx_ticks_per_second''"
    and a: "attrs (syscalls_1 ! 10) = [ATTR_LEAF_FN, ATTR_CONST]"
    by code_simp+
  from a have "ATTR_CONST \<in> set (attrs (syscalls_1 ! 10))"
    by simp
  with leaf_fn_and_const [OF d]
  have "params (syscalls_1 ! 10) = [] \<and> ret (syscalls_1 ! 10) \<in> set raw_value_types"
    by blast
  with d n a show ?thesis
    by blast
qed

subsection \<open>Non-null parameters\<close>

lemma parts_nonnull:
  "list_all (list_all (\<lambda>d. list_all (\<lambda>i.
      1 \<le> i \<and> i \<le> length (params d) \<and> is_pointer (ptype (params d ! (i - 1))))
      (nonnull d))) syscalls_parts"
  by code_simp

text \<open>
  C7. Every index listed in a \<^verbatim>\<open>__NONNULL\<close> attribute is a position of the parameter
  list of its declaration (counted from 1), and the parameter at that position has a
  pointer type.
\<close>

theorem nonnull_indexes_pointers:
  assumes "d \<in> set syscalls" and "i \<in> set (nonnull d)"
  shows "1 \<le> i \<and> i \<le> length (params d) \<and> is_pointer (ptype (params d ! (i - 1)))"
  using in_syscalls [OF parts_nonnull assms(1)] assms(2)
  by (simp add: list_all_iff)

theorem nonnull_indexes_pointers_witness:
  "syscalls_3 ! 16 \<in> set syscalls \<and> name (syscalls_3 ! 16) = ''zx_channel_create'' \<and>
   nonnull (syscalls_3 ! 16) = [2, 3] \<and> length (params (syscalls_3 ! 16)) = 3 \<and>
   (3::nat) \<in> set (nonnull (syscalls_3 ! 16)) \<and>
   is_pointer (ptype (params (syscalls_3 ! 16) ! (3 - 1)))"
proof -
  have "syscalls_3 \<in> set syscalls_parts"
    by (simp add: syscalls_parts_def)
  moreover have "syscalls_3 ! 16 \<in> set syscalls_3"
    by code_simp
  ultimately have d: "syscalls_3 ! 16 \<in> set syscalls"
    using part_in_syscalls by blast
  have n: "name (syscalls_3 ! 16) = ''zx_channel_create''"
    and nn: "nonnull (syscalls_3 ! 16) = [2, 3]"
    and l: "length (params (syscalls_3 ! 16)) = 3"
    by code_simp+
  from nn have i: "(3::nat) \<in> set (nonnull (syscalls_3 ! 16))"
    by simp
  from nonnull_indexes_pointers [OF d i] d n nn l i show ?thesis
    by blast
qed

subsection \<open>Nothing but prototypes\<close>

lemma parts_prototypes:
  "list_all (list_all (\<lambda>d. is_prototype (render_decl d))) syscalls_parts"
  by code_simp

text \<open>
  C5. The header is its comment lines followed by one paragraph for each declaration
  of the table, and that paragraph is the declaration printed as
  \<^verbatim>\<open>extern type name(params) attributes;\<close>. Each of these paragraphs is a prototype
  and nothing more: a single declaration closed by its only semicolon, without braces
  and without an equals sign, so without a body or an initialiser.
\<close>

theorem header_only_prototypes:
  "paragraphs header_lines = comment_lines # map render_decl syscalls \<and>
   (\<forall>l \<in> set comment_lines. is_comment l) \<and>
   (\<forall>d \<in> set syscalls. is_prototype (render_decl d))"
proof (intro conjI ballI)
  show "paragraphs header_lines = comment_lines # map render_decl syscalls"
    by (simp only: header_is_rendering paragraphs_render_header)
next
  fix l
  assume "l \<in> set comment_lines"
  then show "is_comment l"
    by (auto simp: comment_lines_def is_comment_def)
next
  fix d
  assume "d \<in> set syscalls"
  with parts_prototypes show "is_prototype (render_decl d)"
    by (rule in_syscalls)
qed

theorem header_only_prototypes_witness:
  "syscalls_1 ! 2 \<in> set syscalls \<and>
   render_decl (syscalls_1 ! 2) =
     [''extern zx_status_t zx_clock_get_new('',
      ''    zx_clock_t clock_id,'',
      ''    zx_time_t* out) __NONNULL((2)) __LEAF_FN;''] \<and>
   is_prototype (render_decl (syscalls_1 ! 2)) \<and>
   hd (paragraphs header_lines) = comment_lines"
proof -
  have "syscalls_1 \<in> set syscalls_parts"
    by (simp add: syscalls_parts_def)
  moreover have "syscalls_1 ! 2 \<in> set syscalls_1"
    by code_simp
  ultimately have d: "syscalls_1 ! 2 \<in> set syscalls"
    using part_in_syscalls by blast
  have printed: "render_decl (syscalls_1 ! 2) =
     [''extern zx_status_t zx_clock_get_new('',
      ''    zx_clock_t clock_id,'',
      ''    zx_time_t* out) __NONNULL((2)) __LEAF_FN;'']"
    by code_simp
  from header_only_prototypes d
  have "is_prototype (render_decl (syscalls_1 ! 2))"
    and "hd (paragraphs header_lines) = comment_lines"
    by simp_all
  with d printed show ?thesis
    by simp
qed

end
